theory Spec2Isabelle
  imports Complex_Main "HOL-Library.Multiset" "HOL-Library.Log_Nat"
begin

section \<open>Numbers, errors and the random source\<close>

text \<open>
  The program computes with JavaScript numbers, which are IEEE binary64 values. They are
  modelled in two layers.

  In the layer of exact reals an arithmetic operation returns its mathematical result. The
  theorems about the geometry of the apertures are stated over this layer, and their
  statements say so. The source produces an infinite or NaN value only by dividing by
  zero; the theorems exclude that with the hypothesis that the aperture's extents are
  positive and the margin is not negative.

  In the binary64 layer the result of every operation is rounded to the nearest double,
  ties to even (\<open>fl\<close> below). It is used where rounding decides a claim: for the counts of
  \<open>generateShuffledAssignments\<close>, and for the functions \<open>wrapOnBounds_f64\<close>,
  \<open>getRandomPosition_f64\<close> and \<open>isOutside_f64\<close>, which are \<open>wrapOnBounds\<close>,
  \<open>getRandomPosition\<close> and \<open>isOutside\<close> with every operation rounded.

  \<open>Math.random()\<close> is modelled by an explicit supply of future draws, each in \<open>[0, 1)\<close>:
  a function takes the supply and returns the rest of it with its result.
\<close>

datatype error = RangeError | UnknownReinsertType string

type_synonym rng = "nat \<Rightarrow> real"

definition uniform01 :: "rng \<Rightarrow> bool" where
  "uniform01 g = (\<forall>n. 0 \<le> g n \<and> g n < 1)"

definition Math_random :: "rng \<Rightarrow> real \<times> rng" where
  "Math_random g = (g 0, \<lambda>n. g (Suc n))"

text \<open>\<open>randomBetween = (min, max) => min + Math.random() * (max - min)\<close>\<close>

definition randomBetween :: "real \<Rightarrow> real \<Rightarrow> rng \<Rightarrow> real \<times> rng" where
  "randomBetween lo hi g = (case Math_random g of (u, g') \<Rightarrow> (lo + u * (hi - lo), g'))"

text \<open>
  The remainder operator \<open>%\<close> of JavaScript on numbers: the quotient is truncated towards
  zero, so the result has the sign of the dividend. (For a zero divisor the source
  yields NaN; the model is used with a positive divisor only.)
\<close>

definition js_trunc :: "real \<Rightarrow> int" where
  "js_trunc q = (if 0 \<le> q then \<lfloor>q\<rfloor> else \<lceil>q\<rceil>)"

definition js_rem :: "real \<Rightarrow> real \<Rightarrow> real" where
  "js_rem a b = a - b * of_int (js_trunc (a / b))"

subsection \<open>Rounding to binary64\<close>

text \<open>
  \<open>round_even\<close> rounds a real to the nearest integer, a tie to the even one. \<open>binade x\<close> is
  the exponent \<open>e\<close> with \<open>2^e \<le> |x| < 2^(e+1)\<close>. \<open>fl x\<close> is the multiple of \<open>2^(e-52)\<close> nearest
  to \<open>x\<close>: the double nearest to \<open>x\<close>, for a 53-bit significand. The exponent is not
  bounded, so overflow and subnormal numbers are not modelled; no value below comes near
  either.
\<close>

definition round_even :: "real \<Rightarrow> int" where
  "round_even r =
     (let f = \<lfloor>r\<rfloor>; d = r - of_int f
      in if d < 1 / 2 then f else if d > 1 / 2 then f + 1 else if even f then f else f + 1)"

definition binade :: "real \<Rightarrow> int" where
  "binade x = (if 1 \<le> \<bar>x\<bar> then bitlen \<lfloor>\<bar>x\<bar>\<rfloor> - 1 else - bitlen (\<lceil>1 / \<bar>x\<bar>\<rceil> - 1))"

definition fl :: "real \<Rightarrow> real" where
  "fl x = (if x = 0 then 0
           else of_int (round_even (x / 2 powi (binade x - 52))) * 2 powi (binade x - 52))"

text \<open>
  \<open>Math.PI\<close> is the double nearest to \<open>\<pi>\<close>. \<open>Math.sqrt\<close> is correctly rounded by IEEE 754.
  ECMAScript leaves the accuracy of \<open>Math.cos\<close> and \<open>Math.sin\<close> to the implementation; the
  model takes the correctly rounded value.
\<close>

definition Math_PI :: real where
  "Math_PI = 884279719003555 / 281474976710656"

definition Math_cos :: "real \<Rightarrow> real" where
  "Math_cos x = fl (cos x)"

definition Math_sin :: "real \<Rightarrow> real" where
  "Math_sin x = fl (sin x)"

definition Math_sqrt :: "real \<Rightarrow> real" where
  "Math_sqrt x = fl (sqrt x)"

text \<open>The partial sums of the Maclaurin series of \<open>cos\<close> and \<open>sin\<close>, used to bracket their values.\<close>

definition cos_poly :: "nat \<Rightarrow> real \<Rightarrow> real" where
  "cos_poly n x = (\<Sum>m<n. cos_coeff m * x ^ m)"

definition sin_poly :: "nat \<Rightarrow> real \<Rightarrow> real" where
  "sin_poly n x = (\<Sum>m<n. sin_coeff m * x ^ m)"

text \<open>A supply of draws that starts with the given ones and goes on with 0.\<close>

definition draws_list :: "real list \<Rightarrow> rng" where
  "draws_list us = (\<lambda>n. if n < length us then us ! n else 0)"

definition randomBetween_f64 :: "real \<Rightarrow> real \<Rightarrow> rng \<Rightarrow> real \<times> rng" where
  "randomBetween_f64 lo hi g =
     (case Math_random g of (u, g') \<Rightarrow> (fl (lo + fl (u * fl (hi - lo))), g'))"

section \<open>Dots and apertures\<close>

datatype FrameMovement = Coherent | Opposite | RandomTeleport | RandomWalk | RandomDirection

text \<open>The fields \<open>x\<close> and \<open>y\<close> of the source's \<open>Dot\<close> are \<open>dot_x\<close> and \<open>dot_y\<close> here.\<close>

record Dot =
  dot_x :: real
  dot_y :: real
  randomDirX :: real
  randomDirY :: real
  lifeCount :: real
  assignedMovement :: FrameMovement

datatype ApertureShape = Circle | Ellipse | Square | Rectangle

text \<open>
  \<open>createAperture\<close> returns an object whose methods close over \<open>centerX\<close>, \<open>centerY\<close>,
  \<open>horizontalAxis\<close> and \<open>verticalAxis\<close>, and whose implementation is chosen by the shape.
  The record holds the captured variables; the methods are functions of it.
\<close>

record Aperture =
  shape :: ApertureShape
  centerX :: real
  centerY :: real
  horizontalAxis :: real
  verticalAxis :: real

definition createAperture ::
  "ApertureShape \<Rightarrow> real \<Rightarrow> real \<Rightarrow> real \<Rightarrow> real \<Rightarrow> Aperture" where
  "createAperture sh width height cx cy =
     \<lparr> shape = sh, centerX = cx, centerY = cy,
       horizontalAxis = width / 2,
       verticalAxis = (if sh = Circle \<or> sh = Square then width / 2 else height / 2) \<rparr>"

definition elliptical :: "Aperture \<Rightarrow> bool" where
  "elliptical ap = (shape ap = Circle \<or> shape ap = Ellipse)"

definition positive_extents :: "Aperture \<Rightarrow> bool" where
  "positive_extents ap = (0 < horizontalAxis ap \<and> 0 < verticalAxis ap)"

definition wrapOnBounds :: "Aperture \<Rightarrow> real \<Rightarrow> real \<Rightarrow> real \<times> real" where
  "wrapOnBounds ap px py =
     (let w = horizontalAxis ap * 2;
          h = verticalAxis ap * 2;
          left = centerX ap - horizontalAxis ap;
          top = centerY ap - verticalAxis ap
      in (js_rem (js_rem (px - left) w + w) w + left,
          js_rem (js_rem (py - top) h + h) h + top))"

definition getRandomPosition :: "Aperture \<Rightarrow> rng \<Rightarrow> (real \<times> real) \<times> rng" where
  "getRandomPosition ap g =
     (if elliptical ap then
        (case randomBetween (- pi) pi g of (phi, g1) \<Rightarrow>
         case Math_random g1 of (u, g2) \<Rightarrow>
           let rho = sqrt u
           in ((cos phi * rho * horizontalAxis ap + centerX ap,
                sin phi * rho * verticalAxis ap + centerY ap), g2))
      else
        (case randomBetween (centerX ap - horizontalAxis ap)
                            (centerX ap + horizontalAxis ap) g of (px, g1) \<Rightarrow>
         case randomBetween (centerY ap - verticalAxis ap)
                            (centerY ap + verticalAxis ap) g1 of (py, g2) \<Rightarrow>
           ((px, py), g2)))"

definition isOutside :: "Aperture \<Rightarrow> real \<Rightarrow> real \<Rightarrow> real \<Rightarrow> bool" where
  "isOutside ap px py margin =
     (let effH = horizontalAxis ap + margin;
          effV = verticalAxis ap + margin
      in if elliptical ap then
           (let dx = (px - centerX ap) / effH;
                dy = (py - centerY ap) / effV
            in dx * dx + dy * dy > 1)
         else
           (px < centerX ap - effH \<or> px > centerX ap + effH \<or>
            py < centerY ap - effV \<or> py > centerY ap + effV))"

text \<open>
  The same three functions with every operation rounded to binary64. The operator \<open>%\<close> on
  doubles is exact (the remainder of two doubles is a double), so \<open>js_rem\<close> is not rounded.
\<close>

definition wrapOnBounds_f64 :: "Aperture \<Rightarrow> real \<Rightarrow> real \<Rightarrow> real \<times> real" where
  "wrapOnBounds_f64 ap px py =
     (let w = fl (horizontalAxis ap * 2);
          h = fl (verticalAxis ap * 2);
          left = fl (centerX ap - horizontalAxis ap);
          top = fl (centerY ap - verticalAxis ap)
      in (fl (js_rem (fl (js_rem (fl (px - left)) w + w)) w + left),
          fl (js_rem (fl (js_rem (fl (py - top)) h + h)) h + top)))"

definition getRandomPosition_f64 :: "Aperture \<Rightarrow> rng \<Rightarrow> (real \<times> real) \<times> rng" where
  "getRandomPosition_f64 ap g =
     (if elliptical ap then
        (case randomBetween_f64 (- Math_PI) Math_PI g of (phi, g1) \<Rightarrow>
         case Math_random g1 of (u, g2) \<Rightarrow>
           let rho = Math_sqrt u
           in ((fl (fl (fl (Math_cos phi * rho) * horizontalAxis ap) + centerX ap),
                fl (fl (fl (Math_sin phi * rho) * verticalAxis ap) + centerY ap)), g2))
      else
        (case randomBetween_f64 (fl (centerX ap - horizontalAxis ap))
                                (fl (centerX ap + horizontalAxis ap)) g of (px, g1) \<Rightarrow>
         case randomBetween_f64 (fl (centerY ap - verticalAxis ap))
                                (fl (centerY ap + verticalAxis ap)) g1 of (py, g2) \<Rightarrow>
           ((px, py), g2)))"

definition isOutside_f64 :: "Aperture \<Rightarrow> real \<Rightarrow> real \<Rightarrow> real \<Rightarrow> bool" where
  "isOutside_f64 ap px py margin =
     (let effH = fl (horizontalAxis ap + margin);
          effV = fl (verticalAxis ap + margin)
      in if elliptical ap then
           (let dx = fl (fl (px - centerX ap) / effH);
                dy = fl (fl (py - centerY ap) / effV)
            in fl (fl (dx * dx) + fl (dy * dy)) > 1)
         else
           (px < fl (centerX ap - effH) \<or> px > fl (centerX ap + effH) \<or>
            py < fl (centerY ap - effV) \<or> py > fl (centerY ap + effV)))"


text \<open>
  \<open>getOppositePositionSimple\<close>, elliptical family: mirror through the centre and clamp to
  the boundary; rectangular family: flip an out-of-range coordinate to the opposite edge.
\<close>

definition getOppositePositionSimple :: "Aperture \<Rightarrow> Dot \<Rightarrow> real \<times> real" where
  "getOppositePositionSimple ap dot =
     (if elliptical ap then
        (let mirroredX = 2 * centerX ap - dot_x dot;
             mirroredY = 2 * centerY ap - dot_y dot;
             mx = (mirroredX - centerX ap) / horizontalAxis ap;
             my = (mirroredY - centerY ap) / verticalAxis ap;
             dist = sqrt (mx * mx + my * my)
         in if dist > 1 then
              (centerX ap + (mx / dist) * horizontalAxis ap,
               centerY ap + (my / dist) * verticalAxis ap)
            else (mirroredX, mirroredY))
      else
        (let left = centerX ap - horizontalAxis ap;
             right = centerX ap + horizontalAxis ap;
             top = centerY ap - verticalAxis ap;
             bottom = centerY ap + verticalAxis ap;
             px = (if dot_x dot < left then right
                   else if dot_x dot > right then left else dot_x dot);
             py = (if dot_y dot < top then bottom
                   else if dot_y dot > bottom then top else dot_y dot)
         in (px, py)))"

text \<open>
  The ray-cast of the elliptical family. A direction argument that is \<open>undefined\<close> in the
  source is \<open>None\<close>. \<open>Number.isFinite(t)\<close> can fail on finite inputs only when the
  divisor \<open>A\<close> is zero, so it is modelled by \<open>A \<noteq> 0\<close>. The three coefficients of the
  quadratic (the source's locals \<open>A\<close>, \<open>B\<close>, \<open>C\<close>, with \<open>xRel\<close>, \<open>yRel\<close>, \<open>a2\<close>, \<open>b2\<close>)
  are definitions of their own.
\<close>

definition quadratic_A :: "Aperture \<Rightarrow> real \<Rightarrow> real \<Rightarrow> real" where
  "quadratic_A ap dx dy =
     (let a2 = horizontalAxis ap * horizontalAxis ap;
          b2 = verticalAxis ap * verticalAxis ap
      in (dx * dx) / a2 + (dy * dy) / b2)"

definition quadratic_B :: "Aperture \<Rightarrow> Dot \<Rightarrow> real \<Rightarrow> real \<Rightarrow> real" where
  "quadratic_B ap dot dx dy =
     (let xRel = dot_x dot - centerX ap;
          yRel = dot_y dot - centerY ap;
          a2 = horizontalAxis ap * horizontalAxis ap;
          b2 = verticalAxis ap * verticalAxis ap
      in (xRel * dx) / a2 + (yRel * dy) / b2)"

definition quadratic_C :: "Aperture \<Rightarrow> Dot \<Rightarrow> real" where
  "quadratic_C ap dot =
     (let xRel = dot_x dot - centerX ap;
          yRel = dot_y dot - centerY ap;
          a2 = horizontalAxis ap * horizontalAxis ap;
          b2 = verticalAxis ap * verticalAxis ap
      in (xRel * xRel) / a2 + (yRel * yRel) / b2 - 1)"

definition getOppositePosition_elliptical ::
  "Aperture \<Rightarrow> Dot \<Rightarrow> real option \<Rightarrow> real option \<Rightarrow> real \<times> real" where
  "getOppositePosition_elliptical ap dot dirX dirY =
     (case (dirX, dirY) of
        (Some dX, Some dY) \<Rightarrow>
          (let dirMagSq = dX * dX + dY * dY
           in if dirMagSq > 1 / 10 ^ 10 then
                (let mag = sqrt dirMagSq;
                     dx = dX / mag;
                     dy = dY / mag;
                     A = quadratic_A ap dx dy;
                     B = quadratic_B ap dot dx dy;
                     C = quadratic_C ap dot;
                     discriminant = B * B - A * C
                 in if discriminant \<ge> 0 then
                      (let t = (B + sqrt discriminant) / A
                       in if t > 0 \<and> A \<noteq> 0 then (dot_x dot - dx * t, dot_y dot - dy * t)
                          else getOppositePositionSimple ap dot)
                    else getOppositePositionSimple ap dot)
              else getOppositePositionSimple ap dot)
      | _ \<Rightarrow> getOppositePositionSimple ap dot)"

text \<open>
  The slab method of the rectangular family uses \<open>-Infinity\<close> for an axis the ray is
  parallel to, so its parameters are numbers extended by that value. \<open>slab_times\<close> computes
  the source's locals \<open>tEnter\<close> and \<open>tExit\<close>; the test \<open>tExit > 0 && tEnter <= tExit &&
  Number.isFinite(tExit)\<close> fails when \<open>tExit\<close> is \<open>-Infinity\<close>.
\<close>

datatype xnum = NegInfinity | Finite real

fun Math_min :: "xnum \<Rightarrow> xnum \<Rightarrow> xnum" where
  "Math_min (Finite a) (Finite b) = Finite (min a b)"
| "Math_min _ _ = NegInfinity"

fun Math_max :: "xnum \<Rightarrow> xnum \<Rightarrow> xnum" where
  "Math_max (Finite a) (Finite b) = Finite (max a b)"
| "Math_max NegInfinity b = b"
| "Math_max a NegInfinity = a"

fun xnum_le :: "xnum \<Rightarrow> xnum \<Rightarrow> bool" where
  "xnum_le NegInfinity _ = True"
| "xnum_le (Finite a) NegInfinity = False"
| "xnum_le (Finite a) (Finite b) = (a \<le> b)"

definition slab_times :: "Aperture \<Rightarrow> Dot \<Rightarrow> real \<Rightarrow> real \<Rightarrow> xnum \<times> xnum" where
  "slab_times ap dot dx dy =
     (let left = centerX ap - horizontalAxis ap;
          right = centerX ap + horizontalAxis ap;
          top = centerY ap - verticalAxis ap;
          bottom = centerY ap + verticalAxis ap;
          tx1 = (if dx \<noteq> 0 then Finite ((left - dot_x dot) / dx) else NegInfinity);
          tx2 = (if dx \<noteq> 0 then Finite ((right - dot_x dot) / dx) else NegInfinity);
          ty1 = (if dy \<noteq> 0 then Finite ((top - dot_y dot) / dy) else NegInfinity);
          ty2 = (if dy \<noteq> 0 then Finite ((bottom - dot_y dot) / dy) else NegInfinity);
          tEnter = Math_max (Math_min tx1 tx2) (Math_min ty1 ty2);
          tExit = Math_min (Math_max tx1 tx2) (Math_max ty1 ty2)
      in (tEnter, tExit))"

definition getOppositePosition_rectangular ::
  "Aperture \<Rightarrow> Dot \<Rightarrow> real option \<Rightarrow> real option \<Rightarrow> real \<times> real" where
  "getOppositePosition_rectangular ap dot dirX dirY =
     (case (dirX, dirY) of
        (Some dX, Some dY) \<Rightarrow>
          (let mag = sqrt (dX * dX + dY * dY)
           in if mag < 1 / 10 ^ 10 then getOppositePositionSimple ap dot
              else
                (let dx = - dX / mag;
                     dy = - dY / mag
                 in case slab_times ap dot dx dy of
                      (tEnter, Finite te) \<Rightarrow>
                        if te > 0 \<and> xnum_le tEnter (Finite te) then
                          (dot_x dot + dx * te, dot_y dot + dy * te)
                        else getOppositePositionSimple ap dot
                    | (tEnter, NegInfinity) \<Rightarrow> getOppositePositionSimple ap dot))
      | _ \<Rightarrow> getOppositePositionSimple ap dot)"

definition getOppositePosition ::
  "Aperture \<Rightarrow> Dot \<Rightarrow> real option \<Rightarrow> real option \<Rightarrow> real \<times> real" where
  "getOppositePosition ap dot dirX dirY =
     (if elliptical ap then getOppositePosition_elliptical ap dot dirX dirY
      else getOppositePosition_rectangular ap dot dirX dirY)"

section \<open>Creating and updating a dot\<close>

text \<open>
  In \<open>createDot\<close> the angle is 0 for every role but \<open>randomDirection\<close>, and the stored
  direction is guarded by the truthiness of the angle (\<open>theta ? Math.cos(theta) : 0\<close>).
\<close>

definition createDot :: "FrameMovement \<Rightarrow> real \<Rightarrow> Aperture \<Rightarrow> rng \<Rightarrow> Dot \<times> rng" where
  "createDot movement maxDotLife aperture g =
     (case getRandomPosition aperture g of ((px, py), g1) \<Rightarrow>
      case (if movement = RandomDirection then randomBetween (- pi) pi g1 else (0, g1)) of
        (theta, g2) \<Rightarrow>
      case randomBetween 0 (if maxDotLife > 0 then maxDotLife else 0) g2 of (life, g3) \<Rightarrow>
        (\<lparr> dot_x = px, dot_y = py,
           randomDirX = (if theta \<noteq> 0 then cos theta else 0),
           randomDirY = (if theta \<noteq> 0 then - sin theta else 0),
           lifeCount = life,
           assignedMovement = movement \<rparr>, g3))"

text \<open>
  \<open>updateDot\<close> in four parts: the life check, the reassignment (\<open>reassignMovement\<close>), the
  \<open>switch\<close> over the movement (\<open>moveDirection\<close>; \<open>randomTeleport\<close> returns before it),
  and the reinsertion dispatch (\<open>reinsert\<close>). The reinsertion mode is the string the
  source compares at run time; the \<open>throw\<close> of the last branch is the \<open>Inl\<close> result.
\<close>

definition reassignMovement ::
  "Dot \<Rightarrow> Dot \<Rightarrow> FrameMovement option \<Rightarrow> rng \<Rightarrow> FrameMovement \<times> Dot \<times> rng" where
  "reassignMovement dot updated reassignMovementTo g =
     (case reassignMovementTo of
        None \<Rightarrow> (assignedMovement dot, updated, g)
      | Some m \<Rightarrow>
          if m = RandomDirection then
            (case randomBetween (- pi) pi g of (theta, g1) \<Rightarrow>
               (m, updated\<lparr> assignedMovement := m,
                           randomDirX := cos theta, randomDirY := - sin theta \<rparr>, g1))
          else (m, updated\<lparr> assignedMovement := m \<rparr>, g))"

definition moveDirection ::
  "FrameMovement \<Rightarrow> Dot \<Rightarrow> real \<times> real \<Rightarrow> rng \<Rightarrow> (real \<times> real) \<times> rng" where
  "moveDirection method updated coherentDir g =
     (case method of
        Coherent \<Rightarrow> ((fst coherentDir, snd coherentDir), g)
      | Opposite \<Rightarrow> ((- fst coherentDir, - snd coherentDir), g)
      | RandomTeleport \<Rightarrow> ((0, 0), g)
      | RandomWalk \<Rightarrow>
          (case randomBetween (- pi) pi g of (theta, g1) \<Rightarrow> ((cos theta, - sin theta), g1))
      | RandomDirection \<Rightarrow> ((randomDirX updated, randomDirY updated), g))"

definition reinsert ::
  "Aperture \<Rightarrow> string \<Rightarrow> Dot \<Rightarrow> real \<Rightarrow> real \<Rightarrow> rng \<Rightarrow> error + Dot \<times> rng" where
  "reinsert aperture reinsertType updated moveDirX moveDirY g =
     (if reinsertType = ''random'' then
        (case getRandomPosition aperture g of ((px, py), g1) \<Rightarrow>
           Inr (updated\<lparr> dot_x := px, dot_y := py \<rparr>, g1))
      else if reinsertType = ''oppositeSimple'' then
        (case getOppositePositionSimple aperture updated of (px, py) \<Rightarrow>
           Inr (updated\<lparr> dot_x := px, dot_y := py \<rparr>, g))
      else if reinsertType = ''opposite'' then
        (case getOppositePosition aperture updated (Some moveDirX) (Some moveDirY) of (px, py) \<Rightarrow>
           Inr (updated\<lparr> dot_x := px, dot_y := py \<rparr>, g))
      else if reinsertType = ''wrap'' then
        (case wrapOnBounds aperture (dot_x updated) (dot_y updated) of (px, py) \<Rightarrow>
           Inr (updated\<lparr> dot_x := px, dot_y := py \<rparr>, g))
      else Inl (UnknownReinsertType reinsertType))"

definition updateDot ::
  "Dot \<Rightarrow> real \<Rightarrow> real \<Rightarrow> real \<Rightarrow> Aperture \<Rightarrow> string \<Rightarrow> real \<Rightarrow> real \<times> real \<Rightarrow>
   FrameMovement option \<Rightarrow> rng \<Rightarrow> error + Dot \<times> rng" where
  "updateDot dot distance deltaTimeMs maxDotLife aperture reinsertType dotRadius coherentDir
     reassignMovementTo g =
     (let updated = dot\<lparr> lifeCount := lifeCount dot + deltaTimeMs \<rparr>
      in if maxDotLife > 0 \<and> lifeCount updated \<ge> maxDotLife then
           (case getRandomPosition aperture g of ((px, py), g1) \<Rightarrow>
              Inr (updated\<lparr> dot_x := px, dot_y := py, lifeCount := 0 \<rparr>, g1))
         else
           (case reassignMovement dot updated reassignMovementTo g of
              (method, updated1, g1) \<Rightarrow>
                if method = RandomTeleport then
                  (case getRandomPosition aperture g1 of ((px, py), g2) \<Rightarrow>
                     Inr (updated1\<lparr> dot_x := px, dot_y := py \<rparr>, g2))
                else
                  (case moveDirection method updated1 coherentDir g1 of
                     ((moveDirX, moveDirY), g2) \<Rightarrow>
                       let moved = updated1\<lparr> dot_x := dot_x updated1 + moveDirX * distance,
                                             dot_y := dot_y updated1 + moveDirY * distance \<rparr>
                       in if isOutside aperture (dot_x moved) (dot_y moved) dotRadius then
                            reinsert aperture reinsertType moved moveDirX moveDirY g2
                          else Inr (moved, g2))))"

text \<open>
  The conditions under which \<open>updateDot\<close> resamples the position and returns early, and
  the movement that drives the \<open>switch\<close>.
\<close>

definition lifeExpired :: "Dot \<Rightarrow> real \<Rightarrow> real \<Rightarrow> bool" where
  "lifeExpired dot deltaTimeMs maxDotLife =
     (maxDotLife > 0 \<and> lifeCount dot + deltaTimeMs \<ge> maxDotLife)"

definition movementOf :: "Dot \<Rightarrow> FrameMovement option \<Rightarrow> FrameMovement" where
  "movementOf dot reassignMovementTo =
     (case reassignMovementTo of None \<Rightarrow> assignedMovement dot | Some m \<Rightarrow> m)"

text \<open>
  \<open>reinsertionRuns\<close>: the call reaches the reinsertion dispatch, that is, it neither
  respawns nor teleports and the moved dot is out of bounds.
\<close>

definition reinsertionRuns ::
  "Dot \<Rightarrow> real \<Rightarrow> real \<Rightarrow> real \<Rightarrow> Aperture \<Rightarrow> real \<Rightarrow> real \<times> real \<Rightarrow>
   FrameMovement option \<Rightarrow> rng \<Rightarrow> bool" where
  "reinsertionRuns dot distance deltaTimeMs maxDotLife aperture dotRadius coherentDir
     reassignMovementTo g =
     (\<not> lifeExpired dot deltaTimeMs maxDotLife \<and>
      (case reassignMovement dot (dot\<lparr> lifeCount := lifeCount dot + deltaTimeMs \<rparr>)
              reassignMovementTo g of
         (method, updated1, g1) \<Rightarrow>
           (method \<noteq> RandomTeleport) \<and>
           (case moveDirection method updated1 coherentDir g1 of
              ((moveDirX, moveDirY), g2) \<Rightarrow>
                isOutside aperture (dot_x updated1 + moveDirX * distance)
                  (dot_y updated1 + moveDirY * distance) dotRadius)))"

definition inBoundingBox :: "Aperture \<Rightarrow> real \<Rightarrow> real \<Rightarrow> bool" where
  "inBoundingBox ap px py =
     (centerX ap - horizontalAxis ap \<le> px \<and> px < centerX ap + horizontalAxis ap \<and>
      centerY ap - verticalAxis ap \<le> py \<and> py < centerY ap + verticalAxis ap)"

definition constant_draws :: "real \<Rightarrow> rng" where
  "constant_draws u = (\<lambda>n. u)"

section \<open>Role assignment\<close>

text \<open>
  \<open>Array(n)\<close> raises a \<open>RangeError\<close> unless \<open>n\<close> is an integer with \<open>0 \<le> n < 2^32\<close>;
  \<open>Array(n).fill(v)\<close> is then \<open>n\<close> copies of \<open>v\<close>.
\<close>

definition Array_fill :: "real \<Rightarrow> 'a \<Rightarrow> error + 'a list" where
  "Array_fill len v =
     (if 0 \<le> len \<and> len < 2 ^ 32 \<and> of_int \<lfloor>len\<rfloor> = len
      then Inr (replicate (nat \<lfloor>len\<rfloor>) v) else Inl RangeError)"

text \<open>
  \<open>shuffle\<close> is imported from the package \<open>@adriansteffan/reactive\<close>, so
  \<open>generateShuffledAssignments\<close> takes it as a parameter: a function of the list and the
  random source. The products \<open>dotCount * coherence\<close> and \<open>dotCount * opposite\<close> and the two
  subtractions are rounded to binary64, as the source computes them; \<open>Math.floor\<close> of a
  double is exact.
\<close>

definition generateShuffledAssignments ::
  "(FrameMovement list \<Rightarrow> rng \<Rightarrow> FrameMovement list \<times> rng) \<Rightarrow>
   real \<Rightarrow> real \<Rightarrow> real \<Rightarrow> FrameMovement \<Rightarrow> rng \<Rightarrow> error + FrameMovement list \<times> rng" where
  "generateShuffledAssignments shuffle_fn dotCount coherence opposite noiseMovement g =
     (let nCoherent = of_int \<lfloor>fl (dotCount * coherence)\<rfloor>;
          nOpposite = of_int \<lfloor>fl (dotCount * opposite)\<rfloor>
      in case Array_fill nCoherent Coherent of
           Inl e \<Rightarrow> Inl e
         | Inr cs \<Rightarrow>
             (case Array_fill nOpposite Opposite of
                Inl e \<Rightarrow> Inl e
              | Inr os \<Rightarrow>
                  (case Array_fill (fl (fl (dotCount - nCoherent) - nOpposite)) noiseMovement of
                     Inl e \<Rightarrow> Inl e
                   | Inr ns \<Rightarrow> Inr (shuffle_fn (cs @ os @ ns) g))))"

text \<open>
  Modelled from the spec: the library function \<open>shuffle\<close>, which is not among the sources.
  The spec asks for "a uniformly shuffled permutation of that array (every permutation
  equally likely; implement via a Fisher-Yates-class shuffle)": for \<open>i\<close> from the last index
  down to 1, swap the entries at \<open>i\<close> and at \<open>floor(Math.random() * (i + 1))\<close>.
\<close>

fun shuffle_from :: "nat \<Rightarrow> 'a list \<Rightarrow> rng \<Rightarrow> 'a list \<times> rng" where
  "shuffle_from 0 xs g = (xs, g)"
| "shuffle_from (Suc i) xs g =
     (case Math_random g of (u, g1) \<Rightarrow>
        let j = nat \<lfloor>u * real (Suc i + 1)\<rfloor>
        in shuffle_from i (xs[Suc i := xs ! j, j := xs ! Suc i]) g1)"

definition shuffle :: "'a list \<Rightarrow> rng \<Rightarrow> 'a list \<times> rng" where
  "shuffle xs g = shuffle_from (length xs - 1) xs g"

section \<open>Refresh calibration and trial timing\<close>

definition CALIBRATION_FRAME_COUNT :: nat where
  "CALIBRATION_FRAME_COUNT = 10"

definition EMA_ALPHA :: real where
  "EMA_ALPHA = 1 / 10"

text \<open>
  The refs of the component that the refresh estimate and the trial timing of the frame
  callback \<open>animate\<close> read and write. A ref that is \<open>undefined\<close> or \<open>null\<close> in the source
  is \<open>None\<close>. (\<open>lastUpdateTimeRef\<close>, which the callback initialises in the same place and
  which only the dot update reads, is left out.)
\<close>

record LoopState =
  lastFrameTimeRef :: "real option"
  frameCountRef :: nat
  frameIntervalsRef :: "real list"
  estimatedFrameIntervalRef :: "real option"
  isCalibrated :: bool
  startTimeRef :: "real option"
  stimulusHiddenRef :: bool
  trialEndedRef :: bool

definition initialLoopState :: LoopState where
  "initialLoopState =
     \<lparr> lastFrameTimeRef = None, frameCountRef = 0, frameIntervalsRef = [],
       estimatedFrameIntervalRef = None, isCalibrated = False, startTimeRef = None,
       stimulusHiddenRef = False, trialEndedRef = False \<rparr>"

text \<open>
  The refresh-rate update of \<open>animate\<close>. In the smoothing branch a \<open>null\<close> estimate counts
  as 0 in the arithmetic of the source.
\<close>

definition updateRefreshEstimate :: "real \<Rightarrow> LoopState \<Rightarrow> LoopState" where
  "updateRefreshEstimate frameDelta st =
     (if frameDelta > 0 \<and> frameDelta < 500 then
        (if \<not> isCalibrated st then
           (let st1 = st\<lparr> frameIntervalsRef := frameIntervalsRef st @ [frameDelta] \<rparr>
            in if length (frameIntervalsRef st1) \<ge> CALIBRATION_FRAME_COUNT then
                 (let sorted = sort (frameIntervalsRef st1);
                      mid = length sorted div 2
                  in st1\<lparr> estimatedFrameIntervalRef :=
                            Some (if length sorted mod 2 \<noteq> 0 then sorted ! mid
                                  else (sorted ! (mid - 1) + sorted ! mid) / 2),
                          isCalibrated := True \<rparr>)
               else st1)
         else
           st\<lparr> estimatedFrameIntervalRef :=
                 Some (EMA_ALPHA * frameDelta
                       + (1 - EMA_ALPHA) * (case estimatedFrameIntervalRef st of
                                              None \<Rightarrow> 0 | Some est \<Rightarrow> est)) \<rparr>)
      else st)"

definition feedDeltas :: "real list \<Rightarrow> LoopState \<Rightarrow> LoopState" where
  "feedDeltas deltas st = foldl (\<lambda>s frameDelta. updateRefreshEstimate frameDelta s) st deltas"

definition validDelta :: "real \<Rightarrow> bool" where
  "validDelta frameDelta = (frameDelta > 0 \<and> frameDelta < 500)"

record TrialConfig =
  fixationTime :: real
  duration :: real
  stimulusDuration :: "real option"

text \<open>
  What one frame reports: the corrected elapsed time it computed (none when the start
  time is not set) and whether it called \<open>setStimulusVisible(false)\<close> and
  \<open>setTrialEnded(true)\<close>.
\<close>

record FrameReport =
  correctedElapsed :: "real option"
  stimulusHideFired :: bool
  trialEndFired :: bool

text \<open>
  \<open>isCalibrated.current && estimatedFrameIntervalRef.current ? ... * 0.5 : 0\<close>: an estimate
  that is \<open>null\<close> or 0 is falsy.
\<close>

definition halfFrameCorrection :: "LoopState \<Rightarrow> real" where
  "halfFrameCorrection st =
     (case estimatedFrameIntervalRef st of
        None \<Rightarrow> 0
      | Some est \<Rightarrow> if isCalibrated st \<and> est \<noteq> 0 then est * (1 / 2) else 0)"

text \<open>
  The part of \<open>animate\<close> from the frame delta to the trial timing, for a frame on which the
  callback does not return at once (canvas present, state \<open>trialEnded\<close> false). The rest of
  the callback draws and updates the dots and writes none of the refs of \<open>LoopState\<close>.
\<close>

definition animate :: "TrialConfig \<Rightarrow> real \<Rightarrow> LoopState \<Rightarrow> LoopState \<times> FrameReport" where
  "animate cfg timestamp st0 =
     (let lastFrameTime = (case lastFrameTimeRef st0 of None \<Rightarrow> timestamp | Some l \<Rightarrow> l);
          frameDelta = timestamp - lastFrameTime;
          st1 = st0\<lparr> lastFrameTimeRef := Some timestamp, frameCountRef := frameCountRef st0 + 1 \<rparr>;
          st2 = updateRefreshEstimate frameDelta st1
      in case startTimeRef st2 of
           None \<Rightarrow>
             (st2, \<lparr> correctedElapsed = None, stimulusHideFired = False, trialEndFired = False \<rparr>)
         | Some startTime \<Rightarrow>
             (let elapsed = timestamp - startTime;
                  corrected = elapsed + halfFrameCorrection st2;
                  effectiveStimulusDuration =
                    fixationTime cfg + (case stimulusDuration cfg of
                                          None \<Rightarrow> duration cfg | Some sd \<Rightarrow> sd);
                  hide = (effectiveStimulusDuration > 0 \<and> \<not> stimulusHiddenRef st2
                          \<and> corrected \<ge> effectiveStimulusDuration);
                  st3 = (if hide then st2\<lparr> stimulusHiddenRef := True \<rparr> else st2);
                  totalDuration = fixationTime cfg + duration cfg;
                  ended = (duration cfg > 0 \<and> \<not> trialEndedRef st3 \<and> corrected \<ge> totalDuration);
                  st4 = (if ended then st3\<lparr> trialEndedRef := True \<rparr> else st3)
              in (st4, \<lparr> correctedElapsed = Some corrected, stimulusHideFired = hide,
                         trialEndFired = ended \<rparr>)))"

text \<open>
  The component around the frame callback. Besides the refs it holds the React state that
  the callback closes over: \<open>trialEnded\<close>, \<open>fixationComplete\<close> and \<open>stimulusVisible\<close>.
  \<open>animate\<close> is a \<open>useCallback\<close> with these three among its dependencies, and the effect

  \<^verbatim>\<open>useEffect(() => { startTimeRef.current = performance.now(); ... }, [animate])\<close>

  runs at mount and again whenever \<open>animate\<close> is re-created, that is whenever one of the
  three changes: \<open>startEffect\<close>, with the reading of \<open>performance.now()\<close> as argument.
  \<open>storeEffect\<close> is the effect that seeds the refresh estimate from
  \<open>store._reactiveScreenRefreshRate\<close> (\<open>None\<close>: not a number). \<open>mount\<close> is the first render
  followed by the two effects.
\<close>

record Component =
  refs :: LoopState
  trialEnded :: bool
  fixationComplete :: bool
  stimulusVisible :: bool

definition startEffect :: "real \<Rightarrow> Component \<Rightarrow> Component" where
  "startEffect now c = c\<lparr> refs := (refs c)\<lparr> startTimeRef := Some now \<rparr> \<rparr>"

definition storeEffect :: "real option \<Rightarrow> Component \<Rightarrow> Component" where
  "storeEffect refreshRate c =
     (case refreshRate of
        None \<Rightarrow> c
      | Some rate \<Rightarrow>
          if rate \<ge> 20 \<and> rate \<le> 300
          then c\<lparr> refs := (refs c)\<lparr> estimatedFrameIntervalRef := Some (1000 / rate),
                                     isCalibrated := True \<rparr> \<rparr>
          else c)"

definition mount :: "TrialConfig \<Rightarrow> real option \<Rightarrow> real \<Rightarrow> Component" where
  "mount cfg refreshRate now =
     startEffect now
       (storeEffect refreshRate
          \<lparr> refs = initialLoopState, trialEnded = False,
            fixationComplete = (fixationTime cfg \<le> 0), stimulusVisible = True \<rparr>)"

text \<open>
  One call of the frame callback, with its timestamp and the reading of
  \<open>performance.now()\<close> for the effect that may follow. The callback returns at once when
  its \<open>trialEnded\<close> is true; otherwise it runs the timing part \<open>animate\<close>, and
  \<open>setStimulusVisible(false)\<close> and \<open>setTrialEnded(true)\<close> change the state. A changed state
  re-creates \<open>animate\<close>, so the start effect runs again. The result holds the report of the
  frame, or \<open>None\<close> when the callback returned at once.
\<close>

definition animationFrame ::
  "TrialConfig \<Rightarrow> real \<Rightarrow> real \<Rightarrow> Component \<Rightarrow> Component \<times> FrameReport option" where
  "animationFrame cfg timestamp now c =
     (if trialEnded c then (c, None)
      else
        (case animate cfg timestamp (refs c) of (r, report) \<Rightarrow>
           let c1 = c\<lparr> refs := r,
                       stimulusVisible := (if stimulusHideFired report then False
                                           else stimulusVisible c),
                       trialEnded := (if trialEndFired report then True else trialEnded c) \<rparr>
           in ((if stimulusVisible c1 = stimulusVisible c \<and> trialEnded c1 = trialEnded c
                then c1 else startEffect now c1), Some report)))"

text \<open>
  The callback of \<open>setTimeout(() => setFixationComplete(true), fixationTime)\<close>, which the
  component installs when \<open>fixationTime > 0\<close>: the state changes from false to true,
  \<open>animate\<close> is re-created and the start effect runs again.
\<close>

definition fixationTimer :: "real \<Rightarrow> Component \<Rightarrow> Component" where
  "fixationTimer now c =
     (if fixationComplete c then c else startEffect now (c\<lparr> fixationComplete := True \<rparr>))"

text \<open>
  A run of the component over a sequence of events: frames and the fixation timer. The
  result lists, for every frame whose callback did not return at once, its timestamp and
  its report.
\<close>

datatype Event = AnimationFrame real real | FixationTimer real

fun run :: "TrialConfig \<Rightarrow> Event list \<Rightarrow> Component \<Rightarrow> (real \<times> FrameReport) list" where
  "run cfg [] c = []"
| "run cfg (AnimationFrame timestamp now # es) c =
     (case animationFrame cfg timestamp now c of
        (c', None) \<Rightarrow> run cfg es c'
      | (c', Some report) \<Rightarrow> (timestamp, report) # run cfg es c')"
| "run cfg (FixationTimer now # es) c = run cfg es (fixationTimer now c)"

section \<open>Properties of the rounding\<close>

text \<open>\<open>fl\<close> keeps the sign, and returns an integer below \<open>2^53\<close> unchanged.\<close>

lemma round_even_of_int: "round_even (of_int j) = j"
  by (simp add: round_even_def)

lemma round_even_nonneg: "0 \<le> r \<Longrightarrow> 0 \<le> round_even r"
  by (simp add: round_even_def Let_def)

lemma fl_nonneg: "0 \<le> x \<Longrightarrow> 0 \<le> fl x"
proof (cases "x = 0")
  case True
  then show ?thesis by (simp add: fl_def)
next
  case False
  assume "0 \<le> x"
  then have "0 \<le> x / 2 powi (binade x - 52)" by simp
  then have "0 \<le> round_even (x / 2 powi (binade x - 52))" by (rule round_even_nonneg)
  then show ?thesis using False by (simp add: fl_def)
qed

lemma binade_of_int:
  assumes "k \<noteq> 0" "\<bar>k\<bar> < 2 ^ 53"
  shows "0 \<le> binade (of_int k) \<and> binade (of_int k) \<le> 52"
proof -
  have a: "(1::real) \<le> \<bar>of_int k\<bar>" using assms(1) by (simp flip: of_int_abs)
  have f: "\<lfloor>\<bar>of_int k :: real\<bar>\<rfloor> = \<bar>k\<bar>" by (simp flip: of_int_abs)
  have b: "binade (of_int k) = bitlen \<bar>k\<bar> - 1" using a f by (simp add: binade_def)
  have "bitlen \<bar>k\<bar> \<le> 53" using assms(2) by (simp add: bitlen_le_iff_power)
  moreover have "1 \<le> bitlen \<bar>k\<bar>" using assms(1) by (simp add: bitlen_ge_iff_power)
  ultimately show ?thesis unfolding b by simp
qed

lemma fl_of_int:
  assumes "\<bar>k\<bar> < 2 ^ 53"
  shows "fl (of_int k) = of_int k"
proof (cases "k = 0")
  case True
  then show ?thesis by (simp add: fl_def)
next
  case False
  define n where "n = binade (of_int k)"
  have n: "0 \<le> n" "n \<le> 52" using binade_of_int [OF False assms] by (simp_all add: n_def)
  define s where "s = nat (52 - n)"
  have e: "(2::real) powi (n - 52) = inverse (2 ^ s)"
    using n by (simp add: power_int_def s_def power_one_over inverse_eq_divide)
  have "of_int k / (2::real) powi (n - 52) = of_int (k * 2 ^ s)"
    unfolding e by (simp add: field_simps)
  then have "round_even (of_int k / 2 powi (n - 52)) = k * 2 ^ s"
    by (simp only: round_even_of_int)
  then show ?thesis using False unfolding fl_def n_def [symmetric] e by simp
qed

lemma fl_of_nat: "n < 2 ^ 53 \<Longrightarrow> fl (real n) = real n"
  using fl_of_int [of "int n"] by simp

text \<open>
  \<open>fl\<close> is rounding to nearest: if \<open>x\<close> lies in the binade of exponent \<open>n\<close> and within half a
  unit in the last place of the multiple \<open>m * 2^(n-52)\<close>, then \<open>fl x\<close> is that multiple.
\<close>

lemma binade_bounds:
  assumes "x \<noteq> 0"
  shows "2 powi binade x \<le> \<bar>x\<bar> \<and> \<bar>x\<bar> < 2 powi (binade x + 1)"
proof (cases "1 \<le> \<bar>x\<bar>")
  case True
  define m where "m = \<lfloor>\<bar>x\<bar>\<rfloor>"
  have m: "0 < m" using True by (simp add: m_def)
  have b: "binade x = bitlen m - 1" using True by (simp add: binade_def m_def)
  have b1: "1 \<le> bitlen m" using m by (simp add: bitlen_ge_iff_power)
  from bitlen_bounds [OF m]
  have lo: "2 ^ nat (bitlen m - 1) \<le> m" and hi: "m < 2 ^ nat (bitlen m)" by simp_all
  have A: "(2::real) ^ nat (bitlen m - 1) \<le> of_int m" using lo by simp
  have B: "of_int m \<le> \<bar>x\<bar>" by (simp add: m_def)
  have l: "(2::real) ^ nat (bitlen m - 1) \<le> \<bar>x\<bar>" using A B by linarith
  have "m + 1 \<le> 2 ^ nat (bitlen m)" using hi by simp
  then have C: "real_of_int (m + 1) \<le> 2 ^ nat (bitlen m)"
    by (simp only: of_int_le_numeral_power_cancel_iff)
  have D: "\<bar>x\<bar> < of_int (m + 1)" unfolding m_def by linarith
  have h: "\<bar>x\<bar> < (2::real) ^ nat (bitlen m)" using C D by linarith
  show ?thesis unfolding b using l h b1 by (simp add: power_int_def)
next
  case False
  define y where "y = 1 / \<bar>x\<bar>"
  have x: "0 < \<bar>x\<bar>" "\<bar>x\<bar> < 1" using assms False by simp_all
  have y: "1 < y" unfolding y_def using x by simp
  define j where "j = \<lceil>y\<rceil> - 1"
  have j: "0 < j" unfolding j_def using y by linarith
  have b: "binade x = - bitlen j" using False by (simp add: binade_def j_def y_def)
  have b1: "1 \<le> bitlen j" using j by (simp add: bitlen_ge_iff_power)
  from bitlen_bounds [OF j]
  have lo: "2 ^ nat (bitlen j - 1) \<le> j" and hi: "j < 2 ^ nat (bitlen j)" by simp_all
  have "j + 1 \<le> 2 ^ nat (bitlen j)" using hi by simp
  then have C: "real_of_int (j + 1) \<le> 2 ^ nat (bitlen j)"
    by (simp only: of_int_le_numeral_power_cancel_iff)
  have D: "y \<le> of_int (j + 1)" unfolding j_def by simp
  have yh: "y \<le> 2 ^ nat (bitlen j)" using C D by linarith
  have A: "(2::real) ^ nat (bitlen j - 1) \<le> of_int j" using lo by simp
  have B: "of_int j < y" unfolding j_def by linarith
  have yl: "2 ^ nat (bitlen j - 1) < y" using A B by linarith
  have l: "inverse (2 ^ nat (bitlen j)) \<le> \<bar>x\<bar>"
  proof -
    have "1 / \<bar>x\<bar> \<le> 2 ^ nat (bitlen j)" using yh by (simp add: y_def)
    then have "1 \<le> 2 ^ nat (bitlen j) * \<bar>x\<bar>" using x by (simp add: field_simps)
    then show ?thesis by (simp add: field_simps)
  qed
  have h: "\<bar>x\<bar> < inverse (2 ^ nat (bitlen j - 1))"
  proof -
    have "2 ^ nat (bitlen j - 1) < 1 / \<bar>x\<bar>" using yl by (simp add: y_def)
    then have "2 ^ nat (bitlen j - 1) * \<bar>x\<bar> < 1" using x by (simp add: field_simps)
    then show ?thesis by (simp add: field_simps)
  qed
  have p1: "(2::real) powi (- bitlen j) = inverse (2 ^ nat (bitlen j))"
    using b1 by (simp add: power_int_def power_one_over inverse_eq_divide)
  have p2: "(2::real) powi (- bitlen j + 1) = inverse (2 ^ nat (bitlen j - 1))"
  proof (cases "bitlen j = 1")
    case True
    then show ?thesis by simp
  next
    case False
    then have "- bitlen j + 1 < 0" using b1 by simp
    moreover have "nat (- (- bitlen j + 1)) = nat (bitlen j - 1)" by simp
    ultimately show ?thesis
      by (simp add: power_int_def power_one_over inverse_eq_divide)
  qed
  show ?thesis unfolding b p1 p2 using l h by simp
qed

lemma binade_unique:
  assumes "2 powi n \<le> \<bar>x\<bar>" "\<bar>x\<bar> < 2 powi (n + 1)"
  shows "binade x = n"
proof -
  have nz: "x \<noteq> 0"
  proof
    assume "x = 0"
    then have "(2::real) powi n \<le> 0" using assms(1) by simp
    moreover have "0 < (2::real) powi n" by simp
    ultimately show False by linarith
  qed
  note b = binade_bounds [OF nz]
  have "(2::real) powi n < 2 powi (binade x + 1)" using assms(1) b by linarith
  then have 1: "n < binade x + 1"
    using power_int_increasing [of "binade x + 1" n "2::real"] by (cases "n < binade x + 1") auto
  have "(2::real) powi binade x < 2 powi (n + 1)" using assms(2) b by linarith
  then have 2: "binade x < n + 1"
    using power_int_increasing [of "n + 1" "binade x" "2::real"] by (cases "binade x < n + 1") auto
  show ?thesis using 1 2 by simp
qed

lemma round_even_nearest:
  assumes "\<bar>r - of_int m\<bar> < 1 / 2"
  shows "round_even r = m"
proof -
  have "of_int m - 1 / 2 < r" "r < of_int m + 1 / 2" using assms by linarith+
  then consider (lo) "\<lfloor>r\<rfloor> = m - 1" "r - of_int (m - 1) > 1 / 2"
    | (hi) "\<lfloor>r\<rfloor> = m" "r - of_int m < 1 / 2"
    by (cases "of_int m \<le> r") (auto simp: floor_eq_iff)
  then show ?thesis
    by cases (simp_all add: round_even_def Let_def)
qed

lemma fl_nearest:
  assumes "2 powi n \<le> \<bar>x\<bar>" "\<bar>x\<bar> < 2 powi (n + 1)"
    and "\<bar>x / 2 powi (n - 52) - of_int m\<bar> < 1 / 2"
  shows "fl x = of_int m * 2 powi (n - 52)"
proof -
  have nz: "x \<noteq> 0"
  proof
    assume "x = 0"
    then have "(2::real) powi n \<le> 0" using assms(1) by simp
    moreover have "0 < (2::real) powi n" by simp
    ultimately show False by linarith
  qed
  have b: "binade x = n" using assms(1,2) by (rule binade_unique)
  show ?thesis using nz by (simp add: fl_def b round_even_nearest [OF assms(3)])
qed

subsection \<open>Bracketing a cosine and a sine\<close>

text \<open>
  The remainder of the Maclaurin series brackets \<open>cos x\<close> and \<open>sin x\<close> between rationals.
  The angle \<open>3404131496398451 / 2^50\<close> is the absolute value of the one that
  \<open>randomBetween(-Math.PI, Math.PI)\<close> returns for the draw \<open>77/4096\<close>; its powers are
  bounded by rationals whose denominators divide \<open>2^80\<close>, and the partial sums of order 34 and 35
  then place \<open>cos\<close> and \<open>sin\<close> of it within half a unit in the last place of a double.
\<close>

lemma cos_taylor_bound: "\<bar>cos x - cos_poly n x\<bar> \<le> \<bar>x\<bar> ^ n / fact n"
proof -
  obtain t where t: "cos x = (\<Sum>m<n. cos_coeff m * x ^ m)
      + (cos (t + 1 / 2 * real n * pi) / fact n) * x ^ n"
    using Maclaurin_cos_expansion [of x n] by blast
  have "\<bar>cos x - cos_poly n x\<bar> = \<bar>cos (t + 1 / 2 * real n * pi)\<bar> * (\<bar>x\<bar> ^ n / fact n)"
    unfolding cos_poly_def t by (simp add: abs_mult power_abs)
  also have "\<dots> \<le> 1 * (\<bar>x\<bar> ^ n / fact n)"
    by (intro mult_right_mono) simp_all
  finally show ?thesis by simp
qed

lemma sin_taylor_bound: "\<bar>sin x - sin_poly n x\<bar> \<le> \<bar>x\<bar> ^ n / fact n"
  using Maclaurin_sin_bound [of x n] by (simp add: sin_poly_def divide_inverse mult.commute)


lemma pow_bounds_mult:
  fixes x :: real
  assumes "0 \<le> a" "a \<le> x ^ m" "x ^ m \<le> b" "0 \<le> c" "c \<le> x ^ n" "x ^ n \<le> d"
    and "a' \<le> a * c" "b * d \<le> b'"
  shows "a' \<le> x ^ (m + n) \<and> x ^ (m + n) \<le> b'"
proof -
  have "a * c \<le> x ^ m * x ^ n" using assms(1,2,4,5) by (intro mult_mono) simp_all
  moreover have "0 \<le> x ^ m" using assms(1,2) by linarith
  then have "x ^ m * x ^ n \<le> b * d" using assms(3,6,1,2,4,5) by (intro mult_mono) linarith+
  ultimately show ?thesis using assms(7,8) by (simp add: power_add)
qed


lemma angle_power_bounds:
  fixes x :: real
  assumes x: "x = 3404131496398451 / 1125899906842624"
  shows e2: "(11588111244771957213584155199401 / 1267650600228229401496703205376) \<le> x ^ 2 \<and> x ^ 2 \<le> (11588111244771957213584155199401 / 1267650600228229401496703205376)"
    and e4: "(50512147896010385469556879 / 604462909807314587353088) \<le> x ^ 4 \<and> x ^ 4 \<le> (101024295792020770939113759 / 1208925819614629174706176)"
    and e6: "(461752149153683744480805313 / 604462909807314587353088) \<le> x ^ 6 \<and> x ^ 6 \<le> (230876074576841872240402659 / 302231454903657293676544)"
    and e8: "(8442129512567657843351677923 / 1208925819614629174706176) \<le> x ^ 8 \<and> x ^ 8 \<le> (8442129512567657843351678015 / 1208925819614629174706176)"
    and e10: "(77172949641481131971314655709 / 1208925819614629174706176) \<le> x ^ 10 \<and> x ^ 10 \<le> (77172949641481131971314656551 / 1208925819614629174706176)"
    and e12: "(352734706776322524262835899143 / 604462909807314587353088) \<le> x ^ 12 \<and> x ^ 12 \<le> (22045919173520157766427243937 / 37778931862957161709568)"
    and e14: "(6448983688849464188277192827601 / 1208925819614629174706176) \<le> x ^ 14 \<and> x ^ 14 \<le> (1612245922212366047069298224493 / 302231454903657293676544)"
    and e16: "(58952790610167070283345643567459 / 1208925819614629174706176) \<le> x ^ 16 \<and> x ^ 16 \<le> (29476395305083535141672822105375 / 604462909807314587353088)"
    and e18: "(134727876841096479790241624579375 / 302231454903657293676544) \<le> x ^ 18 \<and> x ^ 18 \<le> (269455753682192959580483252099043 / 604462909807314587353088)"
    and e20: "(615801240627927592179422842055717 / 151115727451828646838272) \<le> x ^ 20 \<and> x ^ 20 \<le> (1231602481255855184358845697550643 / 302231454903657293676544)"
    and e22: "(45034322737071177155930040583601773 / 1208925819614629174706176) \<le> x ^ 22 \<and> x ^ 22 \<le> (45034322737071177155930041075014941 / 1208925819614629174706176)"
    and e24: "(411677114826583218118578752520870321 / 1208925819614629174706176) \<le> x ^ 24 \<and> x ^ 24 \<le> (411677114826583218118578757013078551 / 1208925819614629174706176)"
    and e26: "(3763308440573694033198008033958857145 / 1208925819614629174706176) \<le> x ^ 26 \<and> x ^ 26 \<le> (1881654220286847016599004037511982533 / 604462909807314587353088)"
    and e28: "(34401937607969979349015125652432996739 / 1208925819614629174706176) \<le> x ^ 28 \<and> x ^ 28 \<le> (17200968803984989674507563013912949893 / 604462909807314587353088)"
    and e30: "(314482145131384100509856021357590357063 / 1208925819614629174706176) \<le> x ^ 30 \<and> x ^ 30 \<le> (157241072565692050254928012394605008237 / 604462909807314587353088)"
    and e32: "(718702393550100209857103013101713264099 / 302231454903657293676544) \<le> x ^ 32 \<and> x ^ 32 \<le> (718702393550100209857103020944172052791 / 302231454903657293676544)"
    and e34: "(6569951757087466103759795753574803777585 / 302231454903657293676544) \<le> x ^ 34 \<and> x ^ 34 \<le> (1642487939271866525939948956316479677657 / 75557863725914323419136)"
proof -
  show p2: "(11588111244771957213584155199401 / 1267650600228229401496703205376) \<le> x ^ 2 \<and> x ^ 2 \<le> (11588111244771957213584155199401 / 1267650600228229401496703205376)" unfolding x by (simp add: power2_eq_square)
  show p4: "(50512147896010385469556879 / 604462909807314587353088) \<le> x ^ 4 \<and> x ^ 4 \<le> (101024295792020770939113759 / 1208925819614629174706176)"
    using pow_bounds_mult [of "(11588111244771957213584155199401 / 1267650600228229401496703205376)" x 2 "(11588111244771957213584155199401 / 1267650600228229401496703205376)" "(11588111244771957213584155199401 / 1267650600228229401496703205376)" 2 "(11588111244771957213584155199401 / 1267650600228229401496703205376)" "(50512147896010385469556879 / 604462909807314587353088)" "(101024295792020770939113759 / 1208925819614629174706176)"]
      p2 p2 by simp
  show p6: "(461752149153683744480805313 / 604462909807314587353088) \<le> x ^ 6 \<and> x ^ 6 \<le> (230876074576841872240402659 / 302231454903657293676544)"
    using pow_bounds_mult [of "(50512147896010385469556879 / 604462909807314587353088)" x 4 "(101024295792020770939113759 / 1208925819614629174706176)" "(11588111244771957213584155199401 / 1267650600228229401496703205376)" 2 "(11588111244771957213584155199401 / 1267650600228229401496703205376)" "(461752149153683744480805313 / 604462909807314587353088)" "(230876074576841872240402659 / 302231454903657293676544)"]
      p4 p2 by simp
  show p8: "(8442129512567657843351677923 / 1208925819614629174706176) \<le> x ^ 8 \<and> x ^ 8 \<le> (8442129512567657843351678015 / 1208925819614629174706176)"
    using pow_bounds_mult [of "(461752149153683744480805313 / 604462909807314587353088)" x 6 "(230876074576841872240402659 / 302231454903657293676544)" "(11588111244771957213584155199401 / 1267650600228229401496703205376)" 2 "(11588111244771957213584155199401 / 1267650600228229401496703205376)" "(8442129512567657843351677923 / 1208925819614629174706176)" "(8442129512567657843351678015 / 1208925819614629174706176)"]
      p6 p2 by simp
  show p10: "(77172949641481131971314655709 / 1208925819614629174706176) \<le> x ^ 10 \<and> x ^ 10 \<le> (77172949641481131971314656551 / 1208925819614629174706176)"
    using pow_bounds_mult [of "(8442129512567657843351677923 / 1208925819614629174706176)" x 8 "(8442129512567657843351678015 / 1208925819614629174706176)" "(11588111244771957213584155199401 / 1267650600228229401496703205376)" 2 "(11588111244771957213584155199401 / 1267650600228229401496703205376)" "(77172949641481131971314655709 / 1208925819614629174706176)" "(77172949641481131971314656551 / 1208925819614629174706176)"]
      p8 p2 by simp
  show p12: "(352734706776322524262835899143 / 604462909807314587353088) \<le> x ^ 12 \<and> x ^ 12 \<le> (22045919173520157766427243937 / 37778931862957161709568)"
    using pow_bounds_mult [of "(77172949641481131971314655709 / 1208925819614629174706176)" x 10 "(77172949641481131971314656551 / 1208925819614629174706176)" "(11588111244771957213584155199401 / 1267650600228229401496703205376)" 2 "(11588111244771957213584155199401 / 1267650600228229401496703205376)" "(352734706776322524262835899143 / 604462909807314587353088)" "(22045919173520157766427243937 / 37778931862957161709568)"]
      p10 p2 by simp
  show p14: "(6448983688849464188277192827601 / 1208925819614629174706176) \<le> x ^ 14 \<and> x ^ 14 \<le> (1612245922212366047069298224493 / 302231454903657293676544)"
    using pow_bounds_mult [of "(352734706776322524262835899143 / 604462909807314587353088)" x 12 "(22045919173520157766427243937 / 37778931862957161709568)" "(11588111244771957213584155199401 / 1267650600228229401496703205376)" 2 "(11588111244771957213584155199401 / 1267650600228229401496703205376)" "(6448983688849464188277192827601 / 1208925819614629174706176)" "(1612245922212366047069298224493 / 302231454903657293676544)"]
      p12 p2 by simp
  show p16: "(58952790610167070283345643567459 / 1208925819614629174706176) \<le> x ^ 16 \<and> x ^ 16 \<le> (29476395305083535141672822105375 / 604462909807314587353088)"
    using pow_bounds_mult [of "(6448983688849464188277192827601 / 1208925819614629174706176)" x 14 "(1612245922212366047069298224493 / 302231454903657293676544)" "(11588111244771957213584155199401 / 1267650600228229401496703205376)" 2 "(11588111244771957213584155199401 / 1267650600228229401496703205376)" "(58952790610167070283345643567459 / 1208925819614629174706176)" "(29476395305083535141672822105375 / 604462909807314587353088)"]
      p14 p2 by simp
  show p18: "(134727876841096479790241624579375 / 302231454903657293676544) \<le> x ^ 18 \<and> x ^ 18 \<le> (269455753682192959580483252099043 / 604462909807314587353088)"
    using pow_bounds_mult [of "(58952790610167070283345643567459 / 1208925819614629174706176)" x 16 "(29476395305083535141672822105375 / 604462909807314587353088)" "(11588111244771957213584155199401 / 1267650600228229401496703205376)" 2 "(11588111244771957213584155199401 / 1267650600228229401496703205376)" "(134727876841096479790241624579375 / 302231454903657293676544)" "(269455753682192959580483252099043 / 604462909807314587353088)"]
      p16 p2 by simp
  show p20: "(615801240627927592179422842055717 / 151115727451828646838272) \<le> x ^ 20 \<and> x ^ 20 \<le> (1231602481255855184358845697550643 / 302231454903657293676544)"
    using pow_bounds_mult [of "(134727876841096479790241624579375 / 302231454903657293676544)" x 18 "(269455753682192959580483252099043 / 604462909807314587353088)" "(11588111244771957213584155199401 / 1267650600228229401496703205376)" 2 "(11588111244771957213584155199401 / 1267650600228229401496703205376)" "(615801240627927592179422842055717 / 151115727451828646838272)" "(1231602481255855184358845697550643 / 302231454903657293676544)"]
      p18 p2 by simp
  show p22: "(45034322737071177155930040583601773 / 1208925819614629174706176) \<le> x ^ 22 \<and> x ^ 22 \<le> (45034322737071177155930041075014941 / 1208925819614629174706176)"
    using pow_bounds_mult [of "(615801240627927592179422842055717 / 151115727451828646838272)" x 20 "(1231602481255855184358845697550643 / 302231454903657293676544)" "(11588111244771957213584155199401 / 1267650600228229401496703205376)" 2 "(11588111244771957213584155199401 / 1267650600228229401496703205376)" "(45034322737071177155930040583601773 / 1208925819614629174706176)" "(45034322737071177155930041075014941 / 1208925819614629174706176)"]
      p20 p2 by simp
  show p24: "(411677114826583218118578752520870321 / 1208925819614629174706176) \<le> x ^ 24 \<and> x ^ 24 \<le> (411677114826583218118578757013078551 / 1208925819614629174706176)"
    using pow_bounds_mult [of "(45034322737071177155930040583601773 / 1208925819614629174706176)" x 22 "(45034322737071177155930041075014941 / 1208925819614629174706176)" "(11588111244771957213584155199401 / 1267650600228229401496703205376)" 2 "(11588111244771957213584155199401 / 1267650600228229401496703205376)" "(411677114826583218118578752520870321 / 1208925819614629174706176)" "(411677114826583218118578757013078551 / 1208925819614629174706176)"]
      p22 p2 by simp
  show p26: "(3763308440573694033198008033958857145 / 1208925819614629174706176) \<le> x ^ 26 \<and> x ^ 26 \<le> (1881654220286847016599004037511982533 / 604462909807314587353088)"
    using pow_bounds_mult [of "(411677114826583218118578752520870321 / 1208925819614629174706176)" x 24 "(411677114826583218118578757013078551 / 1208925819614629174706176)" "(11588111244771957213584155199401 / 1267650600228229401496703205376)" 2 "(11588111244771957213584155199401 / 1267650600228229401496703205376)" "(3763308440573694033198008033958857145 / 1208925819614629174706176)" "(1881654220286847016599004037511982533 / 604462909807314587353088)"]
      p24 p2 by simp
  show p28: "(34401937607969979349015125652432996739 / 1208925819614629174706176) \<le> x ^ 28 \<and> x ^ 28 \<le> (17200968803984989674507563013912949893 / 604462909807314587353088)"
    using pow_bounds_mult [of "(3763308440573694033198008033958857145 / 1208925819614629174706176)" x 26 "(1881654220286847016599004037511982533 / 604462909807314587353088)" "(11588111244771957213584155199401 / 1267650600228229401496703205376)" 2 "(11588111244771957213584155199401 / 1267650600228229401496703205376)" "(34401937607969979349015125652432996739 / 1208925819614629174706176)" "(17200968803984989674507563013912949893 / 604462909807314587353088)"]
      p26 p2 by simp
  show p30: "(314482145131384100509856021357590357063 / 1208925819614629174706176) \<le> x ^ 30 \<and> x ^ 30 \<le> (157241072565692050254928012394605008237 / 604462909807314587353088)"
    using pow_bounds_mult [of "(34401937607969979349015125652432996739 / 1208925819614629174706176)" x 28 "(17200968803984989674507563013912949893 / 604462909807314587353088)" "(11588111244771957213584155199401 / 1267650600228229401496703205376)" 2 "(11588111244771957213584155199401 / 1267650600228229401496703205376)" "(314482145131384100509856021357590357063 / 1208925819614629174706176)" "(157241072565692050254928012394605008237 / 604462909807314587353088)"]
      p28 p2 by simp
  show p32: "(718702393550100209857103013101713264099 / 302231454903657293676544) \<le> x ^ 32 \<and> x ^ 32 \<le> (718702393550100209857103020944172052791 / 302231454903657293676544)"
    using pow_bounds_mult [of "(314482145131384100509856021357590357063 / 1208925819614629174706176)" x 30 "(157241072565692050254928012394605008237 / 604462909807314587353088)" "(11588111244771957213584155199401 / 1267650600228229401496703205376)" 2 "(11588111244771957213584155199401 / 1267650600228229401496703205376)" "(718702393550100209857103013101713264099 / 302231454903657293676544)" "(718702393550100209857103020944172052791 / 302231454903657293676544)"]
      p30 p2 by simp
  show p34: "(6569951757087466103759795753574803777585 / 302231454903657293676544) \<le> x ^ 34 \<and> x ^ 34 \<le> (1642487939271866525939948956316479677657 / 75557863725914323419136)"
    using pow_bounds_mult [of "(718702393550100209857103013101713264099 / 302231454903657293676544)" x 32 "(718702393550100209857103020944172052791 / 302231454903657293676544)" "(11588111244771957213584155199401 / 1267650600228229401496703205376)" 2 "(11588111244771957213584155199401 / 1267650600228229401496703205376)" "(6569951757087466103759795753574803777585 / 302231454903657293676544)" "(1642487939271866525939948956316479677657 / 75557863725914323419136)"]
      p32 p2 by simp
qed

lemma angle_odd_power_bounds:
  fixes x :: real
  assumes x: "x = 3404131496398451 / 1125899906842624"
  shows o3: "(16706646811590194445062291 / 604462909807314587353088) \<le> x ^ 3 \<and> x ^ 3 \<le> (33413293623180388890124583 / 1208925819614629174706176)"
    and o5: "(305444547172487726813963169 / 1208925819614629174706176) \<le> x ^ 5 \<and> x ^ 5 \<le> (305444547172487726813963173 / 1208925819614629174706176)"
    and o7: "(2792193204583757521306992499 / 1208925819614629174706176) \<le> x ^ 7 \<and> x ^ 7 \<le> (1396096602291878760653496265 / 604462909807314587353088)"
    and o9: "(6381144273072451432042168497 / 302231454903657293676544) \<le> x ^ 9 \<and> x ^ 9 \<le> (25524577092289805728168674267 / 1208925819614629174706176)"
    and o11: "(116665285674127913569223563135 / 604462909807314587353088) \<le> x ^ 11 \<and> x ^ 11 \<le> (233330571348255827138447128817 / 1208925819614629174706176)"
    and o13: "(533242483595831208619076392393 / 302231454903657293676544) \<le> x ^ 13 \<and> x ^ 13 \<le> (2132969934383324834476305592847 / 1208925819614629174706176)"
    and o15: "(19498348264843493856307986734131 / 1208925819614629174706176) \<le> x ^ 15 \<and> x ^ 15 \<le> (19498348264843493856307986946897 / 1208925819614629174706176)"
    and o17: "(178242355379023624935003614705527 / 1208925819614629174706176) \<le> x ^ 17 \<and> x ^ 17 \<le> (178242355379023624935003616650503 / 1208925819614629174706176)"
    and o19: "(101836630017097633801071037395971 / 75557863725914323419136) \<le> x ^ 19 \<and> x ^ 19 \<le> (407346520068390535204284154028837 / 302231454903657293676544)"
    and o21: "(14894882829301321819136596195499911 / 1208925819614629174706176) \<le> x ^ 21 \<and> x ^ 21 \<le> (7447441414650660909568298179016211 / 604462909807314587353088)"
    and o23: "(68080099978934112971631754410563929 / 604462909807314587353088) \<le> x ^ 23 \<and> x ^ 23 \<le> (34040049989467056485815877576725961 / 302231454903657293676544)"
    and o25: "(1244695931148610473952816860836678607 / 1208925819614629174706176) \<le> x ^ 25 \<and> x ^ 25 \<le> (1244695931148610473952816874418762975 / 1208925819614629174706176)"
    and o27: "(5689136625450363994952079999692778977 / 604462909807314587353088) \<le> x ^ 27 \<and> x ^ 27 \<le> (11378273250900727989904160123544931651 / 1208925819614629174706176)"
    and o29: "(104013437283989590446151762442141065765 / 1208925819614629174706176) \<le> x ^ 29 \<and> x ^ 29 \<le> (104013437283989590446151763577132548597 / 1208925819614629174706176)"
    and o31: "(950829260035040668545192647585717309075 / 1208925819614629174706176) \<le> x ^ 31 \<and> x ^ 31 \<le> (950829260035040668545192657961137446573 / 1208925819614629174706176)"
    and o33: "(8691918134292290665652576126851923726781 / 1208925819614629174706176) \<le> x ^ 33 \<and> x ^ 33 \<le> (8691918134292290665652576221697871610939 / 1208925819614629174706176)"
    and o35: "(79456369328027379730643469812108884685757 / 1208925819614629174706176) \<le> x ^ 35 \<and> x ^ 35 \<le> (9932046166003422466330433834891798057053 / 151115727451828646838272)"
proof -
  have x1: "(3404131496398451 / 1125899906842624) \<le> x ^ 1 \<and> x ^ 1 \<le> (3404131496398451 / 1125899906842624)" unfolding x by simp
  note e = angle_power_bounds [OF x]
  show "(16706646811590194445062291 / 604462909807314587353088) \<le> x ^ 3 \<and> x ^ 3 \<le> (33413293623180388890124583 / 1208925819614629174706176)"
    using pow_bounds_mult [of "(11588111244771957213584155199401 / 1267650600228229401496703205376)" x 2 "(11588111244771957213584155199401 / 1267650600228229401496703205376)" "(3404131496398451 / 1125899906842624)" 1 "(3404131496398451 / 1125899906842624)" "(16706646811590194445062291 / 604462909807314587353088)" "(33413293623180388890124583 / 1208925819614629174706176)"]
      e(1) x1 by simp
  show "(305444547172487726813963169 / 1208925819614629174706176) \<le> x ^ 5 \<and> x ^ 5 \<le> (305444547172487726813963173 / 1208925819614629174706176)"
    using pow_bounds_mult [of "(50512147896010385469556879 / 604462909807314587353088)" x 4 "(101024295792020770939113759 / 1208925819614629174706176)" "(3404131496398451 / 1125899906842624)" 1 "(3404131496398451 / 1125899906842624)" "(305444547172487726813963169 / 1208925819614629174706176)" "(305444547172487726813963173 / 1208925819614629174706176)"]
      e(2) x1 by simp
  show "(2792193204583757521306992499 / 1208925819614629174706176) \<le> x ^ 7 \<and> x ^ 7 \<le> (1396096602291878760653496265 / 604462909807314587353088)"
    using pow_bounds_mult [of "(461752149153683744480805313 / 604462909807314587353088)" x 6 "(230876074576841872240402659 / 302231454903657293676544)" "(3404131496398451 / 1125899906842624)" 1 "(3404131496398451 / 1125899906842624)" "(2792193204583757521306992499 / 1208925819614629174706176)" "(1396096602291878760653496265 / 604462909807314587353088)"]
      e(3) x1 by simp
  show "(6381144273072451432042168497 / 302231454903657293676544) \<le> x ^ 9 \<and> x ^ 9 \<le> (25524577092289805728168674267 / 1208925819614629174706176)"
    using pow_bounds_mult [of "(8442129512567657843351677923 / 1208925819614629174706176)" x 8 "(8442129512567657843351678015 / 1208925819614629174706176)" "(3404131496398451 / 1125899906842624)" 1 "(3404131496398451 / 1125899906842624)" "(6381144273072451432042168497 / 302231454903657293676544)" "(25524577092289805728168674267 / 1208925819614629174706176)"]
      e(4) x1 by simp
  show "(116665285674127913569223563135 / 604462909807314587353088) \<le> x ^ 11 \<and> x ^ 11 \<le> (233330571348255827138447128817 / 1208925819614629174706176)"
    using pow_bounds_mult [of "(77172949641481131971314655709 / 1208925819614629174706176)" x 10 "(77172949641481131971314656551 / 1208925819614629174706176)" "(3404131496398451 / 1125899906842624)" 1 "(3404131496398451 / 1125899906842624)" "(116665285674127913569223563135 / 604462909807314587353088)" "(233330571348255827138447128817 / 1208925819614629174706176)"]
      e(5) x1 by simp
  show "(533242483595831208619076392393 / 302231454903657293676544) \<le> x ^ 13 \<and> x ^ 13 \<le> (2132969934383324834476305592847 / 1208925819614629174706176)"
    using pow_bounds_mult [of "(352734706776322524262835899143 / 604462909807314587353088)" x 12 "(22045919173520157766427243937 / 37778931862957161709568)" "(3404131496398451 / 1125899906842624)" 1 "(3404131496398451 / 1125899906842624)" "(533242483595831208619076392393 / 302231454903657293676544)" "(2132969934383324834476305592847 / 1208925819614629174706176)"]
      e(6) x1 by simp
  show "(19498348264843493856307986734131 / 1208925819614629174706176) \<le> x ^ 15 \<and> x ^ 15 \<le> (19498348264843493856307986946897 / 1208925819614629174706176)"
    using pow_bounds_mult [of "(6448983688849464188277192827601 / 1208925819614629174706176)" x 14 "(1612245922212366047069298224493 / 302231454903657293676544)" "(3404131496398451 / 1125899906842624)" 1 "(3404131496398451 / 1125899906842624)" "(19498348264843493856307986734131 / 1208925819614629174706176)" "(19498348264843493856307986946897 / 1208925819614629174706176)"]
      e(7) x1 by simp
  show "(178242355379023624935003614705527 / 1208925819614629174706176) \<le> x ^ 17 \<and> x ^ 17 \<le> (178242355379023624935003616650503 / 1208925819614629174706176)"
    using pow_bounds_mult [of "(58952790610167070283345643567459 / 1208925819614629174706176)" x 16 "(29476395305083535141672822105375 / 604462909807314587353088)" "(3404131496398451 / 1125899906842624)" 1 "(3404131496398451 / 1125899906842624)" "(178242355379023624935003614705527 / 1208925819614629174706176)" "(178242355379023624935003616650503 / 1208925819614629174706176)"]
      e(8) x1 by simp
  show "(101836630017097633801071037395971 / 75557863725914323419136) \<le> x ^ 19 \<and> x ^ 19 \<le> (407346520068390535204284154028837 / 302231454903657293676544)"
    using pow_bounds_mult [of "(134727876841096479790241624579375 / 302231454903657293676544)" x 18 "(269455753682192959580483252099043 / 604462909807314587353088)" "(3404131496398451 / 1125899906842624)" 1 "(3404131496398451 / 1125899906842624)" "(101836630017097633801071037395971 / 75557863725914323419136)" "(407346520068390535204284154028837 / 302231454903657293676544)"]
      e(9) x1 by simp
  show "(14894882829301321819136596195499911 / 1208925819614629174706176) \<le> x ^ 21 \<and> x ^ 21 \<le> (7447441414650660909568298179016211 / 604462909807314587353088)"
    using pow_bounds_mult [of "(615801240627927592179422842055717 / 151115727451828646838272)" x 20 "(1231602481255855184358845697550643 / 302231454903657293676544)" "(3404131496398451 / 1125899906842624)" 1 "(3404131496398451 / 1125899906842624)" "(14894882829301321819136596195499911 / 1208925819614629174706176)" "(7447441414650660909568298179016211 / 604462909807314587353088)"]
      e(10) x1 by simp
  show "(68080099978934112971631754410563929 / 604462909807314587353088) \<le> x ^ 23 \<and> x ^ 23 \<le> (34040049989467056485815877576725961 / 302231454903657293676544)"
    using pow_bounds_mult [of "(45034322737071177155930040583601773 / 1208925819614629174706176)" x 22 "(45034322737071177155930041075014941 / 1208925819614629174706176)" "(3404131496398451 / 1125899906842624)" 1 "(3404131496398451 / 1125899906842624)" "(68080099978934112971631754410563929 / 604462909807314587353088)" "(34040049989467056485815877576725961 / 302231454903657293676544)"]
      e(11) x1 by simp
  show "(1244695931148610473952816860836678607 / 1208925819614629174706176) \<le> x ^ 25 \<and> x ^ 25 \<le> (1244695931148610473952816874418762975 / 1208925819614629174706176)"
    using pow_bounds_mult [of "(411677114826583218118578752520870321 / 1208925819614629174706176)" x 24 "(411677114826583218118578757013078551 / 1208925819614629174706176)" "(3404131496398451 / 1125899906842624)" 1 "(3404131496398451 / 1125899906842624)" "(1244695931148610473952816860836678607 / 1208925819614629174706176)" "(1244695931148610473952816874418762975 / 1208925819614629174706176)"]
      e(12) x1 by simp
  show "(5689136625450363994952079999692778977 / 604462909807314587353088) \<le> x ^ 27 \<and> x ^ 27 \<le> (11378273250900727989904160123544931651 / 1208925819614629174706176)"
    using pow_bounds_mult [of "(3763308440573694033198008033958857145 / 1208925819614629174706176)" x 26 "(1881654220286847016599004037511982533 / 604462909807314587353088)" "(3404131496398451 / 1125899906842624)" 1 "(3404131496398451 / 1125899906842624)" "(5689136625450363994952079999692778977 / 604462909807314587353088)" "(11378273250900727989904160123544931651 / 1208925819614629174706176)"]
      e(13) x1 by simp
  show "(104013437283989590446151762442141065765 / 1208925819614629174706176) \<le> x ^ 29 \<and> x ^ 29 \<le> (104013437283989590446151763577132548597 / 1208925819614629174706176)"
    using pow_bounds_mult [of "(34401937607969979349015125652432996739 / 1208925819614629174706176)" x 28 "(17200968803984989674507563013912949893 / 604462909807314587353088)" "(3404131496398451 / 1125899906842624)" 1 "(3404131496398451 / 1125899906842624)" "(104013437283989590446151762442141065765 / 1208925819614629174706176)" "(104013437283989590446151763577132548597 / 1208925819614629174706176)"]
      e(14) x1 by simp
  show "(950829260035040668545192647585717309075 / 1208925819614629174706176) \<le> x ^ 31 \<and> x ^ 31 \<le> (950829260035040668545192657961137446573 / 1208925819614629174706176)"
    using pow_bounds_mult [of "(314482145131384100509856021357590357063 / 1208925819614629174706176)" x 30 "(157241072565692050254928012394605008237 / 604462909807314587353088)" "(3404131496398451 / 1125899906842624)" 1 "(3404131496398451 / 1125899906842624)" "(950829260035040668545192647585717309075 / 1208925819614629174706176)" "(950829260035040668545192657961137446573 / 1208925819614629174706176)"]
      e(15) x1 by simp
  show "(8691918134292290665652576126851923726781 / 1208925819614629174706176) \<le> x ^ 33 \<and> x ^ 33 \<le> (8691918134292290665652576221697871610939 / 1208925819614629174706176)"
    using pow_bounds_mult [of "(718702393550100209857103013101713264099 / 302231454903657293676544)" x 32 "(718702393550100209857103020944172052791 / 302231454903657293676544)" "(3404131496398451 / 1125899906842624)" 1 "(3404131496398451 / 1125899906842624)" "(8691918134292290665652576126851923726781 / 1208925819614629174706176)" "(8691918134292290665652576221697871610939 / 1208925819614629174706176)"]
      e(16) x1 by simp
  show "(79456369328027379730643469812108884685757 / 1208925819614629174706176) \<le> x ^ 35 \<and> x ^ 35 \<le> (9932046166003422466330433834891798057053 / 151115727451828646838272)"
    using pow_bounds_mult [of "(6569951757087466103759795753574803777585 / 302231454903657293676544)" x 34 "(1642487939271866525939948956316479677657 / 75557863725914323419136)" "(3404131496398451 / 1125899906842624)" 1 "(3404131496398451 / 1125899906842624)" "(79456369328027379730643469812108884685757 / 1208925819614629174706176)" "(9932046166003422466330433834891798057053 / 151115727451828646838272)"]
      e(17) x1 by simp
qed

lemma cos_poly_0: "cos_poly 0 x = 0" by (simp add: cos_poly_def)
lemma cos_poly_1: "cos_poly (Suc 0) x = 1" by (simp add: cos_poly_def cos_coeff_def)
lemma cos_poly_numeral: "cos_poly (numeral k) x
    = cos_poly (pred_numeral k) x + cos_coeff (pred_numeral k) * x ^ pred_numeral k"
  by (simp add: numeral_eq_Suc cos_poly_def)
lemma sin_poly_0: "sin_poly 0 x = 0" by (simp add: sin_poly_def)
lemma sin_poly_1: "sin_poly (Suc 0) x = 0" by (simp add: sin_poly_def sin_coeff_def)
lemma sin_poly_numeral: "sin_poly (numeral k) x
    = sin_poly (pred_numeral k) x + sin_coeff (pred_numeral k) * x ^ pred_numeral k"
  by (simp add: numeral_eq_Suc sin_poly_def)

lemma cos_poly_34: "cos_poly 34 x = 1 - x ^ 2 / 2 + x ^ 4 / 24 - x ^ 6 / 720 + x ^ 8 / 40320 - x ^ 10 / 3628800 + x ^ 12 / 479001600 - x ^ 14 / 87178291200 + x ^ 16 / 20922789888000 - x ^ 18 / 6402373705728000 + x ^ 20 / 2432902008176640000 - x ^ 22 / 1124000727777607680000 + x ^ 24 / 620448401733239439360000 - x ^ 26 / 403291461126605635584000000 + x ^ 28 / 304888344611713860501504000000 - x ^ 30 / 265252859812191058636308480000000 + x ^ 32 / 263130836933693530167218012160000000"
  by (simp add: cos_poly_numeral cos_poly_1 cos_coeff_def fact_numeral)

lemma sin_poly_35: "sin_poly 35 x = x - x ^ 3 / 6 + x ^ 5 / 120 - x ^ 7 / 5040 + x ^ 9 / 362880 - x ^ 11 / 39916800 + x ^ 13 / 6227020800 - x ^ 15 / 1307674368000 + x ^ 17 / 355687428096000 - x ^ 19 / 121645100408832000 + x ^ 21 / 51090942171709440000 - x ^ 23 / 25852016738884976640000 + x ^ 25 / 15511210043330985984000000 - x ^ 27 / 10888869450418352160768000000 + x ^ 29 / 8841761993739701954543616000000 - x ^ 31 / 8222838654177922817725562880000000 + x ^ 33 / 8683317618811886495518194401280000000"
  by (simp add: sin_poly_numeral sin_poly_1 sin_coeff_def fact_numeral)

lemma cos_angle_bracket:
  "\<bar>cos (3404131496398451 / 1125899906842624 :: real) * 2 ^ 53 - (- 8944440244635783)\<bar> < 1 / 2"
proof -
  define x :: real where "x = 3404131496398451 / 1125899906842624"
  note e0 = angle_power_bounds [OF x_def]
  note e = e0 [THEN conjunct1] e0 [THEN conjunct2]
  have xpos: "0 \<le> x" unfolding x_def by simp
  have "\<bar>cos x - cos_poly 34 x\<bar> \<le> \<bar>x\<bar> ^ 34 / fact 34" by (rule cos_taylor_bound)
  also have "\<bar>x\<bar> ^ 34 / fact 34 = x ^ 34 / 295232799039604140847618609643520000000"
    using xpos by (simp add: fact_numeral)
  finally have T: "cos_poly 34 x - x ^ 34 / 295232799039604140847618609643520000000 \<le> cos x"
    "cos x \<le> cos_poly 34 x + x ^ 34 / 295232799039604140847618609643520000000"
    by linarith+
  have "- 8944440244635783 - 1 / 2 < cos x * 9007199254740992"
    using T(1) e unfolding cos_poly_34 by linarith
  moreover have "cos x * 9007199254740992 < - 8944440244635783 + 1 / 2"
    using T(2) e unfolding cos_poly_34 by linarith
  ultimately have "\<bar>cos x * 9007199254740992 - (- 8944440244635783)\<bar> < 1 / 2" by linarith
  then show ?thesis unfolding x_def by simp
qed

lemma sin_angle_bracket:
  "\<bar>sin (3404131496398451 / 1125899906842624 :: real) * 2 ^ 56 - 8491415428759423\<bar> < 1 / 2"
proof -
  define x :: real where "x = 3404131496398451 / 1125899906842624"
  note o0 = angle_odd_power_bounds [OF x_def]
  note o = o0 [THEN conjunct1] o0 [THEN conjunct2]
  have xpos: "0 \<le> x" unfolding x_def by simp
  have xv: "3404131496398451 / 1125899906842624 \<le> x" "x \<le> 3404131496398451 / 1125899906842624"
    unfolding x_def by simp_all
  have "\<bar>sin x - sin_poly 35 x\<bar> \<le> \<bar>x\<bar> ^ 35 / fact 35" by (rule sin_taylor_bound)
  also have "\<bar>x\<bar> ^ 35 / fact 35 = x ^ 35 / 10333147966386144929666651337523200000000"
    using xpos by (simp add: fact_numeral)
  finally have T: "sin_poly 35 x - x ^ 35 / 10333147966386144929666651337523200000000 \<le> sin x"
    "sin x \<le> sin_poly 35 x + x ^ 35 / 10333147966386144929666651337523200000000"
    by linarith+
  have "8491415428759423 - 1 / 2 < sin x * 72057594037927936"
    using T(1) o xv unfolding sin_poly_35 by linarith
  moreover have "sin x * 72057594037927936 < 8491415428759423 + 1 / 2"
    using T(2) o xv unfolding sin_poly_35 by linarith
  ultimately have "\<bar>sin x * 72057594037927936 - 8491415428759423\<bar> < 1 / 2" by linarith
  then show ?thesis unfolding x_def by simp
qed

section \<open>The remainder operator\<close>

lemma js_rem_nonneg:
  assumes "0 < b" "0 \<le> a"
  shows "0 \<le> js_rem a b \<and> js_rem a b < b"
proof -
  have q: "0 \<le> a / b" using assms by simp
  have lo: "of_int \<lfloor>a / b\<rfloor> * b \<le> a" using assms(1) by (rule floor_divide_lower)
  have hi: "a < (of_int \<lfloor>a / b\<rfloor> + 1) * b" using assms(1) by (rule floor_divide_upper)
  show ?thesis using q lo hi by (simp add: js_rem_def js_trunc_def algebra_simps)
qed

lemma js_rem_neg:
  assumes "0 < b" "a < 0"
  shows "- b < js_rem a b \<and> js_rem a b \<le> 0"
proof -
  have q: "\<not> 0 \<le> a / b" using assms by (simp add: divide_less_0_iff not_le)
  have lo: "(of_int \<lceil>a / b\<rceil> - 1) * b < a" using assms(1) by (rule ceiling_divide_lower)
  have hi: "a \<le> of_int \<lceil>a / b\<rceil> * b" using assms(1) by (rule ceiling_divide_upper)
  show ?thesis using q lo hi by (simp add: js_rem_def js_trunc_def algebra_simps)
qed

lemma js_rem_bounds:
  assumes "0 < b"
  shows "- b < js_rem a b \<and> js_rem a b < b"
proof (cases "0 \<le> a")
  case True
  then show ?thesis using js_rem_nonneg [OF assms, of a] assms by simp
next
  case False
  then show ?thesis using js_rem_neg [OF assms, of a] assms by simp
qed

lemma js_rem_small:
  assumes "0 \<le> a" "a < b"
  shows "js_rem a b = a"
proof -
  have "0 \<le> a / b" "a / b < 1" using assms by simp_all
  then have "\<lfloor>a / b\<rfloor> = 0" by (simp add: floor_eq_iff)
  then show ?thesis using \<open>0 \<le> a / b\<close> by (simp add: js_rem_def js_trunc_def)
qed

lemma js_rem_second_period:
  assumes "b \<le> a" "a < 2 * b" "0 < b"
  shows "js_rem a b = a - b"
proof -
  have "1 \<le> a / b" "a / b < 2" using assms by (simp_all add: field_simps)
  then have "\<lfloor>a / b\<rfloor> = 1" by (simp add: floor_eq_iff)
  then show ?thesis using \<open>1 \<le> a / b\<close> by (simp add: js_rem_def js_trunc_def)
qed

lemma wrap_axis_range:
  assumes "0 < w"
  shows "0 \<le> js_rem (js_rem a w + w) w \<and> js_rem (js_rem a w + w) w < w"
proof -
  have "0 \<le> js_rem a w + w" using js_rem_bounds [OF assms, of a] by simp
  then show ?thesis by (rule js_rem_nonneg [OF assms])
qed

lemma wrap_axis_fixed:
  assumes "0 \<le> a" "a < w"
  shows "js_rem (js_rem a w + w) w = a"
proof -
  have w: "0 < w" using assms by simp
  have "js_rem a w = a" using assms by (rule js_rem_small)
  moreover have "js_rem (a + w) w = a + w - w"
    using assms w by (intro js_rem_second_period) simp_all
  ultimately show ?thesis by simp
qed


section \<open>Sampling a position\<close>

lemma positive_extents_createAperture:
  "positive_extents (createAperture sh width height cx cy)
     = (0 < width \<and> (sh = Circle \<or> sh = Square \<or> 0 < height))"
  by (auto simp add: positive_extents_def createAperture_def)

lemma randomBetween_range:
  assumes "uniform01 g" "lo < hi"
  shows "lo \<le> fst (randomBetween lo hi g) \<and> fst (randomBetween lo hi g) < hi"
proof -
  have u: "0 \<le> g 0" "g 0 < 1" using assms(1) by (simp_all add: uniform01_def)
  have d: "0 < hi - lo" using assms(2) by simp
  have "g 0 * (hi - lo) < 1 * (hi - lo)" using u(2) d by (rule mult_strict_right_mono)
  moreover have "0 \<le> g 0 * (hi - lo)" using u(1) d by simp
  ultimately show ?thesis by (simp add: randomBetween_def Math_random_def)
qed

lemma uniform01_rest: "uniform01 g \<Longrightarrow> uniform01 (snd (Math_random g))"
  by (simp add: uniform01_def Math_random_def)

lemma uniform01_randomBetween: "uniform01 g \<Longrightarrow> uniform01 (snd (randomBetween lo hi g))"
  by (simp add: uniform01_def randomBetween_def Math_random_def)

lemma isOutside_elliptical:
  "elliptical ap \<Longrightarrow> isOutside ap px py m =
     (((px - centerX ap) / (horizontalAxis ap + m))\<^sup>2
      + ((py - centerY ap) / (verticalAxis ap + m))\<^sup>2 > 1)"
  by (simp add: isOutside_def Let_def power2_eq_square)

lemma isOutside_rectangular:
  "\<not> elliptical ap \<Longrightarrow> isOutside ap px py m =
     (px < centerX ap - (horizontalAxis ap + m) \<or> px > centerX ap + (horizontalAxis ap + m) \<or>
      py < centerY ap - (verticalAxis ap + m) \<or> py > centerY ap + (verticalAxis ap + m))"
  by (simp add: isOutside_def Let_def)

lemma getRandomPosition_elliptical:
  "elliptical ap \<Longrightarrow> fst (getRandomPosition ap g) =
     (cos (- pi + g 0 * (pi - - pi)) * sqrt (g 1) * horizontalAxis ap + centerX ap,
      sin (- pi + g 0 * (pi - - pi)) * sqrt (g 1) * verticalAxis ap + centerY ap)"
  by (simp add: getRandomPosition_def randomBetween_def Math_random_def Let_def)

lemma getRandomPosition_rectangular:
  "\<not> elliptical ap \<Longrightarrow> fst (getRandomPosition ap g) =
     (fst (randomBetween (centerX ap - horizontalAxis ap) (centerX ap + horizontalAxis ap) g),
      fst (randomBetween (centerY ap - verticalAxis ap) (centerY ap + verticalAxis ap)
        (snd (randomBetween (centerX ap - horizontalAxis ap) (centerX ap + horizontalAxis ap) g))))"
  by (simp add: getRandomPosition_def case_prod_beta)

lemma ellipse_sample_inside:
  assumes "0 < h" "0 < v" "0 \<le> u" "u < 1"
  shows "((cos phi * sqrt u * h + cx - cx) / h)\<^sup>2
          + ((sin phi * sqrt u * v + cy - cy) / v)\<^sup>2 \<le> 1"
proof -
  have "((cos phi * sqrt u * h + cx - cx) / h)\<^sup>2 = (cos phi)\<^sup>2 * u"
    using assms by (simp add: power_mult_distrib)
  moreover have "((sin phi * sqrt u * v + cy - cy) / v)\<^sup>2 = (sin phi)\<^sup>2 * u"
    using assms by (simp add: power_mult_distrib)
  moreover have "(cos phi)\<^sup>2 * u + (sin phi)\<^sup>2 * u = ((cos phi)\<^sup>2 + (sin phi)\<^sup>2) * u"
    by (simp only: distrib_right)
  ultimately show ?thesis using assms by simp
qed

lemma getRandomPosition_inside:
  assumes "positive_extents ap" "uniform01 g"
  shows "\<not> isOutside ap (fst (fst (getRandomPosition ap g)))
                        (snd (fst (getRandomPosition ap g))) 0"
proof (cases "elliptical ap")
  case True
  have h: "0 < horizontalAxis ap" and v: "0 < verticalAxis ap"
    using assms(1) by (simp_all add: positive_extents_def)
  have u: "0 \<le> g 1" "g 1 < 1" using assms(2) by (simp_all add: uniform01_def)
  show ?thesis
    unfolding getRandomPosition_elliptical [OF True] isOutside_elliptical [OF True] fst_conv snd_conv
    using ellipse_sample_inside [OF h v u, of "- pi + g 0 * (pi - - pi)" "centerX ap" "centerY ap"]
    by simp
next
  case False
  have h: "centerX ap - horizontalAxis ap < centerX ap + horizontalAxis ap"
    and v: "centerY ap - verticalAxis ap < centerY ap + verticalAxis ap"
    using assms(1) by (simp_all add: positive_extents_def)
  note g1 = uniform01_randomBetween [OF assms(2),
      of "centerX ap - horizontalAxis ap" "centerX ap + horizontalAxis ap"]
  show ?thesis
    unfolding getRandomPosition_rectangular [OF False] isOutside_rectangular [OF False]
      fst_conv snd_conv
    using randomBetween_range [OF assms(2) h] randomBetween_range [OF g1 v]
    by (simp add: not_less)
qed

lemma not_outside_margin_mono:
  assumes "positive_extents ap" "0 \<le> m" "\<not> isOutside ap px py 0"
  shows "\<not> isOutside ap px py m"
proof (cases "elliptical ap")
  case True
  have h: "0 < horizontalAxis ap" and v: "0 < verticalAxis ap"
    using assms(1) by (simp_all add: positive_extents_def)
  define X where "X = px - centerX ap"
  define Y where "Y = py - centerY ap"
  have in0: "(X / horizontalAxis ap)\<^sup>2 + (Y / verticalAxis ap)\<^sup>2 \<le> 1"
    using assms(3) unfolding isOutside_elliptical [OF True] X_def Y_def by simp
  have "\<bar>X / (horizontalAxis ap + m)\<bar> \<le> \<bar>X / horizontalAxis ap\<bar>"
    using h assms(2) by (simp add: abs_divide frac_le)
  then have a: "(X / (horizontalAxis ap + m))\<^sup>2 \<le> (X / horizontalAxis ap)\<^sup>2"
    by (rule abs_le_square_iff [THEN iffD1])
  have "\<bar>Y / (verticalAxis ap + m)\<bar> \<le> \<bar>Y / verticalAxis ap\<bar>"
    using v assms(2) by (simp add: abs_divide frac_le)
  then have b: "(Y / (verticalAxis ap + m))\<^sup>2 \<le> (Y / verticalAxis ap)\<^sup>2"
    by (rule abs_le_square_iff [THEN iffD1])
  show ?thesis unfolding isOutside_elliptical [OF True] using a b in0
    by (simp add: X_def Y_def)
next
  case False
  then show ?thesis using assms by (auto simp add: isOutside_rectangular)
qed

lemma uniform01_constant: "0 \<le> u \<Longrightarrow> u < 1 \<Longrightarrow> uniform01 (constant_draws u)"
  by (simp add: uniform01_def constant_draws_def)

lemma Math_random_constant: "Math_random (constant_draws u) = (u, constant_draws u)"
  by (simp add: Math_random_def constant_draws_def)

text \<open>
  Claim C3, as amended. Over exact real arithmetic: for both aperture families with
  positive extents, every point returned by \<open>getRandomPosition\<close> is not outside the
  aperture at margin 0, whatever the draws.
\<close>

theorem random_position_not_outside:
  assumes "positive_extents ap" "uniform01 g"
  shows "\<not> isOutside ap (fst (fst (getRandomPosition ap g)))
                        (snd (fst (getRandomPosition ap g))) 0"
  using assms by (rule getRandomPosition_inside)

theorem random_position_not_outside_witness:
  "positive_extents (createAperture Rectangle 600 400 0 0)
   \<and> uniform01 (constant_draws (1 / 2))
   \<and> fst (getRandomPosition (createAperture Rectangle 600 400 0 0) (constant_draws (1 / 2)))
       = (0, 0)
   \<and> \<not> isOutside (createAperture Rectangle 600 400 0 0)
         (fst (fst (getRandomPosition (createAperture Rectangle 600 400 0 0)
                      (constant_draws (1 / 2)))))
         (snd (fst (getRandomPosition (createAperture Rectangle 600 400 0 0)
                      (constant_draws (1 / 2))))) 0"
proof -
  have p: "positive_extents (createAperture Rectangle 600 400 0 0)"
    by (simp add: positive_extents_def createAperture_def)
  have u: "uniform01 (constant_draws (1 / 2))"
    by (simp add: uniform01_constant)
  have v: "fst (getRandomPosition (createAperture Rectangle 600 400 0 0)
             (constant_draws (1 / 2))) = (0, 0)"
    by (simp add: getRandomPosition_def createAperture_def elliptical_def randomBetween_def
        Math_random_constant)
  show ?thesis using p u v random_position_not_outside [OF p u] by simp
qed

lemma angle_f64:
  "fst (randomBetween_f64 (- Math_PI) Math_PI (draws_list [77 / 4096, 4503599627370495 / 4503599627370496]))
     = - (3404131496398451 / 1125899906842624)"
  by code_simp

lemma Math_cos_angle:
  "Math_cos (- (3404131496398451 / 1125899906842624)) = - (8944440244635783 / 9007199254740992)"
proof -
  define c :: real where "c = cos (3404131496398451 / 1125899906842624)"
  have b: "\<bar>c * 2 ^ 53 - (- 8944440244635783)\<bar> < 1 / 2"
    unfolding c_def by (rule cos_angle_bracket)
  have b': "\<bar>c * 9007199254740992 - (- 8944440244635783)\<bar> < 1 / 2"
    using b by simp
  have cb: "1 / 2 \<le> - c" "- c < 1" using b' by linarith+
  have lo: "2 powi (- 1) \<le> \<bar>c\<bar>" and hi: "\<bar>c\<bar> < 2 powi (- 1 + 1)"
    using cb by (simp_all add: power_int_minus)
  have r: "\<bar>c / 2 powi (- 1 - 52) - of_int (- 8944440244635783)\<bar> < 1 / 2"
    using b' by (simp add: power_int_minus)
  have "fl c = of_int (- 8944440244635783) * 2 powi (- 1 - 52)"
    using lo hi r by (rule fl_nearest)
  then show ?thesis by (simp add: Math_cos_def c_def power_int_minus)
qed

lemma Math_sin_angle:
  "Math_sin (- (3404131496398451 / 1125899906842624)) = - (8491415428759423 / 72057594037927936)"
proof -
  define s :: real where "s = sin (3404131496398451 / 1125899906842624)"
  have b: "\<bar>s * 2 ^ 56 - 8491415428759423\<bar> < 1 / 2"
    unfolding s_def by (rule sin_angle_bracket)
  have b': "\<bar>s * 72057594037927936 - 8491415428759423\<bar> < 1 / 2"
    using b by simp
  have sb: "1 / 16 \<le> s" "s < 1 / 8" using b' by linarith+
  have lo: "2 powi (- 4) \<le> \<bar>- s\<bar>" and hi: "\<bar>- s\<bar> < 2 powi (- 4 + 1)"
    using sb by (simp_all add: power_int_minus)
  have "\<bar>- (s * 72057594037927936) - (- 8491415428759423)\<bar> < 1 / 2"
    using b' by linarith
  then have r: "\<bar>(- s) / 2 powi (- 4 - 52) - of_int (- 8491415428759423)\<bar> < 1 / 2"
    by (simp add: power_int_minus)
  have "fl (- s) = of_int (- 8491415428759423) * 2 powi (- 4 - 52)"
    using lo hi r by (rule fl_nearest)
  then show ?thesis by (simp add: Math_sin_def s_def power_int_minus)
qed

lemma Math_sqrt_last_draw:
  "Math_sqrt (4503599627370495 / 4503599627370496) = 9007199254740991 / 9007199254740992"
proof -
  define r :: real where "r = sqrt (4503599627370495 / 4503599627370496)"
  have l: "(18014398509481981 / 18014398509481984 :: real) < r"
    unfolding r_def by (rule real_less_rsqrt) (simp add: power2_eq_square)
  have u: "r < (18014398509481983 / 18014398509481984 :: real)"
    unfolding r_def by (rule real_less_lsqrt) (simp_all add: power2_eq_square)
  have lo: "2 powi (- 1) \<le> \<bar>r\<bar>" and hi: "\<bar>r\<bar> < 2 powi (- 1 + 1)"
    using l u by (simp_all add: power_int_minus)
  have "\<bar>r * 9007199254740992 - 9007199254740991\<bar> < 1 / 2"
    using l u by linarith
  then have b: "\<bar>r / 2 powi (- 1 - 52) - of_int 9007199254740991\<bar> < 1 / 2"
    by (simp add: power_int_minus)
  have "fl r = of_int 9007199254740991 * 2 powi (- 1 - 52)"
    using lo hi b by (rule fl_nearest)
  then show ?thesis by (simp add: Math_sqrt_def r_def power_int_minus)
qed

lemma uniform01_draws:
  "uniform01 (draws_list [77 / 4096, 4503599627370495 / 4503599627370496])"
  by (simp add: uniform01_def draws_list_def nth_Cons split: nat.split)

lemma getRandomPosition_f64_elliptical:
  "elliptical ap \<Longrightarrow> fst (getRandomPosition_f64 ap g) =
     (fl (fl (fl (Math_cos (fst (randomBetween_f64 (- Math_PI) Math_PI g)) * Math_sqrt (g (Suc 0)))
              * horizontalAxis ap) + centerX ap),
      fl (fl (fl (Math_sin (fst (randomBetween_f64 (- Math_PI) Math_PI g)) * Math_sqrt (g (Suc 0)))
              * verticalAxis ap) + centerY ap))"
  by (simp add: getRandomPosition_f64_def randomBetween_f64_def Math_random_def Let_def)

lemma ellipse_sample_f64:
  "fst (getRandomPosition_f64 (createAperture Ellipse 600 400 0 0)
          (draws_list [77 / 4096, 4503599627370495 / 4503599627370496]))
     = (- (5240882955841279 / 17592186044416), - (3316959151859149 / 140737488355328))"
proof -
  have e: "elliptical (createAperture Ellipse 600 400 0 0)"
    by (simp add: elliptical_def createAperture_def)
  have ap: "horizontalAxis (createAperture Ellipse 600 400 0 0) = 300"
    "verticalAxis (createAperture Ellipse 600 400 0 0) = 200"
    "centerX (createAperture Ellipse 600 400 0 0) = 0"
    "centerY (createAperture Ellipse 600 400 0 0) = 0"
    by (simp_all add: createAperture_def)
  have u: "draws_list [77 / 4096, 4503599627370495 / 4503599627370496] (Suc 0)
             = 4503599627370495 / 4503599627370496"
    by (simp add: draws_list_def)
  have x: "fl (fl (fl (- (8944440244635783 / 9007199254740992)
                       * (9007199254740991 / 9007199254740992)) * 300) + 0)
             = - (5240882955841279 / 17592186044416)"
    by code_simp
  have y: "fl (fl (fl (- (8491415428759423 / 72057594037927936)
                       * (9007199254740991 / 9007199254740992)) * 200) + 0)
             = - (3316959151859149 / 140737488355328)"
    by code_simp
  show ?thesis
    by (simp only: getRandomPosition_f64_elliptical [OF e] ap u angle_f64
        Math_cos_angle Math_sin_angle Math_sqrt_last_draw x y)
qed

text \<open>
  The claim as stated fails in binary64. On the ellipse of width 600 and height 400
  centred at the origin, the draws \<open>77/4096\<close> and \<open>1 - 2^-52\<close> give the angle
  \<open>-3404131496398451 / 2^50\<close> and the radius \<open>1 - 2^-53\<close>. The sampled point is rounded
  outwards: its normalised squared distance from the centre, as \<open>isOutside\<close> computes it, is
  \<open>1 + 2^-52\<close>, and \<open>isOutside(x, y, 0)\<close> is true.
\<close>

theorem random_position_outside_binary64:
  "uniform01 (draws_list [77 / 4096, 4503599627370495 / 4503599627370496])
   \<and> positive_extents (createAperture Ellipse 600 400 0 0)
   \<and> fst (getRandomPosition_f64 (createAperture Ellipse 600 400 0 0)
            (draws_list [77 / 4096, 4503599627370495 / 4503599627370496]))
       = (- (5240882955841279 / 17592186044416), - (3316959151859149 / 140737488355328))
   \<and> isOutside_f64 (createAperture Ellipse 600 400 0 0)
         (- (5240882955841279 / 17592186044416)) (- (3316959151859149 / 140737488355328)) 0"
proof -
  have o: "isOutside_f64 (createAperture Ellipse 600 400 0 0)
         (- (5240882955841279 / 17592186044416)) (- (3316959151859149 / 140737488355328)) 0"
    by code_simp
  have p: "positive_extents (createAperture Ellipse 600 400 0 0)"
    by (simp add: positive_extents_def createAperture_def)
  show ?thesis using uniform01_draws p ellipse_sample_f64 o by simp
qed

section \<open>Toroidal wrap\<close>

text \<open>
  Claim C7, as amended. Over exact real arithmetic: for every point and every aperture of
  either family with positive extents, the wrapped point lies in
  \<open>[center - extent, center + extent)\<close> on each axis, and a point that already lies in that
  half-open box on both axes is returned unchanged.
\<close>

theorem wrap_in_box_and_fixed:
  assumes "positive_extents ap"
  shows "centerX ap - horizontalAxis ap \<le> fst (wrapOnBounds ap px py)
       \<and> fst (wrapOnBounds ap px py) < centerX ap + horizontalAxis ap
       \<and> centerY ap - verticalAxis ap \<le> snd (wrapOnBounds ap px py)
       \<and> snd (wrapOnBounds ap px py) < centerY ap + verticalAxis ap
       \<and> (centerX ap - horizontalAxis ap \<le> px \<and> px < centerX ap + horizontalAxis ap \<and>
          centerY ap - verticalAxis ap \<le> py \<and> py < centerY ap + verticalAxis ap
          \<longrightarrow> wrapOnBounds ap px py = (px, py))"
proof -
  have w: "0 < horizontalAxis ap * 2" and h: "0 < verticalAxis ap * 2"
    using assms by (simp_all add: positive_extents_def)
  note rx = wrap_axis_range [OF w, of "px - (centerX ap - horizontalAxis ap)"]
  note ry = wrap_axis_range [OF h, of "py - (centerY ap - verticalAxis ap)"]
  have fixed: "wrapOnBounds ap px py = (px, py)"
    if "centerX ap - horizontalAxis ap \<le> px" "px < centerX ap + horizontalAxis ap"
       "centerY ap - verticalAxis ap \<le> py" "py < centerY ap + verticalAxis ap"
  proof -
    have "js_rem (js_rem (px - (centerX ap - horizontalAxis ap)) (horizontalAxis ap * 2)
            + horizontalAxis ap * 2) (horizontalAxis ap * 2)
          = px - (centerX ap - horizontalAxis ap)"
      using that by (intro wrap_axis_fixed) simp_all
    moreover have "js_rem (js_rem (py - (centerY ap - verticalAxis ap)) (verticalAxis ap * 2)
            + verticalAxis ap * 2) (verticalAxis ap * 2)
          = py - (centerY ap - verticalAxis ap)"
      using that by (intro wrap_axis_fixed) simp_all
    ultimately show ?thesis by (simp add: wrapOnBounds_def Let_def)
  qed
  show ?thesis using rx ry fixed by (simp add: wrapOnBounds_def Let_def)
qed


theorem wrap_in_box_and_fixed_witness:
  "positive_extents (createAperture Rectangle 200 100 0 0)
   \<and> wrapOnBounds (createAperture Rectangle 200 100 0 0) 250 20 = (50, 20)
   \<and> wrapOnBounds (createAperture Rectangle 200 100 0 0) 50 20 = (50, 20)"
  using wrap_in_box_and_fixed [of "createAperture Rectangle 200 100 0 0" 250 20]
    wrap_in_box_and_fixed [of "createAperture Rectangle 200 100 0 0" 50 20]
  by (simp add: createAperture_def positive_extents_def wrapOnBounds_def js_rem_def js_trunc_def)


text \<open>
  The claim as stated fails in binary64, in both parts. On the square of width 200 centred
  at the origin the point \<open>(0.1, 0)\<close> lies in the box and is returned as
  \<open>(0.10000000000002274, 0)\<close>: the sum \<open>0.1 + 100\<close> is rounded. On the square of width 600
  centred at \<open>(960, 960)\<close> the double just below the left edge 660 is returned as \<open>1260\<close>,
  which is \<open>center + extent\<close>, outside the half-open range.
\<close>

theorem wrapOnBounds_binary64_counterexample:
  "inBoundingBox (createAperture Square 200 200 0 0) (3602879701896397 / 36028797018963968) 0
   \<and> wrapOnBounds_f64 (createAperture Square 200 200 0 0) (3602879701896397 / 36028797018963968) 0
       = (879609302221 / 8796093022208, 0)
   \<and> wrapOnBounds_f64 (createAperture Square 600 600 960 960) (5805421394657279 / 8796093022208) 960
       = (1260, 960)
   \<and> centerX (createAperture Square 600 600 960 960)
       + horizontalAxis (createAperture Square 600 600 960 960) = 1260"
  by code_simp

section \<open>Where the reinsertion policies put a dot\<close>

lemma simple_elliptical_inside:
  assumes e: "elliptical ap" and p: "positive_extents ap"
  shows "\<not> isOutside ap (fst (getOppositePositionSimple ap dot))
                        (snd (getOppositePositionSimple ap dot)) 0"
proof -
  have h: "0 < horizontalAxis ap" and v: "0 < verticalAxis ap"
    using p by (simp_all add: positive_extents_def)
  define mx where "mx = (2 * centerX ap - dot_x dot - centerX ap) / horizontalAxis ap"
  define my where "my = (2 * centerY ap - dot_y dot - centerY ap) / verticalAxis ap"
  define dist where "dist = sqrt (mx * mx + my * my)"
  have d2: "dist\<^sup>2 = mx\<^sup>2 + my\<^sup>2"
    by (simp add: dist_def power2_eq_square)
  have res: "getOppositePositionSimple ap dot =
     (if dist > 1 then (centerX ap + (mx / dist) * horizontalAxis ap,
                        centerY ap + (my / dist) * verticalAxis ap)
      else (2 * centerX ap - dot_x dot, 2 * centerY ap - dot_y dot))"
    using e by (simp add: getOppositePositionSimple_def Let_def mx_def my_def dist_def)
  show ?thesis
  proof (cases "dist > 1")
    case True
    then have dpos: "dist \<noteq> 0" by simp
    have "(mx / dist)\<^sup>2 + (my / dist)\<^sup>2 = (mx\<^sup>2 + my\<^sup>2) / dist\<^sup>2"
      by (simp add: power_divide add_divide_distrib)
    also have "\<dots> = dist\<^sup>2 / dist\<^sup>2" by (simp only: d2)
    also have "\<dots> = 1" using dpos by simp
    finally have one: "(mx / dist)\<^sup>2 + (my / dist)\<^sup>2 = 1" .
    show ?thesis
      unfolding isOutside_elliptical [OF e] res using True h v one by simp
  next
    case False
    have "0 \<le> dist" by (simp add: dist_def)
    moreover have "dist \<le> 1" using False by simp
    ultimately have "dist\<^sup>2 \<le> 1" by (rule power_le_one)
    then have "mx\<^sup>2 + my\<^sup>2 \<le> 1" using d2 by simp
    then show ?thesis
      unfolding isOutside_elliptical [OF e] res using False
      by (simp add: mx_def my_def not_less)
  qed
qed

lemma simple_rectangular_inside:
  assumes e: "\<not> elliptical ap" and p: "positive_extents ap"
  shows "\<not> isOutside ap (fst (getOppositePositionSimple ap dot))
                        (snd (getOppositePositionSimple ap dot)) 0"
  using e p unfolding isOutside_rectangular [OF e]
  by (simp add: getOppositePositionSimple_def Let_def positive_extents_def)

lemma getOppositePositionSimple_inside:
  assumes "positive_extents ap"
  shows "\<not> isOutside ap (fst (getOppositePositionSimple ap dot))
                        (snd (getOppositePositionSimple ap dot)) 0"
  using assms simple_elliptical_inside simple_rectangular_inside by blast


lemma ellipse_root_on_boundary:
  fixes h v dx dy xRel yRel :: real
  defines "A \<equiv> (dx * dx) / (h * h) + (dy * dy) / (v * v)"
    and "B \<equiv> (xRel * dx) / (h * h) + (yRel * dy) / (v * v)"
    and "C \<equiv> (xRel * xRel) / (h * h) + (yRel * yRel) / (v * v) - 1"
  defines "t \<equiv> (B + sqrt (B * B - A * C)) / A"
  assumes h: "h \<noteq> 0" and v: "v \<noteq> 0" and A: "A \<noteq> 0" and disc: "0 \<le> B * B - A * C"
  shows "((xRel - dx * t) / h)\<^sup>2 + ((yRel - dy * t) / v)\<^sup>2 = 1"
proof -
  define s where "s = sqrt (B * B - A * C)"
  have s2: "s * s = B * B - A * C" using disc by (simp add: s_def)
  have At: "A * t = B + s" using A by (simp add: t_def s_def)
  have "A * (t * (s - B) + C) = (A * t) * (s - B) + A * C" by (simp add: algebra_simps)
  also have "\<dots> = (B + s) * (s - B) + A * C" by (simp only: At)
  also have "\<dots> = s * s - B * B + A * C" by (simp add: algebra_simps)
  also have "\<dots> = 0" by (simp add: s2)
  finally have "t * (s - B) + C = 0" using A by simp
  then have zero: "t * (A * t) - 2 * B * t + C = 0" by (simp add: At algebra_simps)
  have x: "((xRel - dx * t) / h)\<^sup>2
      = (xRel * xRel) / (h * h) - 2 * t * ((xRel * dx) / (h * h)) + t * t * ((dx * dx) / (h * h))"
    using h by (simp add: power2_eq_square field_simps)
  have y: "((yRel - dy * t) / v)\<^sup>2
      = (yRel * yRel) / (v * v) - 2 * t * ((yRel * dy) / (v * v)) + t * t * ((dy * dy) / (v * v))"
    using v by (simp add: power2_eq_square field_simps)
  have "((xRel - dx * t) / h)\<^sup>2 + ((yRel - dy * t) / v)\<^sup>2
        = (t * (A * t) - 2 * B * t + C) + 1"
    unfolding x y by (simp add: A_def B_def C_def algebra_simps)
  then show ?thesis using zero by simp
qed

lemma getOppositePosition_elliptical_inside:
  assumes e: "elliptical ap" and p: "positive_extents ap"
  shows "\<not> isOutside ap (fst (getOppositePosition_elliptical ap dot dirX dirY))
                        (snd (getOppositePosition_elliptical ap dot dirX dirY)) 0"
proof -
  have h: "horizontalAxis ap \<noteq> 0" and v: "verticalAxis ap \<noteq> 0"
    using p by (simp_all add: positive_extents_def)
  note simple = simple_elliptical_inside [OF e p, of dot]
  show ?thesis
  proof (cases "\<exists>dX dY. dirX = Some dX \<and> dirY = Some dY")
    case False
    then have "getOppositePosition_elliptical ap dot dirX dirY = getOppositePositionSimple ap dot"
      by (cases dirX; cases dirY) (simp_all add: getOppositePosition_elliptical_def)
    then show ?thesis using simple by simp
  next
    case True
    then obtain dX dY where d: "dirX = Some dX" "dirY = Some dY" by blast
    define dx where "dx = dX / sqrt (dX * dX + dY * dY)"
    define dy where "dy = dY / sqrt (dX * dX + dY * dY)"
    define A where "A = quadratic_A ap dx dy"
    define B where "B = quadratic_B ap dot dx dy"
    define C where "C = quadratic_C ap dot"
    define t where "t = (B + sqrt (B * B - A * C)) / A"
    have res: "getOppositePosition_elliptical ap dot dirX dirY =
        (if dX * dX + dY * dY > 1 / 10 ^ 10 then
           (if B * B - A * C \<ge> 0 then
              (if t > 0 \<and> A \<noteq> 0 then (dot_x dot - dx * t, dot_y dot - dy * t)
               else getOppositePositionSimple ap dot)
            else getOppositePositionSimple ap dot)
         else getOppositePositionSimple ap dot)"
      unfolding d t_def A_def B_def C_def dx_def dy_def
      by (simp only: getOppositePosition_elliptical_def Let_def prod.case option.case)
    show ?thesis
    proof (cases "dX * dX + dY * dY > 1 / 10 ^ 10 \<and> B * B - A * C \<ge> 0 \<and> t > 0 \<and> A \<noteq> 0")
      case False
      then have "getOppositePosition_elliptical ap dot dirX dirY = getOppositePositionSimple ap dot"
        unfolding res by (simp only: if_False if_True split: if_splits) blast
      then show ?thesis using simple by simp
    next
      case True
      then have r: "getOppositePosition_elliptical ap dot dirX dirY
                    = (dot_x dot - dx * t, dot_y dot - dy * t)"
        unfolding res by simp
      have "((dot_x dot - centerX ap - dx * t) / horizontalAxis ap)\<^sup>2
          + ((dot_y dot - centerY ap - dy * t) / verticalAxis ap)\<^sup>2 = 1"
        using ellipse_root_on_boundary [OF h v, of dx dy "dot_x dot - centerX ap"
            "dot_y dot - centerY ap"] True
        unfolding t_def A_def B_def C_def quadratic_A_def quadratic_B_def quadratic_C_def Let_def
        by blast
      then show ?thesis
        unfolding isOutside_elliptical [OF e] r fst_conv snd_conv
        by (simp add: algebra_simps)
    qed
  qed
qed


lemma slab_between:
  fixes d p lo hi t :: real
  assumes d: "d \<noteq> 0" and lh: "lo \<le> hi"
    and lower: "min ((lo - p) / d) ((hi - p) / d) \<le> t"
    and upper: "t \<le> max ((lo - p) / d) ((hi - p) / d)"
  shows "lo \<le> p + d * t \<and> p + d * t \<le> hi"
proof (cases "0 < d")
  case True
  have "(lo - p) / d \<le> (hi - p) / d" using True lh by (simp add: divide_right_mono)
  then have "(lo - p) / d \<le> t" "t \<le> (hi - p) / d" using lower upper by simp_all
  then have "lo - p \<le> t * d" "t * d \<le> hi - p"
    using True by (simp_all add: pos_divide_le_eq pos_le_divide_eq)
  then show ?thesis by (simp add: mult.commute)
next
  case False
  then have neg: "d < 0" using d by simp
  have "(hi - p) / d \<le> (lo - p) / d" using neg lh by (simp add: divide_right_mono_neg)
  then have "(hi - p) / d \<le> t" "t \<le> (lo - p) / d" using lower upper by simp_all
  then have "t * d \<le> hi - p" "lo - p \<le> t * d"
    using neg by (simp_all add: neg_divide_le_eq neg_le_divide_eq)
  then show ?thesis by (simp add: mult.commute)
qed

lemma getOppositePosition_rectangular_inside:
  assumes e: "\<not> elliptical ap" and p: "positive_extents ap"
  shows "\<not> isOutside ap (fst (getOppositePosition_rectangular ap dot dirX dirY))
                        (snd (getOppositePosition_rectangular ap dot dirX dirY)) 0"
proof -
  have lr: "centerX ap - horizontalAxis ap \<le> centerX ap + horizontalAxis ap"
    and tb: "centerY ap - verticalAxis ap \<le> centerY ap + verticalAxis ap"
    using p by (simp_all add: positive_extents_def)
  note simple = simple_rectangular_inside [OF e p, of dot]
  show ?thesis
  proof (cases "\<exists>dX dY. dirX = Some dX \<and> dirY = Some dY")
    case False
    then have "getOppositePosition_rectangular ap dot dirX dirY = getOppositePositionSimple ap dot"
      by (cases dirX; cases dirY) (simp_all add: getOppositePosition_rectangular_def)
    then show ?thesis using simple by simp
  next
    case True
    then obtain dX dY where d: "dirX = Some dX" "dirY = Some dY" by blast
    define mag where "mag = sqrt (dX * dX + dY * dY)"
    define dx where "dx = - dX / mag"
    define dy where "dy = - dY / mag"
    define tEnter where "tEnter = fst (slab_times ap dot dx dy)"
    define tExit where "tExit = snd (slab_times ap dot dx dy)"
    have res: "getOppositePosition_rectangular ap dot dirX dirY =
        (if mag < 1 / 10 ^ 10 then getOppositePositionSimple ap dot
         else (case tExit of
                 Finite te \<Rightarrow>
                   if te > 0 \<and> xnum_le tEnter (Finite te) then
                     (dot_x dot + dx * te, dot_y dot + dy * te)
                   else getOppositePositionSimple ap dot
               | NegInfinity \<Rightarrow> getOppositePositionSimple ap dot))"
      unfolding d tExit_def tEnter_def dx_def dy_def mag_def
      by (simp only: getOppositePosition_rectangular_def Let_def prod.case option.case
          case_prod_beta fst_conv snd_conv)
    show ?thesis
    proof (cases "\<exists>te. \<not> mag < 1 / 10 ^ 10 \<and> tExit = Finite te \<and> te > 0 \<and> xnum_le tEnter tExit")
      case False
      then have "getOppositePosition_rectangular ap dot dirX dirY = getOppositePositionSimple ap dot"
        unfolding res by (cases tExit) auto
      then show ?thesis using simple by simp
    next
      case True
      then obtain te where te: "tExit = Finite te" "xnum_le tEnter tExit" "te > 0"
        "\<not> mag < 1 / 10 ^ 10" by blast
      then have r: "getOppositePosition_rectangular ap dot dirX dirY
                    = (dot_x dot + dx * te, dot_y dot + dy * te)"
        unfolding res by simp
      have nz: "dx \<noteq> 0 \<and> dy \<noteq> 0"
        using te(1) unfolding tExit_def slab_times_def Let_def
        by (auto split: if_splits)
      define a where "a = (centerX ap - horizontalAxis ap - dot_x dot) / dx"
      define b where "b = (centerX ap + horizontalAxis ap - dot_x dot) / dx"
      define c where "c = (centerY ap - verticalAxis ap - dot_y dot) / dy"
      define d' where "d' = (centerY ap + verticalAxis ap - dot_y dot) / dy"
      have st: "slab_times ap dot dx dy =
                  (Finite (max (min a b) (min c d')), Finite (min (max a b) (max c d')))"
        using nz by (simp add: slab_times_def Let_def a_def b_def c_def d'_def)
      have ex: "te = min (max a b) (max c d')"
        using te(1) unfolding tExit_def st by simp
      have en: "max (min a b) (min c d') \<le> te"
        using te(2) unfolding te(1) tEnter_def st by simp
      have x: "centerX ap - horizontalAxis ap \<le> dot_x dot + dx * te
             \<and> dot_x dot + dx * te \<le> centerX ap + horizontalAxis ap"
        using nz lr en ex unfolding a_def b_def by (intro slab_between) simp_all
      have y: "centerY ap - verticalAxis ap \<le> dot_y dot + dy * te
             \<and> dot_y dot + dy * te \<le> centerY ap + verticalAxis ap"
        using nz tb en ex unfolding c_def d'_def by (intro slab_between) simp_all
      show ?thesis
        unfolding isOutside_rectangular [OF e] r fst_conv snd_conv using x y by (simp add: not_less)
    qed
  qed
qed

lemma getOppositePosition_inside:
  assumes "positive_extents ap"
  shows "\<not> isOutside ap (fst (getOppositePosition ap dot dirX dirY))
                        (snd (getOppositePosition ap dot dirX dirY)) 0"
  using assms getOppositePosition_elliptical_inside getOppositePosition_rectangular_inside
  by (simp add: getOppositePosition_def)

lemma wrapOnBounds_inside_rectangular:
  assumes e: "\<not> elliptical ap" and p: "positive_extents ap"
  shows "\<not> isOutside ap (fst (wrapOnBounds ap px py)) (snd (wrapOnBounds ap px py)) 0"
proof -
  have w: "0 < horizontalAxis ap * 2" and h: "0 < verticalAxis ap * 2"
    using p by (simp_all add: positive_extents_def)
  note rx = wrap_axis_range [OF w, of "px - (centerX ap - horizontalAxis ap)"]
  note ry = wrap_axis_range [OF h, of "py - (centerY ap - verticalAxis ap)"]
  show ?thesis unfolding isOutside_rectangular [OF e] using rx ry
    by (simp add: wrapOnBounds_def Let_def not_less)
qed

lemma wrapOnBounds_inBoundingBox:
  assumes p: "positive_extents ap"
  shows "inBoundingBox ap (fst (wrapOnBounds ap px py)) (snd (wrapOnBounds ap px py))"
proof -
  have w: "0 < horizontalAxis ap * 2" and h: "0 < verticalAxis ap * 2"
    using p by (simp_all add: positive_extents_def)
  note rx = wrap_axis_range [OF w, of "px - (centerX ap - horizontalAxis ap)"]
  note ry = wrap_axis_range [OF h, of "py - (centerY ap - verticalAxis ap)"]
  show ?thesis using rx ry by (simp add: inBoundingBox_def wrapOnBounds_def Let_def)
qed


section \<open>Updating a dot\<close>

lemma uniform01_reassignMovement:
  "uniform01 g \<Longrightarrow> uniform01 (snd (snd (reassignMovement dot updated r g)))"
  by (cases r) (simp_all add: reassignMovement_def case_prod_beta uniform01_randomBetween)

lemma uniform01_moveDirection:
  "uniform01 g \<Longrightarrow> uniform01 (snd (moveDirection mv updated cd g))"
  by (cases mv) (simp_all add: moveDirection_def case_prod_beta uniform01_randomBetween)

lemma method_reassignMovement:
  "fst (reassignMovement dot updated r g) = movementOf dot r"
  by (cases r) (simp_all add: reassignMovement_def movementOf_def case_prod_beta)

lemma inside_with_margin:
  assumes "positive_extents ap" "0 \<le> m" "\<not> isOutside ap (fst q) (snd q) 0"
  shows "\<not> isOutside ap (fst q) (snd q) m"
  using assms by (rule not_outside_margin_mono)

lemma reinsert_position:
  assumes p: "positive_extents ap" and r: "0 \<le> dotRadius" and g: "uniform01 g"
    and m: "reinsertType \<in> {''random'', ''opposite'', ''oppositeSimple'', ''wrap''}"
  shows "\<exists>d g'. reinsert ap reinsertType updated mx my g = Inr (d, g')
          \<and> (\<not> isOutside ap (dot_x d) (dot_y d) dotRadius
             \<or> (elliptical ap \<and> reinsertType = ''wrap'' \<and> inBoundingBox ap (dot_x d) (dot_y d)))"
proof -
  consider (random) "reinsertType = ''random''" | (simple) "reinsertType = ''oppositeSimple''"
    | (opposite) "reinsertType = ''opposite''" | (wrap) "reinsertType = ''wrap''"
    using m by blast
  then show ?thesis
  proof cases
    case random
    show ?thesis
      using inside_with_margin [OF p r getRandomPosition_inside [OF p g]]
      by (simp add: reinsert_def random case_prod_beta)
  next
    case simple
    show ?thesis
      using inside_with_margin [OF p r getOppositePositionSimple_inside [OF p, of updated]]
      by (simp add: reinsert_def simple case_prod_beta)
  next
    case opposite
    show ?thesis
      using inside_with_margin [OF p r getOppositePosition_inside [OF p, of updated "Some mx" "Some my"]]
      by (simp add: reinsert_def opposite case_prod_beta)
  next
    case wrap
    show ?thesis
    proof (cases "elliptical ap")
      case True
      then show ?thesis
        using wrapOnBounds_inBoundingBox [OF p, of "dot_x updated" "dot_y updated"]
        by (simp add: reinsert_def wrap case_prod_beta)
    next
      case False
      then show ?thesis
        using inside_with_margin [OF p r wrapOnBounds_inside_rectangular [OF False p,
              of "dot_x updated" "dot_y updated"]]
        by (simp add: reinsert_def wrap case_prod_beta)
    qed
  qed
qed

lemma reinsert_error_iff:
  "(\<exists>e. reinsert ap reinsertType updated mx my g = Inl e)
     \<longleftrightarrow> reinsertType \<notin> {''random'', ''opposite'', ''oppositeSimple'', ''wrap''}"
  by (simp add: reinsert_def case_prod_beta)

lemma reinsert_error_value:
  "reinsert ap reinsertType updated mx my g = Inl e \<Longrightarrow> e = UnknownReinsertType reinsertType"
  by (simp add: reinsert_def case_prod_beta split: if_splits)

lemma updateDot_expired:
  assumes "lifeExpired dot deltaTimeMs maxDotLife"
  shows "updateDot dot distance deltaTimeMs maxDotLife ap reinsertType dotRadius coherentDir
           reassignMovementTo g =
         Inr (dot\<lparr> dot_x := fst (fst (getRandomPosition ap g)),
                   dot_y := snd (fst (getRandomPosition ap g)),
                   lifeCount := 0 \<rparr>, snd (getRandomPosition ap g))"
  using assms by (simp add: updateDot_def lifeExpired_def Let_def case_prod_beta)

text \<open>The three ways a call of \<open>updateDot\<close> that does not respawn can end.\<close>

lemma updateDot_alive:
  fixes dot :: Dot and reassignMovementTo :: "FrameMovement option" and g :: rng
    and coherentDir :: "real \<times> real" and distance deltaTimeMs :: real
  assumes "\<not> lifeExpired dot deltaTimeMs maxDotLife"
  defines "ra \<equiv> reassignMovement dot (dot\<lparr> lifeCount := lifeCount dot + deltaTimeMs \<rparr>)
                  reassignMovementTo g"
  defines "md \<equiv> moveDirection (fst ra) (fst (snd ra)) coherentDir (snd (snd ra))"
  defines "moved \<equiv> (fst (snd ra))\<lparr> dot_x := dot_x (fst (snd ra)) + fst (fst md) * distance,
                                    dot_y := dot_y (fst (snd ra)) + snd (fst md) * distance \<rparr>"
  shows "updateDot dot distance deltaTimeMs maxDotLife ap reinsertType dotRadius coherentDir
           reassignMovementTo g =
         (if fst ra = RandomTeleport then
            Inr ((fst (snd ra))\<lparr> dot_x := fst (fst (getRandomPosition ap (snd (snd ra)))),
                                dot_y := snd (fst (getRandomPosition ap (snd (snd ra)))) \<rparr>,
                 snd (getRandomPosition ap (snd (snd ra))))
          else if isOutside ap (dot_x moved) (dot_y moved) dotRadius then
            reinsert ap reinsertType moved (fst (fst md)) (snd (fst md)) (snd md)
          else Inr (moved, snd md))"
proof -
  have ne: "\<not> (maxDotLife > 0
              \<and> lifeCount (dot\<lparr> lifeCount := lifeCount dot + deltaTimeMs \<rparr>) \<ge> maxDotLife)"
    using assms(1) by (simp add: lifeExpired_def)
  show ?thesis
    unfolding updateDot_def Let_def if_not_P [OF ne] ra_def md_def moved_def
    by (simp add: case_prod_beta)
qed

lemma reinsertionRuns_alive:
  fixes dot :: Dot and reassignMovementTo :: "FrameMovement option" and g :: rng
    and coherentDir :: "real \<times> real" and distance deltaTimeMs :: real
  assumes "\<not> lifeExpired dot deltaTimeMs maxDotLife"
  defines "ra \<equiv> reassignMovement dot (dot\<lparr> lifeCount := lifeCount dot + deltaTimeMs \<rparr>)
                  reassignMovementTo g"
  defines "md \<equiv> moveDirection (fst ra) (fst (snd ra)) coherentDir (snd (snd ra))"
  shows "reinsertionRuns dot distance deltaTimeMs maxDotLife ap dotRadius coherentDir
           reassignMovementTo g =
         (fst ra \<noteq> RandomTeleport \<and>
          isOutside ap (dot_x (fst (snd ra)) + fst (fst md) * distance)
                       (dot_y (fst (snd ra)) + snd (fst md) * distance) dotRadius)"
  using assms(1) unfolding ra_def md_def
  by (simp only: reinsertionRuns_def case_prod_beta simp_thms)

lemma updateDot_error_iff_aux:
  "(\<exists>e. updateDot dot distance deltaTimeMs maxDotLife ap reinsertType dotRadius coherentDir
           reassignMovementTo g = Inl e)
   \<longleftrightarrow> (reinsertionRuns dot distance deltaTimeMs maxDotLife ap dotRadius coherentDir
           reassignMovementTo g
        \<and> reinsertType \<notin> {''random'', ''opposite'', ''oppositeSimple'', ''wrap''})"
proof (cases "lifeExpired dot deltaTimeMs maxDotLife")
  case True
  then show ?thesis
    by (simp add: updateDot_expired reinsertionRuns_def)
next
  case False
  show ?thesis
    unfolding updateDot_alive [OF False] reinsertionRuns_alive [OF False]
    using reinsert_error_iff by (simp del: insert_iff)
qed

lemma updateDot_error_value:
  assumes "updateDot dot distance deltaTimeMs maxDotLife ap reinsertType dotRadius coherentDir
           reassignMovementTo g = Inl e"
  shows "e = UnknownReinsertType reinsertType"
proof (cases "lifeExpired dot deltaTimeMs maxDotLife")
  case True
  then show ?thesis using assms by (simp add: updateDot_expired)
next
  case False
  show ?thesis
    using assms unfolding updateDot_alive [OF False]
    by (auto split: if_splits dest: reinsert_error_value)
qed

lemma updateDot_position_aux:
  assumes p: "positive_extents ap" and r: "0 \<le> dotRadius" and g: "uniform01 g"
    and m: "reinsertType \<in> {''random'', ''opposite'', ''oppositeSimple'', ''wrap''}"
  shows "\<exists>d g'. updateDot dot distance deltaTimeMs maxDotLife ap reinsertType dotRadius coherentDir
                  reassignMovementTo g = Inr (d, g')
          \<and> (\<not> isOutside ap (dot_x d) (dot_y d) dotRadius
             \<or> (elliptical ap \<and> reinsertType = ''wrap'' \<and> inBoundingBox ap (dot_x d) (dot_y d)))
          \<and> (lifeExpired dot deltaTimeMs maxDotLife
               \<or> movementOf dot reassignMovementTo = RandomTeleport
             \<longrightarrow> \<not> isOutside ap (dot_x d) (dot_y d) 0)"
proof (cases "lifeExpired dot deltaTimeMs maxDotLife")
  case True
  note in0 = getRandomPosition_inside [OF p g]
  show ?thesis
    unfolding updateDot_expired [OF True]
    using in0 inside_with_margin [OF p r in0] by simp
next
  case False
  define ra where "ra = reassignMovement dot (dot\<lparr> lifeCount := lifeCount dot + deltaTimeMs \<rparr>)
                  reassignMovementTo g"
  define md where "md = moveDirection (fst ra) (fst (snd ra)) coherentDir (snd (snd ra))"
  have g1: "uniform01 (snd (snd ra))"
    unfolding ra_def using g by (rule uniform01_reassignMovement)
  have g2: "uniform01 (snd md)"
    unfolding md_def using g1 by (rule uniform01_moveDirection)
  have meth: "fst ra = movementOf dot reassignMovementTo"
    unfolding ra_def by (rule method_reassignMovement)
  show ?thesis
  proof (cases "fst ra = RandomTeleport")
    case True
    note in0 = getRandomPosition_inside [OF p g1]
    show ?thesis
      unfolding updateDot_alive [OF False] ra_def [symmetric]
      using True in0 inside_with_margin [OF p r in0] by simp
  next
    case nt: False
    show ?thesis
    proof (cases "isOutside ap (dot_x (fst (snd ra)) + fst (fst md) * distance)
                       (dot_y (fst (snd ra)) + snd (fst md) * distance) dotRadius")
      case True
      show ?thesis
        unfolding updateDot_alive [OF False] ra_def [symmetric] md_def [symmetric]
        using nt True False meth reinsert_position [OF p r g2 m]
        by simp
    next
      case out: False
      show ?thesis
        unfolding updateDot_alive [OF False] ra_def [symmetric] md_def [symmetric]
        using nt out False meth by simp
    qed
  qed
qed

text \<open>
  Claim C2, as amended. Over exact real arithmetic: for every dot, role, draw outcome and
  each of the four reinsertion modes, on an aperture with positive extents and a dot
  radius that is not negative, \<open>updateDot\<close> returns a dot for which at least one of the
  following holds: the dot is not outside the aperture expanded by the dot radius; or the
  mode is \<open>wrap\<close>, the aperture is elliptical and the dot lies in the half-open bounding box
  of the aperture. After a life-expiry respawn or a teleport the dot is not outside the
  aperture itself (margin 0).
\<close>

theorem updateDot_position_invariant:
  assumes "positive_extents ap" and "0 \<le> dotRadius" and "uniform01 g"
    and "reinsertType \<in> {''random'', ''opposite'', ''oppositeSimple'', ''wrap''}"
  shows "\<exists>d g'. updateDot dot distance deltaTimeMs maxDotLife ap reinsertType dotRadius coherentDir
                  reassignMovementTo g = Inr (d, g')
          \<and> (\<not> isOutside ap (dot_x d) (dot_y d) dotRadius
             \<or> (elliptical ap \<and> reinsertType = ''wrap'' \<and> inBoundingBox ap (dot_x d) (dot_y d)))
          \<and> (lifeExpired dot deltaTimeMs maxDotLife
               \<or> movementOf dot reassignMovementTo = RandomTeleport
             \<longrightarrow> \<not> isOutside ap (dot_x d) (dot_y d) 0)"
  using assms by (rule updateDot_position_aux)

lemma eval_rect_opposite:
  "updateDot \<lparr> dot_x = 299, dot_y = 0, randomDirX = 0, randomDirY = 0, lifeCount = 0,
               assignedMovement = Coherent \<rparr> 5 16 (- 1)
       (createAperture Rectangle 600 400 0 0) ''opposite'' 2 (1, 0) None (constant_draws 0)
     = Inr (\<lparr> dot_x = - 300, dot_y = 0, randomDirX = 0, randomDirY = 0, lifeCount = 16,
              assignedMovement = Coherent \<rparr>, constant_draws 0)"
  by (simp add: updateDot_def reassignMovement_def moveDirection_def isOutside_def
      createAperture_def elliptical_def reinsert_def getOppositePosition_def
      getOppositePosition_rectangular_def slab_times_def getOppositePositionSimple_def Let_def)

theorem updateDot_position_invariant_witness:
  "positive_extents (createAperture Rectangle 600 400 0 0) \<and> (0::real) \<le> 2
   \<and> uniform01 (constant_draws 0)
   \<and> ''opposite'' \<in> {''random'', ''opposite'', ''oppositeSimple'', ''wrap''}
   \<and> updateDot \<lparr> dot_x = 299, dot_y = 0, randomDirX = 0, randomDirY = 0, lifeCount = 0,
               assignedMovement = Coherent \<rparr> 5 16 (- 1)
       (createAperture Rectangle 600 400 0 0) ''opposite'' 2 (1, 0) None (constant_draws 0)
     = Inr (\<lparr> dot_x = - 300, dot_y = 0, randomDirX = 0, randomDirY = 0, lifeCount = 16,
              assignedMovement = Coherent \<rparr>, constant_draws 0)
   \<and> \<not> isOutside (createAperture Rectangle 600 400 0 0) (- 300) 0 2"
proof -
  have p: "positive_extents (createAperture Rectangle 600 400 0 0)"
    by (simp add: positive_extents_def createAperture_def)
  have r: "(0::real) \<le> 2" by simp
  have u: "uniform01 (constant_draws 0)" by (simp add: uniform01_constant)
  have m: "''opposite'' \<in> {''random'', ''opposite'', ''oppositeSimple'', ''wrap''}" by simp
  have rect: "\<not> elliptical (createAperture Rectangle 600 400 0 0)"
    by (simp add: elliptical_def createAperture_def)
  from updateDot_position_invariant [OF p r u m,
      of "\<lparr> dot_x = 299, dot_y = 0, randomDirX = 0, randomDirY = 0, lifeCount = 0,
               assignedMovement = Coherent \<rparr>" 5 16 "- 1" "(1, 0)" None]
  have "\<not> isOutside (createAperture Rectangle 600 400 0 0) (- 300) 0 2"
    unfolding eval_rect_opposite using rect by simp
  then show ?thesis using p u eval_rect_opposite by simp
qed

text \<open>
  The claim as stated fails for \<open>wrap\<close> on a circle: a coherent dot that moves from
  \<open>(70, 70)\<close> to \<open>(73, 74)\<close> leaves the circle of radius 100 expanded by the dot radius 2,
  but is inside the bounding box, so the wrap returns it unchanged.
\<close>

theorem updateDot_wrap_ellipse_counterexample:
  "updateDot \<lparr> dot_x = 70, dot_y = 70, randomDirX = 0, randomDirY = 0, lifeCount = 0,
               assignedMovement = Coherent \<rparr> 5 16 (- 1)
       (createAperture Circle 200 200 0 0) ''wrap'' 2 (3 / 5, 4 / 5) None (constant_draws 0)
     = Inr (\<lparr> dot_x = 73, dot_y = 74, randomDirX = 0, randomDirY = 0, lifeCount = 16,
              assignedMovement = Coherent \<rparr>, constant_draws 0)
   \<and> isOutside (createAperture Circle 200 200 0 0) 73 74 2
   \<and> \<not> lifeExpired \<lparr> dot_x = 70, dot_y = 70, randomDirX = 0, randomDirY = 0, lifeCount = 0,
               assignedMovement = Coherent \<rparr> 16 (- 1)
   \<and> movementOf \<lparr> dot_x = 70, dot_y = 70, randomDirX = 0, randomDirY = 0, lifeCount = 0,
               assignedMovement = Coherent \<rparr> None \<noteq> RandomTeleport"
  by (simp add: updateDot_def reassignMovement_def moveDirection_def isOutside_def
      createAperture_def elliptical_def reinsert_def wrapOnBounds_def js_rem_def js_trunc_def
      lifeExpired_def movementOf_def Let_def)


section \<open>Errors, fallbacks and respawn\<close>

lemma elliptical_fallback:
  assumes "elliptical ap"
    and "dX * dX + dY * dY \<le> 1 / 10 ^ 10
       \<or> quadratic_B ap d (dX / sqrt (dX * dX + dY * dY)) (dY / sqrt (dX * dX + dY * dY))
          * quadratic_B ap d (dX / sqrt (dX * dX + dY * dY)) (dY / sqrt (dX * dX + dY * dY))
          - quadratic_A ap (dX / sqrt (dX * dX + dY * dY)) (dY / sqrt (dX * dX + dY * dY))
          * quadratic_C ap d < 0
       \<or> (quadratic_B ap d (dX / sqrt (dX * dX + dY * dY)) (dY / sqrt (dX * dX + dY * dY))
          + sqrt (quadratic_B ap d (dX / sqrt (dX * dX + dY * dY)) (dY / sqrt (dX * dX + dY * dY))
          * quadratic_B ap d (dX / sqrt (dX * dX + dY * dY)) (dY / sqrt (dX * dX + dY * dY))
          - quadratic_A ap (dX / sqrt (dX * dX + dY * dY)) (dY / sqrt (dX * dX + dY * dY))
          * quadratic_C ap d))
          / quadratic_A ap (dX / sqrt (dX * dX + dY * dY)) (dY / sqrt (dX * dX + dY * dY)) \<le> 0
       \<or> quadratic_A ap (dX / sqrt (dX * dX + dY * dY)) (dY / sqrt (dX * dX + dY * dY)) = 0"
  shows "getOppositePosition ap d (Some dX) (Some dY) = getOppositePositionSimple ap d"
proof -
  define A where "A = quadratic_A ap (dX / sqrt (dX * dX + dY * dY)) (dY / sqrt (dX * dX + dY * dY))"
  define B where "B = quadratic_B ap d (dX / sqrt (dX * dX + dY * dY)) (dY / sqrt (dX * dX + dY * dY))"
  define C where "C = quadratic_C ap d"
  define t where "t = (B + sqrt (B * B - A * C)) / A"
  have res: "getOppositePosition_elliptical ap d (Some dX) (Some dY) =
        (if dX * dX + dY * dY > 1 / 10 ^ 10 then
           (if B * B - A * C \<ge> 0 then
              (if t > 0 \<and> A \<noteq> 0 then
                 (dot_x d - dX / sqrt (dX * dX + dY * dY) * t,
                  dot_y d - dY / sqrt (dX * dX + dY * dY) * t)
               else getOppositePositionSimple ap d)
            else getOppositePositionSimple ap d)
         else getOppositePositionSimple ap d)"
    unfolding t_def A_def B_def C_def
    by (simp only: getOppositePosition_elliptical_def Let_def prod.case option.case)
  have "\<not> (dX * dX + dY * dY > 1 / 10 ^ 10) \<or> \<not> (B * B - A * C \<ge> 0) \<or> \<not> (t > 0 \<and> A \<noteq> 0)"
    using assms(2) unfolding t_def A_def B_def C_def by (simp only: not_less not_le de_Morgan_conj not_not) 
  then have "getOppositePosition_elliptical ap d (Some dX) (Some dY) = getOppositePositionSimple ap d"
    unfolding res by (auto simp only: if_False if_True split: if_splits)
  then show ?thesis using assms(1) by (simp add: getOppositePosition_def)
qed


lemma rectangular_fallback:
  assumes "\<not> elliptical ap"
    and "sqrt (dX * dX + dY * dY) < 1 / 10 ^ 10
       \<or> snd (slab_times ap d (- dX / sqrt (dX * dX + dY * dY))
                               (- dY / sqrt (dX * dX + dY * dY))) = NegInfinity
       \<or> (\<exists>te. snd (slab_times ap d (- dX / sqrt (dX * dX + dY * dY))
                               (- dY / sqrt (dX * dX + dY * dY))) = Finite te \<and> te \<le> 0)"
  shows "getOppositePosition ap d (Some dX) (Some dY) = getOppositePositionSimple ap d"
proof -
  define tEnter where "tEnter = fst (slab_times ap d (- dX / sqrt (dX * dX + dY * dY))
                               (- dY / sqrt (dX * dX + dY * dY)))"
  define tExit where "tExit = snd (slab_times ap d (- dX / sqrt (dX * dX + dY * dY))
                               (- dY / sqrt (dX * dX + dY * dY)))"
  have res: "getOppositePosition_rectangular ap d (Some dX) (Some dY) =
        (if sqrt (dX * dX + dY * dY) < 1 / 10 ^ 10 then getOppositePositionSimple ap d
         else (case tExit of
                 Finite te \<Rightarrow>
                   if te > 0 \<and> xnum_le tEnter (Finite te) then
                     (dot_x d + - dX / sqrt (dX * dX + dY * dY) * te,
                      dot_y d + - dY / sqrt (dX * dX + dY * dY) * te)
                   else getOppositePositionSimple ap d
               | NegInfinity \<Rightarrow> getOppositePositionSimple ap d))"
    unfolding tExit_def tEnter_def
    by (simp only: getOppositePosition_rectangular_def Let_def prod.case option.case
        case_prod_beta fst_conv snd_conv)
  have "sqrt (dX * dX + dY * dY) < 1 / 10 ^ 10 \<or> tExit = NegInfinity
        \<or> (\<exists>te. tExit = Finite te \<and> te \<le> 0)"
    using assms(2) unfolding tExit_def .
  then have "getOppositePosition_rectangular ap d (Some dX) (Some dY) = getOppositePositionSimple ap d"
    unfolding res by (cases tExit) auto
  then show ?thesis using assms(1) by (simp add: getOppositePosition_def)
qed

lemma missing_direction_fallback:
  "getOppositePosition ap d None dirY = getOppositePositionSimple ap d"
  "getOppositePosition ap d dirX None = getOppositePositionSimple ap d"
  by (cases dirX; simp add: getOppositePosition_def getOppositePosition_elliptical_def
        getOppositePosition_rectangular_def)+

text \<open>
  Claim C9. \<open>updateDot\<close> raises an error exactly when the reinsertion dispatch runs with a
  mode that is none of \<open>random\<close>, \<open>opposite\<close>, \<open>oppositeSimple\<close>, \<open>wrap\<close>, and the error
  names that mode. The opposite ray-cast is a total function that returns the result of
  the simple policy when a direction is missing, when the direction is near zero, when the
  discriminant is negative, and when the root is not positive or not finite.
\<close>

theorem updateDot_raises_only_on_unknown_mode:
  "((\<exists>e. updateDot dot distance deltaTimeMs maxDotLife ap reinsertType dotRadius coherentDir
            reassignMovementTo g = Inl e)
     \<longleftrightarrow> (reinsertionRuns dot distance deltaTimeMs maxDotLife ap dotRadius coherentDir
            reassignMovementTo g
          \<and> reinsertType \<notin> {''random'', ''opposite'', ''oppositeSimple'', ''wrap''}))
   \<and> (\<forall>e. updateDot dot distance deltaTimeMs maxDotLife ap reinsertType dotRadius coherentDir
            reassignMovementTo g = Inl e \<longrightarrow> e = UnknownReinsertType reinsertType)
   \<and> getOppositePosition ap d None dirY = getOppositePositionSimple ap d
   \<and> getOppositePosition ap d dirX None = getOppositePositionSimple ap d
   \<and> (let mag = sqrt (dX * dX + dY * dY);
           A = quadratic_A ap (dX / mag) (dY / mag);
           B = quadratic_B ap d (dX / mag) (dY / mag);
           C = quadratic_C ap d;
           t = (B + sqrt (B * B - A * C)) / A
       in elliptical ap \<and> (dX * dX + dY * dY \<le> 1 / 10 ^ 10 \<or> B * B - A * C < 0 \<or> t \<le> 0 \<or> A = 0)
          \<longrightarrow> getOppositePosition ap d (Some dX) (Some dY) = getOppositePositionSimple ap d)
   \<and> (let mag = sqrt (dX * dX + dY * dY);
           tExit = snd (slab_times ap d (- dX / mag) (- dY / mag))
       in \<not> elliptical ap \<and> (mag < 1 / 10 ^ 10 \<or> tExit = NegInfinity
                               \<or> (\<exists>te. tExit = Finite te \<and> te \<le> 0))
          \<longrightarrow> getOppositePosition ap d (Some dX) (Some dY) = getOppositePositionSimple ap d)"
proof (intro conjI)
  show "(\<exists>e. updateDot dot distance deltaTimeMs maxDotLife ap reinsertType dotRadius coherentDir
            reassignMovementTo g = Inl e)
     \<longleftrightarrow> (reinsertionRuns dot distance deltaTimeMs maxDotLife ap dotRadius coherentDir
            reassignMovementTo g
          \<and> reinsertType \<notin> {''random'', ''opposite'', ''oppositeSimple'', ''wrap''})"
    by (rule updateDot_error_iff_aux)
  show "\<forall>e. updateDot dot distance deltaTimeMs maxDotLife ap reinsertType dotRadius coherentDir
            reassignMovementTo g = Inl e \<longrightarrow> e = UnknownReinsertType reinsertType"
    using updateDot_error_value by blast
  show "getOppositePosition ap d None dirY = getOppositePositionSimple ap d"
    by (rule missing_direction_fallback)
  show "getOppositePosition ap d dirX None = getOppositePositionSimple ap d"
    by (rule missing_direction_fallback)
  show "let mag = sqrt (dX * dX + dY * dY);
           A = quadratic_A ap (dX / mag) (dY / mag);
           B = quadratic_B ap d (dX / mag) (dY / mag);
           C = quadratic_C ap d;
           t = (B + sqrt (B * B - A * C)) / A
       in elliptical ap \<and> (dX * dX + dY * dY \<le> 1 / 10 ^ 10 \<or> B * B - A * C < 0 \<or> t \<le> 0 \<or> A = 0)
          \<longrightarrow> getOppositePosition ap d (Some dX) (Some dY) = getOppositePositionSimple ap d"
    unfolding Let_def using elliptical_fallback [of ap dX dY d] by blast
  show "let mag = sqrt (dX * dX + dY * dY);
           tExit = snd (slab_times ap d (- dX / mag) (- dY / mag))
       in \<not> elliptical ap \<and> (mag < 1 / 10 ^ 10 \<or> tExit = NegInfinity
                               \<or> (\<exists>te. tExit = Finite te \<and> te \<le> 0))
          \<longrightarrow> getOppositePosition ap d (Some dX) (Some dY) = getOppositePositionSimple ap d"
    unfolding Let_def using rectangular_fallback [of ap dX dY d] by blast
qed

text \<open>
  Claim C8. When lifetime limiting is enabled and the incremented life counter reaches the
  limit, \<open>updateDot\<close> returns the input dot with a freshly sampled position and life
  counter 0: role and stored direction are kept, the result does not depend on the
  distance, the reinsertion mode, the dot radius, the coherent direction or a supplied
  reassignment, and only the draws of the position sample are consumed.
\<close>

theorem life_expiry_respawns:
  assumes "maxDotLife > 0" and "lifeCount dot + deltaTimeMs \<ge> maxDotLife"
  shows "updateDot dot distance deltaTimeMs maxDotLife ap reinsertType dotRadius coherentDir
           reassignMovementTo g =
         Inr (dot\<lparr> dot_x := fst (fst (getRandomPosition ap g)),
                   dot_y := snd (fst (getRandomPosition ap g)),
                   lifeCount := 0 \<rparr>, snd (getRandomPosition ap g))"
  using assms by (intro updateDot_expired) (simp add: lifeExpired_def)


lemma getRandomPosition_rect_half:
  "getRandomPosition (createAperture Rectangle 600 400 0 0) (constant_draws (1 / 2))
     = ((0, 0), constant_draws (1 / 2))"
  by (simp add: getRandomPosition_def createAperture_def elliptical_def randomBetween_def
      Math_random_constant)

theorem life_expiry_respawns_witness:
  "(100::real) > 0 \<and> (95::real) + 10 \<ge> 100
   \<and> updateDot \<lparr> dot_x = 290, dot_y = 10, randomDirX = 3 / 5, randomDirY = 4 / 5,
                 lifeCount = 95, assignedMovement = RandomDirection \<rparr> 1 10 100
        (createAperture Rectangle 600 400 0 0) ''unknown'' 2 (1, 0) (Some Opposite)
        (constant_draws (1 / 2))
     = Inr (\<lparr> dot_x = 0, dot_y = 0, randomDirX = 3 / 5, randomDirY = 4 / 5,
              lifeCount = 0, assignedMovement = RandomDirection \<rparr>, constant_draws (1 / 2))"
  using life_expiry_respawns [of 100
      "\<lparr> dot_x = 290, dot_y = 10, randomDirX = 3 / 5, randomDirY = 4 / 5,
         lifeCount = 95, assignedMovement = RandomDirection \<rparr>" 10 1
      "createAperture Rectangle 600 400 0 0" "''unknown''" 2 "(1, 0)" "Some Opposite"
      "constant_draws (1 / 2)"]
  by (simp add: getRandomPosition_rect_half)

theorem updateDot_raises_only_on_unknown_mode_witness:
  "reinsertionRuns \<lparr> dot_x = 299, dot_y = 0, randomDirX = 0, randomDirY = 0, lifeCount = 0,
               assignedMovement = Coherent \<rparr> 5 16 (- 1)
       (createAperture Rectangle 600 400 0 0) 2 (1, 0) None (constant_draws 0)
   \<and> ''bounce'' \<notin> {''random'', ''opposite'', ''oppositeSimple'', ''wrap''}
   \<and> updateDot \<lparr> dot_x = 299, dot_y = 0, randomDirX = 0, randomDirY = 0, lifeCount = 0,
               assignedMovement = Coherent \<rparr> 5 16 (- 1)
       (createAperture Rectangle 600 400 0 0) ''bounce'' 2 (1, 0) None (constant_draws 0)
     = Inl (UnknownReinsertType ''bounce'')
   \<and> \<not> elliptical (createAperture Rectangle 600 400 0 0)
   \<and> getOppositePosition (createAperture Rectangle 600 400 0 0)
        \<lparr> dot_x = 304, dot_y = 0, randomDirX = 0, randomDirY = 0, lifeCount = 16,
          assignedMovement = Coherent \<rparr> (Some 1) (Some 0)
     = getOppositePositionSimple (createAperture Rectangle 600 400 0 0)
        \<lparr> dot_x = 304, dot_y = 0, randomDirX = 0, randomDirY = 0, lifeCount = 16,
          assignedMovement = Coherent \<rparr>"
proof -
  note T = updateDot_raises_only_on_unknown_mode [of
      "\<lparr> dot_x = 299, dot_y = 0, randomDirX = 0, randomDirY = 0, lifeCount = 0,
         assignedMovement = Coherent \<rparr>" 5 16 "- 1" "createAperture Rectangle 600 400 0 0"
      "''bounce''" 2 "(1, 0)" None "constant_draws 0"
      "\<lparr> dot_x = 304, dot_y = 0, randomDirX = 0, randomDirY = 0, lifeCount = 16,
         assignedMovement = Coherent \<rparr>" None None 1 0]
  have runs: "reinsertionRuns \<lparr> dot_x = 299, dot_y = 0, randomDirX = 0, randomDirY = 0,
               lifeCount = 0, assignedMovement = Coherent \<rparr> 5 16 (- 1)
       (createAperture Rectangle 600 400 0 0) 2 (1, 0) None (constant_draws 0)"
    by (simp add: reinsertionRuns_def lifeExpired_def reassignMovement_def moveDirection_def
        isOutside_def createAperture_def elliptical_def)
  have unk: "''bounce'' \<notin> {''random'', ''opposite'', ''oppositeSimple'', ''wrap''}" by simp
  have rect: "\<not> elliptical (createAperture Rectangle 600 400 0 0)"
    by (simp add: elliptical_def createAperture_def)
  have texit: "snd (slab_times (createAperture Rectangle 600 400 0 0)
        \<lparr> dot_x = 304, dot_y = 0, randomDirX = 0, randomDirY = 0, lifeCount = 16,
          assignedMovement = Coherent \<rparr> (- 1 / sqrt (1 * 1 + 0 * 0)) (- 0 / sqrt (1 * 1 + 0 * 0)))
        = NegInfinity"
    by (simp add: slab_times_def createAperture_def)
  have "\<exists>e. updateDot \<lparr> dot_x = 299, dot_y = 0, randomDirX = 0,
               randomDirY = 0, lifeCount = 0, assignedMovement = Coherent \<rparr> 5 16 (- 1)
       (createAperture Rectangle 600 400 0 0) ''bounce'' 2 (1, 0) None (constant_draws 0) = Inl e"
    by (rule iffD2 [OF T [THEN conjunct1]]) (rule conjI [OF runs unk])
  then obtain e where e: "updateDot \<lparr> dot_x = 299, dot_y = 0, randomDirX = 0,
               randomDirY = 0, lifeCount = 0, assignedMovement = Coherent \<rparr> 5 16 (- 1)
       (createAperture Rectangle 600 400 0 0) ''bounce'' 2 (1, 0) None (constant_draws 0) = Inl e"
    ..
  have "e = UnknownReinsertType ''bounce''"
    by (rule T [THEN conjunct2, THEN conjunct1, rule_format, OF e])
  with e have err: "updateDot \<lparr> dot_x = 299, dot_y = 0, randomDirX = 0,
               randomDirY = 0, lifeCount = 0, assignedMovement = Coherent \<rparr> 5 16 (- 1)
       (createAperture Rectangle 600 400 0 0) ''bounce'' 2 (1, 0) None (constant_draws 0)
       = Inl (UnknownReinsertType ''bounce'')" by (simp only:)
  have fb: "getOppositePosition (createAperture Rectangle 600 400 0 0)
        \<lparr> dot_x = 304, dot_y = 0, randomDirX = 0, randomDirY = 0, lifeCount = 16,
          assignedMovement = Coherent \<rparr> (Some 1) (Some 0)
     = getOppositePositionSimple (createAperture Rectangle 600 400 0 0)
        \<lparr> dot_x = 304, dot_y = 0, randomDirX = 0, randomDirY = 0, lifeCount = 16,
          assignedMovement = Coherent \<rparr>"
    by (rule mp [OF T [THEN conjunct2, THEN conjunct2, THEN conjunct2, THEN conjunct2,
            THEN conjunct2, unfolded Let_def]])
      (intro conjI disjI2 disjI1 rect texit)
  show ?thesis by (intro conjI runs unk err rect fb)
qed

text \<open>
  Claim C6. On an elliptical aperture, the opposite ray-cast sends a dot at the rightmost
  boundary point that travels in direction \<open>(1, 0)\<close> to the leftmost boundary point, at
  the same vertical offset, exactly.
\<close>

theorem opposite_ray_rightmost_to_leftmost:
  assumes e: "elliptical ap" and p: "positive_extents ap"
    and x: "dot_x dot = centerX ap + horizontalAxis ap" and y: "dot_y dot = centerY ap"
  shows "getOppositePosition ap dot (Some 1) (Some 0)
         = (centerX ap - horizontalAxis ap, centerY ap)"
proof -
  have h: "0 < horizontalAxis ap" and v: "0 < verticalAxis ap"
    using p by (simp_all add: positive_extents_def)
  have A: "quadratic_A ap 1 0 = 1 / (horizontalAxis ap * horizontalAxis ap)"
    by (simp add: quadratic_A_def)
  have B: "quadratic_B ap dot 1 0 = 1 / horizontalAxis ap"
    using h by (simp add: quadratic_B_def x y)
  have C: "quadratic_C ap dot = 0"
    using h by (simp add: quadratic_C_def x y)
  have s: "sqrt (1 / horizontalAxis ap * (1 / horizontalAxis ap)) = 1 / horizontalAxis ap"
    using h by (simp add: real_sqrt_divide real_sqrt_mult)
  have t: "(1 / horizontalAxis ap + 1 / horizontalAxis ap)
             / (1 / (horizontalAxis ap * horizontalAxis ap)) = 2 * horizontalAxis ap"
    using h by (simp add: field_simps)
  have "getOppositePosition_elliptical ap dot (Some 1) (Some 0)
        = (centerX ap - horizontalAxis ap, centerY ap)"
    using h by (simp add: getOppositePosition_elliptical_def Let_def A B C s t x y)
  then show ?thesis using e by (simp add: getOppositePosition_def)
qed

theorem opposite_ray_rightmost_to_leftmost_witness:
  "elliptical (createAperture Circle 200 200 0 0)
   \<and> positive_extents (createAperture Circle 200 200 0 0)
   \<and> getOppositePosition (createAperture Circle 200 200 0 0)
        \<lparr> dot_x = 100, dot_y = 0, randomDirX = 0, randomDirY = 0, lifeCount = 0,
          assignedMovement = Coherent \<rparr> (Some 1) (Some 0) = (- 100, 0)"
  using opposite_ray_rightmost_to_leftmost [of "createAperture Circle 200 200 0 0"
      "\<lparr> dot_x = 100, dot_y = 0, randomDirX = 0, randomDirY = 0, lifeCount = 0,
         assignedMovement = Coherent \<rparr>"]
  by (simp add: elliptical_def positive_extents_def createAperture_def)


section \<open>Creating a dot and assigning roles\<close>

text \<open>
  Claim C10 says that a dot created with the role \<open>randomDirection\<close> stores the unit vector
  \<open>(cos theta, -sin theta)\<close> for every sampled angle. The guard \<open>theta ? ... : 0\<close> of
  \<open>createDot\<close> takes the sampled angle 0 (the draw \<open>1/2\<close>) for "no angle" and stores the zero
  vector, where \<open>(1, 0)\<close> is the unit vector; \<open>updateDot\<close> stores \<open>cos theta\<close> and
  \<open>-sin theta\<close> without the guard. For every other angle the stored vector is the unit
  vector (\<open>createDot_direction_unit\<close>).
\<close>

theorem createDot_zero_angle_stores_zero_vector:
  "createDot RandomDirection 0 (createAperture Rectangle 600 400 0 0) (constant_draws (1 / 2))
     = (\<lparr> dot_x = 0, dot_y = 0, randomDirX = 0, randomDirY = 0, lifeCount = 0,
          assignedMovement = RandomDirection \<rparr>, constant_draws (1 / 2))"
  by (simp add: createDot_def getRandomPosition_rect_half randomBetween_def Math_random_constant)

lemma createDot_direction_unit:
  assumes "fst (randomBetween (- pi) pi (snd (getRandomPosition ap g))) \<noteq> 0"
  shows "randomDirX (fst (createDot RandomDirection maxDotLife ap g))
           = cos (fst (randomBetween (- pi) pi (snd (getRandomPosition ap g))))
       \<and> randomDirY (fst (createDot RandomDirection maxDotLife ap g))
           = - sin (fst (randomBetween (- pi) pi (snd (getRandomPosition ap g))))
       \<and> (randomDirX (fst (createDot RandomDirection maxDotLife ap g)))\<^sup>2
         + (randomDirY (fst (createDot RandomDirection maxDotLife ap g)))\<^sup>2 = 1"
  using assms by (simp add: createDot_def case_prod_beta)

lemma shuffle_from_mset:
  assumes "uniform01 g" and "k < length xs \<or> k = 0"
  shows "mset (fst (shuffle_from k xs g)) = mset xs"
  using assms
proof (induction k arbitrary: xs g)
  case 0
  then show ?case by simp
next
  case (Suc i)
  have u: "0 \<le> g 0" "g 0 < 1" using Suc.prems(1) by (simp_all add: uniform01_def)
  define j where "j = nat \<lfloor>g 0 * real (Suc i + 1)\<rfloor>"
  have "g 0 * real (Suc i + 1) < real (Suc i + 1)" using u by simp
  then have "\<lfloor>g 0 * real (Suc i + 1)\<rfloor> < int (Suc i + 1)" by (simp add: floor_less_iff)
  then have j: "j \<le> Suc i" unfolding j_def by linarith
  have len: "Suc i < length xs" using Suc.prems(2) by simp
  have jl: "j < length xs" using j len by simp
  have g1: "uniform01 (snd (Math_random g))" using Suc.prems(1) by (rule uniform01_rest)
  have swap: "mset (xs[Suc i := xs ! j, j := xs ! Suc i]) = mset xs"
    using jl len by (rule mset_swap)
  have "mset (fst (shuffle_from i (xs[Suc i := xs ! j, j := xs ! Suc i]) (snd (Math_random g))))
        = mset (xs[Suc i := xs ! j, j := xs ! Suc i])"
    using g1 len by (intro Suc.IH) simp_all
  then show ?case using swap
    by (simp add: j_def Math_random_def Let_def)
qed

lemma shuffle_mset: "uniform01 g \<Longrightarrow> mset (fst (shuffle xs g)) = mset xs"
  unfolding shuffle_def by (rule shuffle_from_mset) (auto simp: Suc_le_eq)

lemma Array_fill_nat:
  "n < 2 ^ 32 \<Longrightarrow> Array_fill (real n) v = Inr (replicate n v)"
  by (simp add: Array_fill_def)


lemma floor_fl_nonneg: "0 \<le> x \<Longrightarrow> 0 \<le> \<lfloor>fl x\<rfloor>"
  using fl_nonneg [of x] by simp

lemma generateShuffledAssignments_counts_aux:
  fixes n :: nat
  assumes perm: "\<forall>xs g. uniform01 g \<longrightarrow> mset (fst (shuffle_fn xs g)) = mset xs"
    and g: "uniform01 g" and n: "n < 2 ^ 32"
    and c: "0 \<le> coherence" and o: "0 \<le> opposite"
    and sum: "\<lfloor>fl (real n * coherence)\<rfloor> + \<lfloor>fl (real n * opposite)\<rfloor> \<le> int n"
  shows "\<exists>ys g'. generateShuffledAssignments shuffle_fn (real n) coherence opposite noise g
                   = Inr (ys, g')
          \<and> length ys = n
          \<and> mset ys = replicate_mset (nat \<lfloor>fl (real n * coherence)\<rfloor>) Coherent
                     + replicate_mset (nat \<lfloor>fl (real n * opposite)\<rfloor>) Opposite
                     + replicate_mset (n - nat \<lfloor>fl (real n * coherence)\<rfloor>
                                         - nat \<lfloor>fl (real n * opposite)\<rfloor>) noise
          \<and> (noise \<noteq> Coherent \<and> noise \<noteq> Opposite \<longrightarrow>
               count_list ys Coherent = nat \<lfloor>fl (real n * coherence)\<rfloor>
             \<and> count_list ys Opposite = nat \<lfloor>fl (real n * opposite)\<rfloor>
             \<and> count_list ys noise = n - nat \<lfloor>fl (real n * coherence)\<rfloor>
                                        - nat \<lfloor>fl (real n * opposite)\<rfloor>)"
proof -
  define nC where "nC = nat \<lfloor>fl (real n * coherence)\<rfloor>"
  define nO where "nO = nat \<lfloor>fl (real n * opposite)\<rfloor>"
  have fc: "0 \<le> \<lfloor>fl (real n * coherence)\<rfloor>" and fo: "0 \<le> \<lfloor>fl (real n * opposite)\<rfloor>"
    using floor_fl_nonneg [of "real n * coherence"] floor_fl_nonneg [of "real n * opposite"] c o
    by simp_all
  have le: "nC + nO \<le> n" using sum fc fo unfolding nC_def nO_def by linarith
  have rc: "(of_int \<lfloor>fl (real n * coherence)\<rfloor> :: real) = real nC"
    using fc unfolding nC_def by simp
  have ro: "(of_int \<lfloor>fl (real n * opposite)\<rfloor> :: real) = real nO"
    using fo unfolding nO_def by simp
  have big: "(2::nat) ^ 32 \<le> 2 ^ 53" by simp
  have s1: "fl (real n - real nC) = real (n - nC)"
  proof -
    have "n - nC < 2 ^ 53" using n big by linarith
    then have f: "fl (real (n - nC)) = real (n - nC)" by (rule fl_of_nat)
    have e: "real n - real nC = real (n - nC)" using le by (simp add: of_nat_diff)
    show ?thesis unfolding e by (rule f)
  qed
  have s2: "fl (real (n - nC) - real nO) = real (n - nC - nO)"
  proof -
    have "n - nC - nO < 2 ^ 53" using n big by linarith
    then have f: "fl (real (n - nC - nO)) = real (n - nC - nO)" by (rule fl_of_nat)
    have e: "real (n - nC) - real nO = real (n - nC - nO)" using le by (simp add: of_nat_diff)
    show ?thesis unfolding e by (rule f)
  qed
  have rn: "fl (fl (real n - real nC) - real nO) = real (n - nC - nO)"
    unfolding s1 s2 by (rule refl)
  have bC: "nC < 2 ^ 32" and bO: "nO < 2 ^ 32" and bN: "n - nC - nO < 2 ^ 32"
    using le n by simp_all
  define xs where "xs = replicate nC Coherent @ replicate nO Opposite @ replicate (n - nC - nO) noise"
  have res: "generateShuffledAssignments shuffle_fn (real n) coherence opposite noise g
             = Inr (shuffle_fn xs g)"
    unfolding generateShuffledAssignments_def Let_def rc ro rn xs_def
    by (simp only: Array_fill_nat [OF bC] Array_fill_nat [OF bO] Array_fill_nat [OF bN] sum.case)
  define ys where "ys = fst (shuffle_fn xs g)"
  have m: "mset ys = mset xs" unfolding ys_def using perm g by blast
  have mx: "mset xs = replicate_mset nC Coherent + replicate_mset nO Opposite
                      + replicate_mset (n - nC - nO) noise"
    unfolding xs_def by simp
  have "size (mset ys) = size (mset xs)" by (simp only: m)
  then have len: "length ys = n" using le unfolding xs_def by simp
  have cnt: "count_list ys v = count (mset xs) v" for v
    by (simp only: m [symmetric] count_mset)
  have counts: "count_list ys Coherent = nC \<and> count_list ys Opposite = nO
                \<and> count_list ys noise = n - nC - nO"
    if "noise \<noteq> Coherent \<and> noise \<noteq> Opposite"
    using that unfolding cnt mx by auto
  have counts': "noise \<noteq> Coherent \<and> noise \<noteq> Opposite \<longrightarrow>
                 count_list ys Coherent = nC \<and> count_list ys Opposite = nO
                 \<and> count_list ys noise = n - nC - nO"
    using counts by blast
  have mm: "mset ys = replicate_mset nC Coherent + replicate_mset nO Opposite
                      + replicate_mset (n - nC - nO) noise"
    using m mx by simp
  have final: "generateShuffledAssignments shuffle_fn (real n) coherence opposite noise g
        = Inr (ys, snd (shuffle_fn xs g))"
    unfolding res ys_def by simp
  show ?thesis
    unfolding nC_def [symmetric] nO_def [symmetric]
    by (rule exI [of _ ys], rule exI [of _ "snd (shuffle_fn xs g)"])
       (intro conjI final len mm counts')
qed

lemma fl_zero: "fl 0 = 0"
  by (simp add: fl_def)

lemma fl_one: "fl 1 = 1"
  using fl_of_int [of 1] by simp

lemma fl_minus_one: "fl (- 1) = - 1"
  using fl_of_int [of "- 1"] by simp

text \<open>
  The doubles nearest to 0.7 and to 0.1, and the rounded products of the count 150 with
  them: \<open>150 * 0.7\<close> is \<open>105\<close> in binary64, where the exact product of 150 and the double
  lies below 105.
\<close>

lemma fl_product_coherence:
  "fl (real 150 * (3152519739159347 / 4503599627370496)) = 105"
  by code_simp

lemma exact_product_coherence:
  "\<lfloor>real 150 * (3152519739159347 / 4503599627370496 :: real)\<rfloor> = 104"
  by code_simp

lemma fl_product_opposite:
  "fl (real 150 * (3602879701896397 / 36028797018963968)) = 15"
  by code_simp

text \<open>
  The claim as stated (every count and every coherence and opposite in \<open>[0, 1]\<close>) fails
  when the two fractions sum past 1: for count 1 and both fractions 1 the noise count is
  \<open>-1\<close> and \<open>Array(-1)\<close> raises.
\<close>

theorem generateShuffledAssignments_negative_noise_count:
  "generateShuffledAssignments shuffle 1 1 1 RandomDirection (constant_draws 0) = Inl RangeError"
  by (simp add: generateShuffledAssignments_def Array_fill_def fl_zero fl_one fl_minus_one)


text \<open>
  Claim C1, as amended. The counts are those the source computes: \<open>Math.floor\<close> of the
  binary64 product of the count and the fraction. For every integer count \<open>n < 2^32\<close>,
  fractions that are not negative with
  \<open>floor(fl(n * coherence)) + floor(fl(n * opposite)) \<le> n\<close>, every shuffle that returns a
  permutation of its argument and every draw outcome, \<open>generateShuffledAssignments\<close>
  returns a list of length \<open>n\<close> made of exactly \<open>floor(fl(n * coherence))\<close> coherent
  entries, \<open>floor(fl(n * opposite))\<close> opposite entries and the noise role for the rest.
\<close>

theorem generateShuffledAssignments_exact_counts:
  fixes n :: nat
  assumes "\<forall>xs g. uniform01 g \<longrightarrow> mset (fst (shuffle_fn xs g)) = mset xs"
    and "uniform01 g" and "n < 2 ^ 32"
    and "0 \<le> coherence" and "0 \<le> opposite"
    and "\<lfloor>fl (real n * coherence)\<rfloor> + \<lfloor>fl (real n * opposite)\<rfloor> \<le> int n"
  shows "\<exists>ys g'. generateShuffledAssignments shuffle_fn (real n) coherence opposite noise g
                   = Inr (ys, g')
          \<and> length ys = n
          \<and> mset ys = replicate_mset (nat \<lfloor>fl (real n * coherence)\<rfloor>) Coherent
                     + replicate_mset (nat \<lfloor>fl (real n * opposite)\<rfloor>) Opposite
                     + replicate_mset (n - nat \<lfloor>fl (real n * coherence)\<rfloor>
                                         - nat \<lfloor>fl (real n * opposite)\<rfloor>) noise
          \<and> (noise \<noteq> Coherent \<and> noise \<noteq> Opposite \<longrightarrow>
               count_list ys Coherent = nat \<lfloor>fl (real n * coherence)\<rfloor>
             \<and> count_list ys Opposite = nat \<lfloor>fl (real n * opposite)\<rfloor>
             \<and> count_list ys noise = n - nat \<lfloor>fl (real n * coherence)\<rfloor>
                                        - nat \<lfloor>fl (real n * opposite)\<rfloor>)"
  using assms by (rule generateShuffledAssignments_counts_aux)

theorem generateShuffledAssignments_exact_counts_witness:
  "uniform01 (constant_draws 0) \<and> (150::nat) < 2 ^ 32
   \<and> (0::real) \<le> 3152519739159347 / 4503599627370496
   \<and> (0::real) \<le> 3602879701896397 / 36028797018963968
   \<and> \<lfloor>fl (real 150 * (3152519739159347 / 4503599627370496))\<rfloor>
       + \<lfloor>fl (real 150 * (3602879701896397 / 36028797018963968))\<rfloor> \<le> int 150
   \<and> (\<exists>ys g'. generateShuffledAssignments shuffle 150 (3152519739159347 / 4503599627370496)
                   (3602879701896397 / 36028797018963968) RandomDirection
                   (constant_draws 0) = Inr (ys, g')
        \<and> length ys = 150
        \<and> count_list ys Coherent = 105 \<and> count_list ys Opposite = 15
        \<and> count_list ys RandomDirection = 30)"
proof -
  have perm: "\<forall>xs g. uniform01 g \<longrightarrow> mset (fst (shuffle xs g)) = mset (xs :: FrameMovement list)"
    by (simp add: shuffle_mset)
  have u: "uniform01 (constant_draws 0)" by (simp add: uniform01_constant)
  have n: "(150::nat) < 2 ^ 32" by simp
  have c: "(0::real) \<le> 3152519739159347 / 4503599627370496"
    and o: "(0::real) \<le> 3602879701896397 / 36028797018963968" by simp_all
  have s: "\<lfloor>fl (real 150 * (3152519739159347 / 4503599627370496))\<rfloor>
       + \<lfloor>fl (real 150 * (3602879701896397 / 36028797018963968))\<rfloor> \<le> int 150"
    unfolding fl_product_coherence fl_product_opposite by simp
  from generateShuffledAssignments_exact_counts [OF perm u n c o s, of RandomDirection]
  obtain ys g' where r: "generateShuffledAssignments shuffle (real 150)
        (3152519739159347 / 4503599627370496) (3602879701896397 / 36028797018963968)
        RandomDirection (constant_draws 0) = Inr (ys, g')"
      "length ys = 150"
      "count_list ys Coherent = nat \<lfloor>fl (real 150 * (3152519739159347 / 4503599627370496))\<rfloor>"
      "count_list ys Opposite = nat \<lfloor>fl (real 150 * (3602879701896397 / 36028797018963968))\<rfloor>"
      "count_list ys RandomDirection
         = 150 - nat \<lfloor>fl (real 150 * (3152519739159347 / 4503599627370496))\<rfloor>
               - nat \<lfloor>fl (real 150 * (3602879701896397 / 36028797018963968))\<rfloor>"
    by auto
  have "generateShuffledAssignments shuffle 150 (3152519739159347 / 4503599627370496)
                   (3602879701896397 / 36028797018963968) RandomDirection
                   (constant_draws 0) = Inr (ys, g')
        \<and> length ys = 150
        \<and> count_list ys Coherent = 105 \<and> count_list ys Opposite = 15
        \<and> count_list ys RandomDirection = 30"
    using r unfolding fl_product_coherence fl_product_opposite by simp
  then show ?thesis using u s by auto
qed


section \<open>Calibration and the trial clock\<close>

lemma updateRefreshEstimate_discard:
  "frameDelta \<le> 0 \<or> frameDelta \<ge> 500 \<Longrightarrow> updateRefreshEstimate frameDelta st = st"
  by (auto simp add: updateRefreshEstimate_def)

lemma feedDeltas_snoc:
  "feedDeltas (ds @ [d]) st = updateRefreshEstimate d (feedDeltas ds st)"
  by (simp add: feedDeltas_def)

lemma updateRefreshEstimate_collect:
  assumes "validDelta d" "length vs < 9"
  shows "updateRefreshEstimate d (st\<lparr> frameIntervalsRef := vs, isCalibrated := False \<rparr>)
         = st\<lparr> frameIntervalsRef := vs @ [d], isCalibrated := False \<rparr>"
  using assms
  by (simp add: updateRefreshEstimate_def validDelta_def CALIBRATION_FRAME_COUNT_def Let_def)

lemma updateRefreshEstimate_tenth:
  assumes "validDelta d" "length vs = 9"
  shows "updateRefreshEstimate d (st\<lparr> frameIntervalsRef := vs, isCalibrated := False \<rparr>)
         = st\<lparr> frameIntervalsRef := vs @ [d],
               estimatedFrameIntervalRef :=
                 Some ((sort (vs @ [d]) ! 4 + sort (vs @ [d]) ! 5) / 2),
               isCalibrated := True \<rparr>"
  using assms
  by (simp add: updateRefreshEstimate_def validDelta_def CALIBRATION_FRAME_COUNT_def Let_def)

lemma feedDeltas_calibration:
  "(length (filter validDelta ds) < 10 \<longrightarrow>
      feedDeltas ds (st\<lparr> frameIntervalsRef := [], isCalibrated := False \<rparr>)
      = st\<lparr> frameIntervalsRef := filter validDelta ds, isCalibrated := False \<rparr>)
   \<and> (length (filter validDelta ds) = 10 \<longrightarrow>
      feedDeltas ds (st\<lparr> frameIntervalsRef := [], isCalibrated := False \<rparr>)
      = st\<lparr> frameIntervalsRef := filter validDelta ds,
            estimatedFrameIntervalRef :=
              Some ((sort (filter validDelta ds) ! 4 + sort (filter validDelta ds) ! 5) / 2),
            isCalibrated := True \<rparr>)"
proof (induction ds rule: rev_induct)
  case Nil
  show ?case by (simp add: feedDeltas_def)
next
  case (snoc d ds)
  show ?case
  proof (cases "validDelta d")
    case False
    then have "d \<le> 0 \<or> d \<ge> 500" by (auto simp add: validDelta_def)
    then have "updateRefreshEstimate d s = s" for s by (rule updateRefreshEstimate_discard)
    then show ?thesis using snoc False by (simp add: feedDeltas_snoc)
  next
    case True
    show ?thesis
    proof (intro conjI impI)
      assume "length (filter validDelta (ds @ [d])) < 10"
      then have l: "length (filter validDelta ds) < 9" using True by simp
      then have "feedDeltas ds (st\<lparr> frameIntervalsRef := [], isCalibrated := False \<rparr>)
          = st\<lparr> frameIntervalsRef := filter validDelta ds, isCalibrated := False \<rparr>"
        using snoc by simp
      then show "feedDeltas (ds @ [d]) (st\<lparr> frameIntervalsRef := [], isCalibrated := False \<rparr>)
          = st\<lparr> frameIntervalsRef := filter validDelta (ds @ [d]), isCalibrated := False \<rparr>"
        using True updateRefreshEstimate_collect [OF True l, of st]
        by (simp add: feedDeltas_snoc)
    next
      assume "length (filter validDelta (ds @ [d])) = 10"
      then have l: "length (filter validDelta ds) = 9" using True by simp
      then have "feedDeltas ds (st\<lparr> frameIntervalsRef := [], isCalibrated := False \<rparr>)
          = st\<lparr> frameIntervalsRef := filter validDelta ds, isCalibrated := False \<rparr>"
        using snoc by simp
      then show "feedDeltas (ds @ [d]) (st\<lparr> frameIntervalsRef := [], isCalibrated := False \<rparr>)
          = st\<lparr> frameIntervalsRef := filter validDelta (ds @ [d]),
            estimatedFrameIntervalRef :=
              Some ((sort (filter validDelta (ds @ [d])) ! 4
                     + sort (filter validDelta (ds @ [d])) ! 5) / 2),
            isCalibrated := True \<rparr>"
        using True updateRefreshEstimate_tenth [OF True l, of st]
        by (simp add: feedDeltas_snoc)
    qed
  qed
qed

text \<open>
  Claim C4. A frame delta that is \<open>\<le> 0\<close> or \<open>\<ge> 500\<close> ms leaves the whole state unchanged.
  From the uncalibrated state with an empty buffer, fewer than 10 valid deltas are only
  collected; when a sequence of deltas holds exactly 10 valid ones, the estimate is the
  average of the two middle values of the sorted samples and the state is calibrated. The
  deltas 16, 17, ..., 16, 17 give the estimate 16.5 ms.
\<close>

theorem calibration_by_median_of_ten:
  "(frameDelta \<le> 0 \<or> frameDelta \<ge> 500 \<longrightarrow> updateRefreshEstimate frameDelta s = s)
   \<and> (frameIntervalsRef st = [] \<and> \<not> isCalibrated st \<and> length (filter validDelta ds) < 10 \<longrightarrow>
        feedDeltas ds st = st\<lparr> frameIntervalsRef := filter validDelta ds \<rparr>)
   \<and> (frameIntervalsRef st = [] \<and> \<not> isCalibrated st \<and> length (filter validDelta ds) = 10 \<longrightarrow>
        feedDeltas ds st
        = st\<lparr> frameIntervalsRef := filter validDelta ds,
              estimatedFrameIntervalRef :=
                Some ((sort (filter validDelta ds) ! 4 + sort (filter validDelta ds) ! 5) / 2),
              isCalibrated := True \<rparr>)
   \<and> feedDeltas [16, 17, 16, 17, 16, 17, 16, 17, 16, 17] initialLoopState
       = initialLoopState\<lparr> frameIntervalsRef := [16, 17, 16, 17, 16, 17, 16, 17, 16, 17],
                            estimatedFrameIntervalRef := Some (33 / 2),
                            isCalibrated := True \<rparr>"
proof (intro conjI impI)
  assume "frameDelta \<le> 0 \<or> frameDelta \<ge> 500"
  then show "updateRefreshEstimate frameDelta s = s" by (rule updateRefreshEstimate_discard)
next
  assume a: "frameIntervalsRef st = [] \<and> \<not> isCalibrated st \<and> length (filter validDelta ds) < 10"
  then have e: "st\<lparr> frameIntervalsRef := [], isCalibrated := False \<rparr> = st" by simp
  show "feedDeltas ds st = st\<lparr> frameIntervalsRef := filter validDelta ds \<rparr>"
    using feedDeltas_calibration [of ds st] a unfolding e by simp
next
  assume a: "frameIntervalsRef st = [] \<and> \<not> isCalibrated st \<and> length (filter validDelta ds) = 10"
  then have e: "st\<lparr> frameIntervalsRef := [], isCalibrated := False \<rparr> = st" by simp
  show "feedDeltas ds st
        = st\<lparr> frameIntervalsRef := filter validDelta ds,
              estimatedFrameIntervalRef :=
                Some ((sort (filter validDelta ds) ! 4 + sort (filter validDelta ds) ! 5) / 2),
              isCalibrated := True \<rparr>"
    using feedDeltas_calibration [of ds st] a unfolding e by simp
next
  show "feedDeltas [16, 17, 16, 17, 16, 17, 16, 17, 16, 17] initialLoopState
       = initialLoopState\<lparr> frameIntervalsRef := [16, 17, 16, 17, 16, 17, 16, 17, 16, 17],
                            estimatedFrameIntervalRef := Some (33 / 2),
                            isCalibrated := True \<rparr>"
    by (simp add: feedDeltas_def updateRefreshEstimate_def initialLoopState_def
        CALIBRATION_FRAME_COUNT_def Let_def)
qed


theorem calibration_by_median_of_ten_witness:
  "frameIntervalsRef initialLoopState = [] \<and> \<not> isCalibrated initialLoopState
   \<and> length (filter validDelta [0, 16, 17, 16, 17, 16, 600, 17, 16, 17, 16, 17]) = 10
   \<and> feedDeltas [0, 16, 17, 16, 17, 16, 600, 17, 16, 17, 16, 17] initialLoopState
       = initialLoopState\<lparr> frameIntervalsRef := [16, 17, 16, 17, 16, 17, 16, 17, 16, 17],
                            estimatedFrameIntervalRef := Some (33 / 2),
                            isCalibrated := True \<rparr>"
proof -
  have v: "filter validDelta [0, 16, 17, 16, 17, 16, 600, 17, 16, 17, 16, 17]
           = [16, 17, 16, 17, 16, 17, 16, 17, 16, 17]"
    by (simp add: validDelta_def)
  have i: "frameIntervalsRef initialLoopState = [] \<and> \<not> isCalibrated initialLoopState"
    by (simp add: initialLoopState_def)
  have "feedDeltas [0, 16, 17, 16, 17, 16, 600, 17, 16, 17, 16, 17] initialLoopState
       = initialLoopState\<lparr> frameIntervalsRef := [16, 17, 16, 17, 16, 17, 16, 17, 16, 17],
                            estimatedFrameIntervalRef := Some (33 / 2),
                            isCalibrated := True \<rparr>"
    using calibration_by_median_of_ten [of 0 initialLoopState initialLoopState
        "[0, 16, 17, 16, 17, 16, 600, 17, 16, 17, 16, 17]"] i
    unfolding v by simp
  then show ?thesis using i v by simp
qed

lemma updateRefreshEstimate_keeps:
  "startTimeRef (updateRefreshEstimate d st) = startTimeRef st"
  "trialEndedRef (updateRefreshEstimate d st) = trialEndedRef st"
  "stimulusHiddenRef (updateRefreshEstimate d st) = stimulusHiddenRef st"
  by (simp_all add: updateRefreshEstimate_def Let_def)

lemma animate_startTime: "startTimeRef (fst (animate cfg t st)) = startTimeRef st"
  by (simp add: animate_def Let_def updateRefreshEstimate_keeps split: option.splits)

lemma animate_latch:
  "trialEndedRef (fst (animate cfg t st))
     = (trialEndedRef st \<or> trialEndFired (snd (animate cfg t st)))"
  by (auto simp add: animate_def Let_def updateRefreshEstimate_keeps split: option.splits)

lemma halfFrameCorrection_latches:
  "halfFrameCorrection (st\<lparr> stimulusHiddenRef := a \<rparr>) = halfFrameCorrection st"
  "halfFrameCorrection (st\<lparr> trialEndedRef := b \<rparr>) = halfFrameCorrection st"
  by (simp_all add: halfFrameCorrection_def split: option.splits)

lemma animate_correctedElapsed:
  assumes "startTimeRef st = Some s"
  shows "correctedElapsed (snd (animate cfg t st))
         = Some (t - s + halfFrameCorrection (fst (animate cfg t st)))"
proof -
  have "startTimeRef (updateRefreshEstimate d
          (st\<lparr> lastFrameTimeRef := Some t, frameCountRef := frameCountRef st + 1 \<rparr>)) = Some s"
    for d using assms by (simp add: updateRefreshEstimate_keeps)
  then show ?thesis
    by (simp add: animate_def Let_def halfFrameCorrection_latches)
qed

lemma halfFrameCorrection_uncalibrated:
  "\<not> isCalibrated st \<Longrightarrow> halfFrameCorrection st = 0"
  by (simp add: halfFrameCorrection_def split: option.splits)

lemma animate_fired_requires:
  "trialEndFired (snd (animate cfg t st)) \<Longrightarrow> duration cfg > 0 \<and> \<not> trialEndedRef st"
  by (auto simp add: animate_def Let_def updateRefreshEstimate_keeps
      split: option.splits if_splits)

lemma startEffect_keeps: "trialEndedRef (refs (startEffect now c)) = trialEndedRef (refs c)"
  by (simp add: startEffect_def)

lemma fixationTimer_keeps: "trialEndedRef (refs (fixationTimer now c)) = trialEndedRef (refs c)"
  by (simp add: fixationTimer_def startEffect_def)

lemma animationFrame_latch:
  "trialEndedRef (refs (fst (animationFrame cfg t now c)))
     = (trialEndedRef (refs c)
        \<or> (\<not> trialEnded c \<and> trialEndFired (snd (animate cfg t (refs c)))))"
  using animate_latch [of cfg t "refs c"]
  by (simp add: animationFrame_def case_prod_beta Let_def startEffect_def)

lemma animationFrame_report:
  "snd (animationFrame cfg t now c)
     = (if trialEnded c then None else Some (snd (animate cfg t (refs c))))"
  by (simp add: animationFrame_def case_prod_beta Let_def)

lemma run_AnimationFrame:
  "run cfg (AnimationFrame t now # es) c
     = (if trialEnded c then run cfg es (fst (animationFrame cfg t now c))
        else (t, snd (animate cfg t (refs c))) # run cfg es (fst (animationFrame cfg t now c)))"
  using animationFrame_report [of cfg t now c]
  by (cases "animationFrame cfg t now c") (auto split: option.splits)

lemma run_latched:
  "trialEndedRef (refs c) \<Longrightarrow> p \<in> set (run cfg es c) \<Longrightarrow> \<not> trialEndFired (snd p)"
proof (induction es arbitrary: c)
  case Nil
  then show ?case by simp
next
  case (Cons e es)
  show ?case
  proof (cases e)
    case (AnimationFrame t now)
    have l: "trialEndedRef (refs (fst (animationFrame cfg t now c)))"
      using Cons.prems(1) by (simp add: animationFrame_latch)
    have n: "\<not> trialEndFired (snd (animate cfg t (refs c)))"
      using Cons.prems(1) animate_fired_requires [of cfg t "refs c"] by blast
    show ?thesis
      using Cons.prems(2) Cons.IH [OF l] n unfolding AnimationFrame run_AnimationFrame
      by (auto split: if_splits)
  next
    case (FixationTimer now)
    have l: "trialEndedRef (refs (fixationTimer now c))"
      using Cons.prems(1) by (simp add: fixationTimer_keeps)
    show ?thesis using Cons.prems(2) Cons.IH [OF l] unfolding FixationTimer by simp
  qed
qed

lemma run_no_duration:
  "duration cfg \<le> 0 \<Longrightarrow> p \<in> set (run cfg es c) \<Longrightarrow> \<not> trialEndFired (snd p)"
proof (induction es arbitrary: c)
  case Nil
  then show ?case by simp
next
  case (Cons e es)
  show ?case
  proof (cases e)
    case (AnimationFrame t now)
    have n: "\<not> trialEndFired (snd (animate cfg t (refs c)))"
      using Cons.prems(1) animate_fired_requires [of cfg t "refs c"] by auto
    show ?thesis
      using Cons.prems Cons.IH n unfolding AnimationFrame run_AnimationFrame
      by (auto split: if_splits)
  next
    case (FixationTimer now)
    show ?thesis using Cons.prems Cons.IH unfolding FixationTimer by simp
  qed
qed

lemma run_at_most_once:
  "length (filter (\<lambda>p. trialEndFired (snd p)) (run cfg es c)) \<le> 1"
proof (induction es arbitrary: c)
  case Nil
  then show ?case by simp
next
  case (Cons e es)
  show ?case
  proof (cases e)
    case (AnimationFrame t now)
    define c' where "c' = fst (animationFrame cfg t now c)"
    show ?thesis
    proof (cases "\<not> trialEnded c \<and> trialEndFired (snd (animate cfg t (refs c)))")
      case True
      then have "trialEndedRef (refs c')" unfolding c'_def by (simp add: animationFrame_latch)
      then have "\<forall>p \<in> set (run cfg es c'). \<not> trialEndFired (snd p)"
        using run_latched by blast
      then have "filter (\<lambda>p. trialEndFired (snd p)) (run cfg es c') = []"
        by (simp add: filter_empty_conv)
      then show ?thesis using True unfolding AnimationFrame run_AnimationFrame c'_def by simp
    next
      case False
      then show ?thesis
        using Cons.IH [of c'] unfolding AnimationFrame run_AnimationFrame c'_def by auto
    qed
  next
    case (FixationTimer now)
    show ?thesis using Cons.IH unfolding FixationTimer by simp
  qed
qed

text \<open>
  With the estimate seeded at 50 Hz and no fixation period, the edge fires on the frame at
  995 ms: the elapsed time is below the duration of 1000 ms, and the half-frame correction,
  half of the estimate that the same frame has just smoothed to 67.5 ms, carries it over.
\<close>

lemma trial_end_half_frame_correction:
  "run \<lparr> fixationTime = 0, duration = 1000, stimulusDuration = None \<rparr>
      [AnimationFrame 0 0, AnimationFrame 500 500, AnimationFrame 995 995,
       AnimationFrame 1495 1495]
      (mount \<lparr> fixationTime = 0, duration = 1000, stimulusDuration = None \<rparr> (Some 50) 0)
   = [(0, \<lparr> correctedElapsed = Some 10, stimulusHideFired = False, trialEndFired = False \<rparr>),
      (500, \<lparr> correctedElapsed = Some 510, stimulusHideFired = False, trialEndFired = False \<rparr>),
      (995, \<lparr> correctedElapsed = Some (4115 / 4), stimulusHideFired = True,
              trialEndFired = True \<rparr>)]"
  by (simp add: mount_def storeEffect_def startEffect_def animationFrame_def fixationTimer_def
      animate_def updateRefreshEstimate_def halfFrameCorrection_def EMA_ALPHA_def
      initialLoopState_def CALIBRATION_FRAME_COUNT_def Let_def)

text \<open>
  Claim C5 says that the trial-end edge fires on the first frame whose corrected elapsed
  time reaches \<open>fixationTime + duration\<close>, the elapsed time being that of the trial. The
  component measures it from \<open>startTimeRef\<close>, and the start effect rewrites \<open>startTimeRef\<close>
  whenever \<open>animate\<close> is re-created. With the default props \<open>fixationTime = 500\<close> and
  \<open>duration = 1000\<close>, mounted at time 0, the fixation timer restarts the clock at 500 ms:
  the frame at 1500 ms, where the trial has lasted \<open>fixationTime + duration\<close>, computes a
  corrected elapsed time of 1000 and does not fire, and the edge fires on the frame at
  2000 ms. The frame at 2250 ms returns at once. (The edge still fires at most once and
  only for a positive duration: \<open>run_at_most_once\<close>, \<open>run_no_duration\<close>.)
\<close>

theorem trial_end_counts_from_fixation_end:
  "run \<lparr> fixationTime = 500, duration = 1000, stimulusDuration = None \<rparr>
      [AnimationFrame 250 250, FixationTimer 500, AnimationFrame 750 750,
       AnimationFrame 1000 1000, AnimationFrame 1250 1250, AnimationFrame 1500 1500,
       AnimationFrame 1750 1750, AnimationFrame 2000 2000, AnimationFrame 2250 2250]
      (mount \<lparr> fixationTime = 500, duration = 1000, stimulusDuration = None \<rparr> None 0)
   = [(250, \<lparr> correctedElapsed = Some 250, stimulusHideFired = False, trialEndFired = False \<rparr>),
      (750, \<lparr> correctedElapsed = Some 250, stimulusHideFired = False, trialEndFired = False \<rparr>),
      (1000, \<lparr> correctedElapsed = Some 500, stimulusHideFired = False, trialEndFired = False \<rparr>),
      (1250, \<lparr> correctedElapsed = Some 750, stimulusHideFired = False, trialEndFired = False \<rparr>),
      (1500, \<lparr> correctedElapsed = Some 1000, stimulusHideFired = False, trialEndFired = False \<rparr>),
      (1750, \<lparr> correctedElapsed = Some 1250, stimulusHideFired = False, trialEndFired = False \<rparr>),
      (2000, \<lparr> correctedElapsed = Some 1500, stimulusHideFired = True, trialEndFired = True \<rparr>)]"
  by (simp add: mount_def storeEffect_def startEffect_def animationFrame_def fixationTimer_def
      animate_def updateRefreshEstimate_def halfFrameCorrection_def
      initialLoopState_def CALIBRATION_FRAME_COUNT_def Let_def)

end
